theory Spec2Isabelle
  imports Main "HOL-Library.Sublist"
begin

unbundle bit_operations_syntax

section \<open>The installd command core (cmds/installd/commands.cpp)\<close>

text \<open>
  The commands of \<^verbatim>\<open>commands.cpp\<close> are embedded as HOL functions.  C strings are
  values of type \<open>string\<close> (the bytes before the terminating NUL), \<open>int\<close> results are
  \<open>int\<close>, and a pointer that may be \<open>NULL\<close> is an \<open>option\<close>.  Helpers that the file
  only calls (the property store, the path builders of \<^verbatim>\<open>utils.h\<close>, libselinux, the
  external binaries) are parameters of the model.
\<close>

subsection \<open>System properties\<close>

text \<open>
  Modelled from the spec: the property store behind \<^verbatim>\<open>get_property\<close>
  (\<^verbatim>\<open>installd_deps.h\<close>) is read-only and string-valued, and a missing property is
  absence, not an error.  The store gives every key its value, the empty string for a
  key that is not set; \<^verbatim>\<open>get_property(key, value, default_value)\<close> copies
  the value (or, when there is none, the default if one is passed) and returns its
  length, so a property is present exactly when the result is positive.
\<close>

type_synonym property_store = "string \<Rightarrow> string"

definition get_property :: "property_store \<Rightarrow> string \<Rightarrow> string option \<Rightarrow> int \<times> string" where
  "get_property ps key default_value =
     (if ps key = []
      then (case default_value of None \<Rightarrow> (0, []) | Some dv \<Rightarrow> (int (length dv), dv))
      else (int (length (ps key)), ps key))"

definition check_boolean_property :: "property_store \<Rightarrow> string \<Rightarrow> bool \<Rightarrow> bool" where
  "check_boolean_property ps property_name default_value =
     (let (n, tmp_property_value) = get_property ps property_name None;
          have_property = (n > 0)
      in if \<not> have_property then default_value
         else tmp_property_value = ''true'')"

subsection \<open>Swap file policy\<close>

definition kAlwaysProvideSwapFile :: bool where
  "kAlwaysProvideSwapFile = False"

definition kDefaultProvideSwapFile :: bool where
  "kDefaultProvideSwapFile = True"

text \<open>
  \<^verbatim>\<open>ShouldUseSwapFileForDexopt\<close>, with the two compile-time policy constants as
  parameters; the function of the source is the instance at the constants above.
\<close>

definition ShouldUseSwapFileForDexopt_policy :: "bool \<Rightarrow> bool \<Rightarrow> property_store \<Rightarrow> bool" where
  "ShouldUseSwapFileForDexopt_policy always_provide default_provide ps =
     (if always_provide then True
      else let (n, dex2oat_prop_buf) = get_property ps ''dalvik.vm.dex2oat-swap'' (Some '''')
           in if n > 0 then (if dex2oat_prop_buf = ''true'' then True else False)
              else if default_provide then True
              else let is_low_mem = check_boolean_property ps ''ro.config.low_ram'' False
                   in if is_low_mem then True
                      else default_provide)"

definition ShouldUseSwapFileForDexopt :: "property_store \<Rightarrow> bool" where
  "ShouldUseSwapFileForDexopt ps =
     ShouldUseSwapFileForDexopt_policy kAlwaysProvideSwapFile kDefaultProvideSwapFile ps"

subsection \<open>The dex2oat argument vector\<close>

text \<open>The \<^verbatim>\<open>%d\<close> conversion of \<^verbatim>\<open>sprintf\<close>.\<close>

definition digit_char :: "nat \<Rightarrow> char" where
  "digit_char n = char_of (48 + n)"

fun show_nat :: "nat \<Rightarrow> string" where
  "show_nat n = (if n < 10 then [digit_char n] else show_nat (n div 10) @ [digit_char (n mod 10)])"

declare show_nat.simps [simp del]

definition show_int :: "int \<Rightarrow> string" where
  "show_int i = (if i < 0 then CHR ''-'' # show_nat (nat (- i)) else show_nat (nat i))"

text \<open>
  \<^verbatim>\<open>split\<close> and \<^verbatim>\<open>split_count\<close> cut a string at spaces with \<^verbatim>\<open>strtok_r\<close>: the
  tokens are the maximal runs of characters other than the space.  \<open>strtok_from cur cs\<close>
  scans \<open>cs\<close> with the token \<open>cur\<close> read so far.
\<close>

fun strtok_from :: "string \<Rightarrow> string \<Rightarrow> string list" where
  "strtok_from cur [] = (if cur = [] then [] else [cur])"
| "strtok_from cur (c # cs) =
     (if c = CHR '' ''
      then (if cur = [] then strtok_from [] cs else cur # strtok_from [] cs)
      else strtok_from (cur @ [c]) cs)"

definition split :: "string \<Rightarrow> string list" where
  "split buf = strtok_from [] buf"

definition split_count :: "string \<Rightarrow> int" where
  "split_count str = int (length (strtok_from [] str))"

definition MAX_INSTRUCTION_SET_LEN :: nat where
  "MAX_INSTRUCTION_SET_LEN = 7"

text \<open>
  \<^verbatim>\<open>run_dex2oat\<close> builds the argument vector and calls \<^verbatim>\<open>execv\<close>.  The model
  returns the vector passed to \<^verbatim>\<open>execv\<close> (without the final \<^verbatim>\<open>NULL\<close>), or
  \<open>None\<close> when the function returns before it (instruction set too long, or profile
  lists of different lengths).
\<close>

definition run_dex2oat ::
  "property_store \<Rightarrow> int \<Rightarrow> int \<Rightarrow> string \<Rightarrow> string \<Rightarrow> int \<Rightarrow> string \<Rightarrow>
   bool \<Rightarrow> bool \<Rightarrow> bool \<Rightarrow> bool \<Rightarrow> int list \<Rightarrow> int list \<Rightarrow> string list option" where
  "run_dex2oat ps zip_fd oat_fd input_file_name output_file_name swap_fd instruction_set
       vm_safe_mode debuggable post_bootcomplete use_jit profile_files_fd
       reference_profile_files_fd =
     (if length instruction_set \<ge> MAX_INSTRUCTION_SET_LEN then None
      else if length profile_files_fd \<noteq> length reference_profile_files_fd then None
      else
        let (n_Xms, dex2oat_Xms_flag) = get_property ps ''dalvik.vm.dex2oat-Xms'' None;
            have_dex2oat_Xms_flag = (n_Xms > 0);
            (n_Xmx, dex2oat_Xmx_flag) = get_property ps ''dalvik.vm.dex2oat-Xmx'' None;
            have_dex2oat_Xmx_flag = (n_Xmx > 0);
            (n_filter, dex2oat_compiler_filter_flag) =
               get_property ps ''dalvik.vm.dex2oat-filter'' None;
            have_dex2oat_compiler_filter_flag = (n_filter > 0);
            (n_threads, dex2oat_threads_buf) =
               get_property ps (if post_bootcomplete then ''dalvik.vm.dex2oat-threads''
                                else ''dalvik.vm.boot-dex2oat-threads'') None;
            have_dex2oat_threads_flag = (n_threads > 0);
            dex2oat_threads_arg = ''-j'' @ dex2oat_threads_buf;
            dex2oat_isa_features_key = ''dalvik.vm.isa.'' @ instruction_set @ ''.features'';
            (n_features, dex2oat_isa_features) = get_property ps dex2oat_isa_features_key None;
            have_dex2oat_isa_features = (n_features > 0);
            dex2oat_isa_variant_key = ''dalvik.vm.isa.'' @ instruction_set @ ''.variant'';
            (n_variant, dex2oat_isa_variant) = get_property ps dex2oat_isa_variant_key None;
            have_dex2oat_isa_variant = (n_variant > 0);
            dex2oat_norelocation = ''-Xnorelocate'';
            (n_flags, dex2oat_flags) = get_property ps ''dalvik.vm.dex2oat-flags'' None;
            dex2oat_flags_count = (if n_flags \<le> 0 then 0 else split_count dex2oat_flags);
            (n_vold, vold_decrypt) = get_property ps ''vold.decrypt'' (Some '''');
            have_vold_decrypt = (n_vold > 0);
            skip_compilation = (have_vold_decrypt \<and>
               (vold_decrypt = ''trigger_restart_min_framework'' \<or> vold_decrypt = ''1''));
            generate_debug_info = check_boolean_property ps ''debug.generate-debug-info'' False;
            RUNTIME_ARG = ''--runtime-arg'';
            zip_fd_arg = ''--zip-fd='' @ show_int zip_fd;
            zip_location_arg = ''--zip-location='' @ input_file_name;
            oat_fd_arg = ''--oat-fd='' @ show_int oat_fd;
            oat_location_arg = ''--oat-location='' @ output_file_name;
            instruction_set_arg = ''--instruction-set='' @ instruction_set;
            instruction_set_variant_arg = ''--instruction-set-variant='' @ dex2oat_isa_variant;
            instruction_set_features_arg = ''--instruction-set-features='' @ dex2oat_isa_features;
            have_dex2oat_swap_fd = (swap_fd \<ge> 0);
            dex2oat_swap_fd = ''--swap-fd='' @ show_int swap_fd;
            use_jit2 = (use_jit \<or> check_boolean_property ps ''debug.usejit'' False);
            dex2oat_Xms_arg = ''-Xms'' @ dex2oat_Xms_flag;
            dex2oat_Xmx_arg = ''-Xmx'' @ dex2oat_Xmx_flag;
            (dex2oat_compiler_filter_arg, have_dex2oat_compiler_filter_flag2,
               have_dex2oat_relocation_skip_flag) =
              (if skip_compilation then (''--compiler-filter=verify-none'', True, True)
               else if vm_safe_mode then (''--compiler-filter=interpret-only'', True, False)
               else if use_jit2 then (''--compiler-filter=verify-at-runtime'', True, False)
               else if have_dex2oat_compiler_filter_flag
                 then (''--compiler-filter='' @ dex2oat_compiler_filter_flag, True, False)
               else ([], False, False));
            debuggable2 =
              (if \<not> debuggable
               then (let (n_dbg, prop_buf) =
                            get_property ps ''dalvik.vm.always_debuggable'' (Some ''0'')
                     in n_dbg > 0 \<and> take 1 prop_buf = ''1'')
               else debuggable);
            profile_file_args =
               map (\<lambda>fd. ''--profile-file-fd='' @ show_int fd) profile_files_fd;
            reference_profile_file_args =
               map (\<lambda>fd. ''--reference-profile-file-fd='' @ show_int fd)
                 reference_profile_files_fd
        in Some
          ([''/system/bin/dex2oat'', zip_fd_arg, zip_location_arg, oat_fd_arg,
            oat_location_arg, instruction_set_arg]
           @ (if have_dex2oat_isa_variant then [instruction_set_variant_arg] else [])
           @ (if have_dex2oat_isa_features then [instruction_set_features_arg] else [])
           @ (if have_dex2oat_Xms_flag then [RUNTIME_ARG, dex2oat_Xms_arg] else [])
           @ (if have_dex2oat_Xmx_flag then [RUNTIME_ARG, dex2oat_Xmx_arg] else [])
           @ (if have_dex2oat_compiler_filter_flag2 then [dex2oat_compiler_filter_arg] else [])
           @ (if have_dex2oat_threads_flag then [dex2oat_threads_arg] else [])
           @ (if have_dex2oat_swap_fd then [dex2oat_swap_fd] else [])
           @ (if generate_debug_info then [''--generate-debug-info''] else [])
           @ (if debuggable2 then [''--debuggable''] else [])
           @ (if dex2oat_flags_count \<noteq> 0 then split dex2oat_flags else [])
           @ (if have_dex2oat_relocation_skip_flag then [RUNTIME_ARG, dex2oat_norelocation]
              else [])
           @ concat (map (\<lambda>(p, r). [p, r]) (zip profile_file_args reference_profile_file_args))))"

subsection \<open>The patchoat argument vector\<close>

text \<open>
  \<^verbatim>\<open>run_patchoat\<close>: the vector passed to \<^verbatim>\<open>execv\<close>, or \<open>None\<close> when the function
  returns before it.
\<close>

definition run_patchoat :: "int \<Rightarrow> int \<Rightarrow> string \<Rightarrow> string \<Rightarrow> string \<Rightarrow> string \<Rightarrow> string list option" where
  "run_patchoat input_fd oat_fd input_file_name output_file_name pkgname instruction_set =
     (if length instruction_set \<ge> MAX_INSTRUCTION_SET_LEN then None
      else
        let instruction_set_arg = ''--instruction-set='' @ instruction_set;
            output_oat_fd_arg = ''--output-oat-fd='' @ show_int oat_fd;
            input_oat_fd_arg = ''--input-oat-fd='' @ show_int input_fd;
            patched_image_location_arg =
               ''--patched-image-location=/system/framework/boot.art'';
            no_lock_arg = ''--no-lock-output''
        in Some [''/system/bin/patchoat'', patched_image_location_arg, no_lock_arg,
                 instruction_set_arg, output_oat_fd_arg, input_oat_fd_arg])"

subsection \<open>Flattening an overlay path\<close>

text \<open>
  \<^verbatim>\<open>flatten_path\<close>.  The lengths are \<^verbatim>\<open>size_t\<close> values; the largest one,
  \<^verbatim>\<open>SIZE_MAX\<close>, is a parameter of \<open>flatten_path_sz\<close>, and the function of the source
  is the instance at the 64-bit value.  The second operand of \<^verbatim>\<open>||\<close> in the overflow
  test is only evaluated when the first is false, that is when the sum in it does not
  wrap.  \<open>idmap_path\<close> is the output buffer (\<open>None\<close> for \<^verbatim>\<open>NULL\<close>) with its content
  as a C string; the result is the returned \<open>int\<close> and the buffer after the call.
  \<^verbatim>\<open>snprintf\<close> writes at most \<open>N - 1\<close> characters; the loop then replaces every
  \<^verbatim>\<open>/\<close> from position \<open>len_idmap_root\<close> up to the end of the string.
\<close>

definition slash_to_at :: "char \<Rightarrow> char" where
  "slash_to_at ch = (if ch = CHR ''/'' then CHR ''@'' else ch)"

definition flatten_path_sz ::
  "nat \<Rightarrow> string \<Rightarrow> string \<Rightarrow> string option \<Rightarrow> string option \<Rightarrow> nat \<Rightarrow> int \<times> string option" where
  "flatten_path_sz size_max prefix_str suffix_str overlay_path idmap_path N =
     (case overlay_path of
        None \<Rightarrow> (- 1, idmap_path)
      | Some overlay \<Rightarrow>
         (case idmap_path of
            None \<Rightarrow> (- 1, idmap_path)
          | Some buf \<Rightarrow>
             (let len_overlay_path = length overlay in
              if len_overlay_path < 2 \<or> take 1 overlay \<noteq> ''/'' then (- 1, idmap_path)
              else
                let len_idmap_root = length prefix_str;
                    len_suffix = length suffix_str
                in if size_max - len_idmap_root < len_overlay_path \<or>
                      size_max - (len_idmap_root + len_overlay_path) < len_suffix
                   then (- 1, idmap_path)
                   else if N < len_idmap_root + len_overlay_path + len_suffix
                   then (- 1, idmap_path)
                   else
                     let printed = take (N - 1) (prefix_str @ drop 1 overlay @ suffix_str)
                     in (0, Some (take len_idmap_root printed
                                  @ map slash_to_at (drop len_idmap_root printed))))))"

definition SIZE_MAX :: nat where
  "SIZE_MAX = 2 ^ 64 - 1"

definition flatten_path :: "string \<Rightarrow> string \<Rightarrow> string option \<Rightarrow> string option \<Rightarrow> nat \<Rightarrow> int \<times> string option" where
  "flatten_path = flatten_path_sz SIZE_MAX"

text \<open>
  Modelled from the spec: \<^verbatim>\<open>IDMAP_PREFIX\<close> and \<^verbatim>\<open>IDMAP_SUFFIX\<close>
  (\<^verbatim>\<open>installd_constants.h\<close>) are the fixed prefix and suffix of an idmap path, with
  which \<^verbatim>\<open>idmap\<close>, the one caller, calls \<^verbatim>\<open>flatten_path\<close>; the overlay
  \<^verbatim>\<open>/vendor/overlay/O.apk\<close> has the idmap path
  \<^verbatim>\<open>/data/resource-cache/vendor@overlay@O.apk@idmap\<close>.
\<close>

definition IDMAP_PREFIX :: string where
  "IDMAP_PREFIX = ''/data/resource-cache/''"

definition IDMAP_SUFFIX :: string where
  "IDMAP_SUFFIX = ''@idmap''"

subsection \<open>Helpers outside the file, and the journal of their calls\<close>

text \<open>
  The functions of \<^verbatim>\<open>utils.h\<close>, \<^verbatim>\<open>cutils/fs.h\<close>, libselinux and logwrap that the
  commands call are the fields of a record.  The path builders that fill a buffer
  and return \<^verbatim>\<open>bool\<close> (\<^verbatim>\<open>create_cache_path\<close>, \<^verbatim>\<open>calculate_oat_file_path\<close>,
  \<^verbatim>\<open>calculate_odex_file_path\<close>) return the path, or \<open>None\<close> for \<^verbatim>\<open>false\<close>; the
  bound \<^verbatim>\<open>PKG_PATH_MAX\<close> of the path buffers is a field too.  A helper that reads or changes the
  device takes the state of the device, of an arbitrary type \<open>'w\<close>, and returns it
  with its result, so nothing is assumed about what a helper does.  Every call of a
  helper that creates, changes or deletes files, and every log line, is appended to a
  journal.
\<close>

type_synonym uuid = "string option"
type_synonym userid_t = nat
type_synonym appid_t = nat
type_synonym uid_t = nat
type_synonym mode_t = nat

datatype storage_flag = FLAG_CE_STORAGE | FLAG_DE_STORAGE

datatype d_type = DT_DIR | DT_REG | DT_LNK | DT_UNKNOWN

datatype severity = ERROR | WARNING | INFO | DEBUG

datatype event =
    Ev_fs_prepare_dir_strict string mode_t uid_t uid_t
  | Ev_fs_prepare_dir string mode_t uid_t uid_t
  | Ev_setfilecon string string string uid_t
  | Ev_restorecon string nat
  | Ev_restorecon_pkgdir string string uid_t nat
  | Ev_fork_execvp "string list"
  | Ev_delete_dir_contents string int
  | Ev_log severity string

record 'w deps =
  multiuser_get_uid :: "userid_t \<Rightarrow> appid_t \<Rightarrow> uid_t"
  get_known_users :: "uuid \<Rightarrow> 'w \<Rightarrow> userid_t list"
  create_data_path :: "uuid \<Rightarrow> string"
  create_data_app_path :: "uuid \<Rightarrow> string"
  create_data_app_package_path :: "uuid \<Rightarrow> string \<Rightarrow> string"
  create_data_user_path :: "uuid \<Rightarrow> userid_t \<Rightarrow> string"
  create_data_user_package_path :: "uuid \<Rightarrow> userid_t \<Rightarrow> string \<Rightarrow> string"
  create_data_user_de_package_path :: "uuid \<Rightarrow> userid_t \<Rightarrow> string \<Rightarrow> string"
  android_media_dir_path :: string
  fs_prepare_dir_strict :: "string \<Rightarrow> mode_t \<Rightarrow> uid_t \<Rightarrow> uid_t \<Rightarrow> 'w \<Rightarrow> int \<times> 'w"
  fs_prepare_dir :: "string \<Rightarrow> mode_t \<Rightarrow> uid_t \<Rightarrow> uid_t \<Rightarrow> 'w \<Rightarrow> int \<times> 'w"
  selinux_android_setfilecon :: "string \<Rightarrow> string \<Rightarrow> string \<Rightarrow> uid_t \<Rightarrow> 'w \<Rightarrow> int \<times> 'w"
  selinux_android_restorecon :: "string \<Rightarrow> nat \<Rightarrow> 'w \<Rightarrow> int \<times> 'w"
  selinux_android_restorecon_pkgdir :: "string \<Rightarrow> string \<Rightarrow> uid_t \<Rightarrow> nat \<Rightarrow> 'w \<Rightarrow> int \<times> 'w"
  android_fork_execvp :: "string list \<Rightarrow> 'w \<Rightarrow> int \<times> 'w"
  delete_dir_contents :: "string \<Rightarrow> int \<Rightarrow> 'w \<Rightarrow> int \<times> 'w"
  access_F_OK :: "string \<Rightarrow> 'w \<Rightarrow> int"
  data_disk_free :: "string \<Rightarrow> 'w \<Rightarrow> int"
  readdir_all :: "string \<Rightarrow> 'w \<Rightarrow> (d_type \<times> string) list option"
  lookup_media_dir :: "string \<Rightarrow> string \<Rightarrow> 'w \<Rightarrow> int \<times> string"
  clear_cache_files :: "string \<Rightarrow> (string \<times> string) list \<Rightarrow> int \<Rightarrow> 'w \<Rightarrow> 'w"
  PKG_PATH_MAX :: nat
  validate_apk_path :: "string \<Rightarrow> int"
  validate_system_app_path :: "string \<Rightarrow> int"
  create_cache_path :: "string \<Rightarrow> string \<Rightarrow> string option"
  calculate_oat_file_path :: "string \<Rightarrow> string \<Rightarrow> string \<Rightarrow> string option"
  calculate_odex_file_path :: "string \<Rightarrow> string \<Rightarrow> string option"

record 'w state =
  journal :: "event list"
  world :: 'w

definition call :: "event \<Rightarrow> ('w \<Rightarrow> int \<times> 'w) \<Rightarrow> 'w state \<Rightarrow> int \<times> 'w state" where
  "call ev helper s =
     (let (rc, w) = helper (world s)
      in (rc, \<lparr>journal = journal s @ [ev], world = w\<rparr>))"

definition log_line :: "severity \<Rightarrow> string \<Rightarrow> 'w state \<Rightarrow> 'w state" where
  "log_line sev msg s = \<lparr>journal = journal s @ [Ev_log sev msg], world = world s\<rparr>"

definition AID_SYSTEM :: uid_t where
  "AID_SYSTEM = 1000"

definition SELINUX_ANDROID_RESTORECON_RECURSE :: nat where
  "SELINUX_ANDROID_RESTORECON_RECURSE = 4"

subsection \<open>App data: create and restorecon\<close>

text \<open>The modes \<^verbatim>\<open>0751\<close> and \<^verbatim>\<open>0771\<close> are written in decimal.\<close>

definition mode_0751 :: mode_t where
  "mode_0751 = 7 * 64 + 5 * 8 + 1"

definition mode_0771 :: mode_t where
  "mode_0771 = 7 * 64 + 7 * 8 + 1"

text \<open>An early \<^verbatim>\<open>return\<close> inside a block is \<open>Some\<close> of the returned value.\<close>

definition create_app_data ::
  "'w deps \<Rightarrow> uuid \<Rightarrow> string \<Rightarrow> userid_t \<Rightarrow> storage_flag set \<Rightarrow> appid_t \<Rightarrow> string \<Rightarrow>
   'w state \<Rightarrow> int \<times> 'w state" where
  "create_app_data d uuid pkgname userid flags appid seinfo s0 =
     (let uid = multiuser_get_uid d userid appid;
          (ret_ce, s1) =
            (if FLAG_CE_STORAGE \<in> flags then
               let path = create_data_user_package_path d uuid userid pkgname;
                   (rc, s) = call (Ev_fs_prepare_dir_strict path mode_0751 uid uid)
                               (fs_prepare_dir_strict d path mode_0751 uid uid) s0
               in if rc \<noteq> 0
                  then (Some (- 1), log_line ERROR (''Failed to prepare '' @ path) s)
                  else
                    let (rc2, s') = call (Ev_setfilecon path pkgname seinfo uid)
                                      (selinux_android_setfilecon d path pkgname seinfo uid) s
                    in if rc2 < 0
                       then (Some (- 1), log_line ERROR (''Failed to setfilecon '' @ path) s')
                       else (None, s')
             else (None, s0))
      in case ret_ce of
           Some r \<Rightarrow> (r, s1)
         | None \<Rightarrow>
            (if FLAG_DE_STORAGE \<in> flags then
               let path = create_data_user_de_package_path d uuid userid pkgname;
                   (rc, s) = call (Ev_fs_prepare_dir_strict path mode_0751 uid uid)
                               (fs_prepare_dir_strict d path mode_0751 uid uid) s1
               in if rc = - 1
                  then (- 1, log_line ERROR (''Failed to prepare '' @ path) s)
                  else
                    let (rc2, s') = call (Ev_setfilecon path pkgname seinfo uid)
                                      (selinux_android_setfilecon d path pkgname seinfo uid) s
                    in if rc2 < 0
                       then (- 1, log_line ERROR (''Failed to setfilecon '' @ path) s')
                       else (0, s')
             else (0, s1)))"

definition restorecon_app_data ::
  "'w deps \<Rightarrow> uuid \<Rightarrow> string option \<Rightarrow> userid_t \<Rightarrow> storage_flag set \<Rightarrow> appid_t \<Rightarrow>
   string option \<Rightarrow> 'w state \<Rightarrow> int \<times> 'w state" where
  "restorecon_app_data d uuid pkgName userid flags appid seinfo s0 =
     (let res0 = 0;
          seflags = SELINUX_ANDROID_RESTORECON_RECURSE
      in case (pkgName, seinfo) of
           (Some pkg, Some sei) \<Rightarrow>
             (let uid = multiuser_get_uid d userid appid;
                  (res1, s1) =
                    (if FLAG_CE_STORAGE \<in> flags then
                       let path = create_data_user_package_path d uuid userid pkg;
                           (rc, s) = call (Ev_restorecon_pkgdir path sei uid seflags)
                                       (selinux_android_restorecon_pkgdir d path sei uid seflags) s0
                       in if rc < 0
                          then (- 1, log_line ERROR (''restorecon failed for '' @ path) s)
                          else (res0, s)
                     else (res0, s0));
                  s2 =
                    (if FLAG_DE_STORAGE \<in> flags then
                       let path = create_data_user_de_package_path d uuid userid pkg;
                           (rc, s) = call (Ev_restorecon_pkgdir path sei uid seflags)
                                       (selinux_android_restorecon_pkgdir d path sei uid seflags) s1
                       in if rc < 0
                          then log_line ERROR (''restorecon failed for '' @ path) s
                          else s
                     else s1)
              in (res1, s2))
         | _ \<Rightarrow>
             (- 1, log_line ERROR
                ''Package name or seinfo tag is null when trying to restorecon.'' s0))"

subsection \<open>Moving a complete app\<close>

definition kCpPath :: string where
  "kCpPath = ''/system/bin/cp''"

definition cp_argv :: "string \<Rightarrow> string \<Rightarrow> string list" where
  "cp_argv from_path to_parent =
     [kCpPath, ''-F'', ''-p'', ''-R'', ''-P'', ''-d'', from_path, to_parent]"

definition storage_ce_de :: "storage_flag set" where
  "storage_ce_de = {FLAG_CE_STORAGE, FLAG_DE_STORAGE}"

text \<open>
  The block \<^verbatim>\<open>// Copy app\<close>; the result says whether the block completed
  (\<open>False\<close> is \<^verbatim>\<open>goto fail\<close>).
\<close>

definition move_complete_app_copy_app ::
  "'w deps \<Rightarrow> uuid \<Rightarrow> uuid \<Rightarrow> string \<Rightarrow> 'w state \<Rightarrow> bool \<times> 'w state" where
  "move_complete_app_copy_app d from_uuid to_uuid data_app_name s0 =
     (let from_path = create_data_app_package_path d from_uuid data_app_name;
          to_path = create_data_app_package_path d to_uuid data_app_name;
          to_parent = create_data_app_path d to_uuid;
          argv = cp_argv from_path to_parent;
          s1 = log_line DEBUG (''Copying '' @ from_path @ '' to '' @ to_path) s0;
          (rc, s2) = call (Ev_fork_execvp argv) (android_fork_execvp d argv) s1
      in if rc \<noteq> 0
         then (False, log_line ERROR (''Failed copying '' @ from_path @ '' to '' @ to_path
                                        @ '': status '' @ show_int rc) s2)
         else
           let (rc2, s3) = call (Ev_restorecon to_path SELINUX_ANDROID_RESTORECON_RECURSE)
                             (selinux_android_restorecon d to_path
                                SELINUX_ANDROID_RESTORECON_RECURSE) s2
           in if rc2 \<noteq> 0
              then (False, log_line ERROR (''Failed to restorecon '' @ to_path) s3)
              else (True, s3))"

text \<open>
  The body of the loop over the known users; \<open>True\<close> goes on with the next user (also
  after \<^verbatim>\<open>continue\<close>), \<open>False\<close> is \<^verbatim>\<open>goto fail\<close>.
\<close>

definition move_complete_app_user ::
  "'w deps \<Rightarrow> uuid \<Rightarrow> uuid \<Rightarrow> string \<Rightarrow> appid_t \<Rightarrow> string \<Rightarrow> userid_t \<Rightarrow> 'w state \<Rightarrow>
   bool \<times> 'w state" where
  "move_complete_app_user d from_uuid to_uuid package_name appid seinfo user s0 =
     (let from_path = create_data_user_package_path d from_uuid user package_name;
          to_path = create_data_user_package_path d to_uuid user package_name;
          to_parent = create_data_user_path d to_uuid user
      in if access_F_OK d from_path (world s0) \<noteq> 0
         then (True, log_line INFO (''Missing source '' @ from_path) s0)
         else
           let user_path = create_data_user_path d to_uuid user;
               (rc1, s1) = call (Ev_fs_prepare_dir user_path mode_0771 AID_SYSTEM AID_SYSTEM)
                             (fs_prepare_dir d user_path mode_0771 AID_SYSTEM AID_SYSTEM) s0
           in if rc1 \<noteq> 0
              then (False, log_line ERROR (''Failed to prepare user target '' @ user_path) s1)
              else
                let (rc2, s2) = create_app_data d to_uuid package_name user storage_ce_de
                                  appid seinfo s1
                in if rc2 \<noteq> 0
                   then (False, log_line ERROR
                                  (''Failed to create package target '' @ to_path) s2)
                   else
                     let argv = cp_argv from_path to_parent;
                         s3 = log_line DEBUG (''Copying '' @ from_path @ '' to '' @ to_path) s2;
                         (rc4, s4) = call (Ev_fork_execvp argv) (android_fork_execvp d argv) s3
                     in if rc4 \<noteq> 0
                        then (False, log_line ERROR
                                (''Failed copying '' @ from_path @ '' to '' @ to_path
                                 @ '': status '' @ show_int rc4) s4)
                        else
                          let (rc5, s5) = restorecon_app_data d to_uuid (Some package_name)
                                            user storage_ce_de appid (Some seinfo) s4
                          in if rc5 \<noteq> 0
                             then (False, log_line ERROR ''Failed to restorecon'' s5)
                             else (True, s5))"

fun move_complete_app_users ::
  "'w deps \<Rightarrow> uuid \<Rightarrow> uuid \<Rightarrow> string \<Rightarrow> appid_t \<Rightarrow> string \<Rightarrow> userid_t list \<Rightarrow> 'w state \<Rightarrow>
   bool \<times> 'w state" where
  "move_complete_app_users d from_uuid to_uuid package_name appid seinfo [] s = (True, s)"
| "move_complete_app_users d from_uuid to_uuid package_name appid seinfo (user # users) s =
     (case move_complete_app_user d from_uuid to_uuid package_name appid seinfo user s of
        (True, s') \<Rightarrow>
          move_complete_app_users d from_uuid to_uuid package_name appid seinfo users s'
      | (False, s') \<Rightarrow> (False, s'))"

text \<open>The label \<^verbatim>\<open>fail\<close>: \<^verbatim>\<open>delete_dir_contents(to, 1, NULL)\<close> on the copies.\<close>

definition rollback_dir :: "'w deps \<Rightarrow> string \<Rightarrow> 'w state \<Rightarrow> 'w state" where
  "rollback_dir d to_path s =
     (let (rc, s1) = call (Ev_delete_dir_contents to_path 1) (delete_dir_contents d to_path 1) s
      in if rc \<noteq> 0 then log_line WARNING (''Failed to rollback '' @ to_path) s1 else s1)"

fun rollback_users :: "'w deps \<Rightarrow> uuid \<Rightarrow> string \<Rightarrow> userid_t list \<Rightarrow> 'w state \<Rightarrow> 'w state" where
  "rollback_users d to_uuid package_name [] s = s"
| "rollback_users d to_uuid package_name (user # users) s =
     rollback_users d to_uuid package_name users
       (rollback_dir d (create_data_user_package_path d to_uuid user package_name) s)"

definition move_complete_app_fail ::
  "'w deps \<Rightarrow> uuid \<Rightarrow> string \<Rightarrow> string \<Rightarrow> userid_t list \<Rightarrow> 'w state \<Rightarrow> int \<times> 'w state" where
  "move_complete_app_fail d to_uuid package_name data_app_name users s =
     (let s1 = rollback_dir d (create_data_app_package_path d to_uuid data_app_name) s
      in (- 1, rollback_users d to_uuid package_name users s1))"

definition move_complete_app ::
  "'w deps \<Rightarrow> uuid \<Rightarrow> uuid \<Rightarrow> string \<Rightarrow> string \<Rightarrow> appid_t \<Rightarrow> string \<Rightarrow> 'w state \<Rightarrow>
   int \<times> 'w state" where
  "move_complete_app d from_uuid to_uuid package_name data_app_name appid seinfo s0 =
     (let users = get_known_users d from_uuid (world s0)
      in case move_complete_app_copy_app d from_uuid to_uuid data_app_name s0 of
           (False, s1) \<Rightarrow> move_complete_app_fail d to_uuid package_name data_app_name users s1
         | (True, s1) \<Rightarrow>
            (case move_complete_app_users d from_uuid to_uuid package_name appid seinfo users s1 of
               (False, s2) \<Rightarrow>
                 move_complete_app_fail d to_uuid package_name data_app_name users s2
             | (True, s2) \<Rightarrow> (0, s2)))"

subsection \<open>Cache reclamation\<close>

definition PATH_MAX :: nat where
  "PATH_MAX = 4096"

text \<open>
  Modelled from the spec: \<^verbatim>\<open>SECONDARY_USER_PREFIX\<close> (\<^verbatim>\<open>installd_constants.h\<close>) names
  the directory of the per-user data directories under the data root,
  \<^verbatim>\<open>/data/user/<u>\<close> in the on-disk layout.
\<close>

definition SECONDARY_USER_PREFIX :: string where
  "SECONDARY_USER_PREFIX = ''user/''"

text \<open>
  Modelled from the spec: the cache-collection session (\<^verbatim>\<open>cache_t\<close> of \<^verbatim>\<open>utils.h\<close>)
  is an accumulator that accepts roots to scan; \<^verbatim>\<open>add_cache_files(cache, basepath,
  cachedir)\<close> adds the \<open>cachedir\<close> subtrees found under \<open>basepath\<close>.  The accumulator is
  the list of the pairs added, in order.
\<close>

type_synonym cache_t = "(string \<times> string) list"

definition start_cache_collection :: cache_t where
  "start_cache_collection = []"

definition add_cache_files :: "cache_t \<Rightarrow> string \<Rightarrow> string \<Rightarrow> cache_t" where
  "add_cache_files cache basepath cachedir = cache @ [(basepath, cachedir)]"

text \<open>
  The test \<^verbatim>\<open>always skip "." and ".."\<close> on a directory name: \<^verbatim>\<open>name[0] == '.'\<close> and
  then either \<^verbatim>\<open>name[1] == 0\<close> or \<^verbatim>\<open>name[1] == '.' && name[2] == 0\<close>.
\<close>

definition skip_dot_dirs :: "string \<Rightarrow> bool" where
  "skip_dot_dirs name =
     (case name of
        [] \<Rightarrow> False
      | c0 # rest \<Rightarrow>
          c0 = CHR ''.'' \<and>
          (rest = [] \<or> (case rest of [] \<Rightarrow> False | c1 # rest2 \<Rightarrow> c1 = CHR ''.'' \<and> rest2 = [])))"

text \<open>
  The test \<^verbatim>\<open>name[0] < '0' || name[0] > '9'\<close>; \<^verbatim>\<open>name[0]\<close> of the empty name is the
  terminating NUL.
\<close>

definition not_a_user_dir :: "string \<Rightarrow> bool" where
  "not_a_user_dir name =
     (case name of
        [] \<Rightarrow> True
      | c0 # rest \<Rightarrow> (of_char c0 :: nat) < of_char CHR ''0'' \<or> (of_char c0 :: nat) > of_char CHR ''9'')"

text \<open>
  The two loops over \<^verbatim>\<open>readdir\<close>.  The loop state is the buffer \<^verbatim>\<open>tmpdir\<close> (whose
  first \<open>dirpos\<close> characters are the directory being read), the accumulator and the
  journal; \<^verbatim>\<open>strcpy(dirpos, name)\<close> overwrites the buffer from \<open>dirpos\<close> on.
  \<^verbatim>\<open>lookup_media_dir(basepath, dir)\<close> looks \<open>dir\<close> up under \<open>basepath\<close> and writes
  what it finds at the end of the buffer \<open>basepath\<close>: the helper gives its result and
  the characters it appends.
\<close>

definition free_cache_user_entry ::
  "nat \<Rightarrow> d_type \<times> string \<Rightarrow> string \<times> cache_t \<times> 'w state \<Rightarrow> string \<times> cache_t \<times> 'w state" where
  "free_cache_user_entry dirpos de st =
     (case st of (tmpdir, cache, s) \<Rightarrow>
        if fst de = DT_DIR then
          let name = snd de
          in if skip_dot_dirs name then (tmpdir, cache, s)
             else if length name + dirpos < PATH_MAX - 1 then
               let tmpdir' = take dirpos tmpdir @ name
               in (tmpdir', add_cache_files cache tmpdir' ''cache'', s)
             else (tmpdir, cache,
                   log_line WARNING (''Path exceeds limit: '' @ tmpdir @ name) s)
        else (tmpdir, cache, s))"

definition free_cache_media_entry ::
  "'w deps \<Rightarrow> nat \<Rightarrow> d_type \<times> string \<Rightarrow> string \<times> cache_t \<times> 'w state \<Rightarrow>
   string \<times> cache_t \<times> 'w state" where
  "free_cache_media_entry d dirpos de st =
     (case st of (tmpdir, cache, s) \<Rightarrow>
        if fst de = DT_DIR then
          let name = snd de
          in if not_a_user_dir name then (tmpdir, cache, s)
             else if length name + dirpos < PATH_MAX - 1 then
               let tmpdir1 = take dirpos tmpdir @ name;
                   (r1, found1) = lookup_media_dir d tmpdir1 ''Android'' (world s);
                   tmpdir2 = tmpdir1 @ found1
               in if r1 = 0 then
                    let (r2, found2) = lookup_media_dir d tmpdir2 ''data'' (world s);
                        tmpdir3 = tmpdir2 @ found2
                    in if r2 = 0 then (tmpdir3, add_cache_files cache tmpdir3 ''cache'', s)
                       else (tmpdir3, cache, s)
                  else (tmpdir2, cache, s)
             else (tmpdir, cache,
                   log_line WARNING (''Path exceeds limit: '' @ tmpdir @ name) s)
        else (tmpdir, cache, s))"

text \<open>
  The collection of the roots, from \<^verbatim>\<open>start_cache_collection\<close> to the end of the
  second loop.  \<^verbatim>\<open>strcpy\<close> into \<^verbatim>\<open>tmpdir\<close> of a path that does not fit in
  \<^verbatim>\<open>PATH_MAX\<close> bytes is undefined behaviour: the result is \<open>None\<close>.
\<close>

definition free_cache_collect :: "'w deps \<Rightarrow> uuid \<Rightarrow> 'w state \<Rightarrow> (cache_t \<times> 'w state) option" where
  "free_cache_collect d uuid s0 =
     (let cache0 = start_cache_collection;
          cache1 = (if uuid = None
                    then add_cache_files cache0 (create_data_user_path d None 0) ''cache''
                    else cache0);
          users_dir = create_data_path d uuid @ ''/'' @ SECONDARY_USER_PREFIX
      in if length users_dir \<ge> PATH_MAX then None
         else
           let dirpos = length users_dir;
               (tmpdir1, cache2, s1) =
                 (case readdir_all d users_dir (world s0) of
                    None \<Rightarrow> (users_dir, cache1, s0)
                  | Some des \<Rightarrow> fold (free_cache_user_entry dirpos) des (users_dir, cache1, s0));
               media_dir = android_media_dir_path d
           in if length media_dir \<ge> PATH_MAX then None
              else
                let dirpos2 = length media_dir;
                    (tmpdir2, cache3, s2) =
                      (case readdir_all d media_dir (world s1) of
                         None \<Rightarrow> (media_dir, cache2, s1)
                       | Some des \<Rightarrow>
                           fold (free_cache_media_entry d dirpos2) des (media_dir, cache2, s1))
                in Some (cache3, s2))"

definition free_cache :: "'w deps \<Rightarrow> uuid \<Rightarrow> int \<Rightarrow> 'w state \<Rightarrow> (int \<times> 'w state) option" where
  "free_cache d uuid free_size s0 =
     (let data_path = create_data_path d uuid;
          avail = data_disk_free d data_path (world s0)
      in if avail < 0 then Some (- 1, s0)
         else
           let s1 = log_line INFO (''free_cache('' @ show_int free_size @ '') avail ''
                                   @ show_int avail) s0
           in if avail \<ge> free_size then Some (0, s1)
              else
                (case free_cache_collect d uuid s1 of
                   None \<Rightarrow> None
                 | Some (cache, s2) \<Rightarrow>
                     let w3 = clear_cache_files d data_path cache free_size (world s2);
                         s3 = \<lparr>journal = journal s2, world = w3\<rparr>
                     in Some (if data_disk_free d data_path w3 \<ge> free_size then 0 else - 1,
                              s3)))"

subsection \<open>Files, inodes and descriptors\<close>

text \<open>
  \<^verbatim>\<open>rm_dex\<close> and \<^verbatim>\<open>dexopt\<close> call the kernel directly.  The file system they see is
  a table of path names, each naming an inode with its mode, owner, group and times
  (in seconds, as \<^verbatim>\<open>utime\<close> sets them), and a table of open descriptors; a descriptor
  keeps its inode when the name is unlinked.  \<^verbatim>\<open>unlink\<close> does not remove every name:
  \<open>unlink_refused\<close> gives the names it refuses and the \<^verbatim>\<open>errno\<close> it fails with
  (\<^verbatim>\<open>EISDIR\<close> when the name is a directory, \<^verbatim>\<open>EPERM\<close> when the file is immutable or
  its directory append-only).  The per-user
  \<^verbatim>\<open>code_cache\<close> directories, which \<^verbatim>\<open>dexopt\<close> opens with \<^verbatim>\<open>O_DIRECTORY\<close> and reads
  with \<^verbatim>\<open>openat\<close>, are a second table, from the directory to its entries.  A system
  call fails when the table says so (\<^verbatim>\<open>ENOENT\<close>, \<^verbatim>\<open>EEXIST\<close>, \<^verbatim>\<open>EBADF\<close>); where the
  source tests the result of a call, the call takes a flag that makes it fail for a
  reason outside the tables.
\<close>

datatype errno = ENOENT | EEXIST | EBADF | EIO | EPERM | EISDIR

record inode =
  st_mode :: mode_t
  st_uid :: uid_t
  st_gid :: uid_t
  st_atime :: int
  st_mtime :: int

record fs =
  names :: "string \<rightharpoonup> nat"
  inodes :: "nat \<rightharpoonup> inode"
  unlink_refused :: "string \<rightharpoonup> errno"
  fds :: "int \<rightharpoonup> nat"
  dirs :: "string \<rightharpoonup> (string \<rightharpoonup> nat)"
  dir_fds :: "int \<rightharpoonup> string"
  next_ino :: nat
  next_fd :: nat
  euid :: uid_t
  egid :: uid_t
  clock :: int

definition zero_stat :: inode where
  "zero_stat = \<lparr>st_mode = 0, st_uid = 0, st_gid = 0, st_atime = 0, st_mtime = 0\<rparr>"

definition new_inode :: "mode_t \<Rightarrow> fs \<Rightarrow> inode" where
  "new_inode mode s =
     \<lparr>st_mode = mode, st_uid = euid s, st_gid = egid s, st_atime = clock s, st_mtime = clock s\<rparr>"

definition sys_stat :: "fs \<Rightarrow> string \<Rightarrow> inode option" where
  "sys_stat s path = (case names s path of None \<Rightarrow> None | Some i \<Rightarrow> inodes s i)"

definition alloc_fd :: "nat \<Rightarrow> fs \<Rightarrow> int \<times> fs" where
  "alloc_fd i s =
     (int (next_fd s), s\<lparr>fds := (fds s)(int (next_fd s) \<mapsto> i), next_fd := Suc (next_fd s)\<rparr>)"

definition sys_open_rdonly :: "bool \<Rightarrow> string \<Rightarrow> fs \<Rightarrow> int \<times> fs" where
  "sys_open_rdonly fault path s =
     (case names s path of
        None \<Rightarrow> (- 1, s)
      | Some i \<Rightarrow> if fault then (- 1, s) else alloc_fd i s)"

definition sys_open_creat_excl :: "bool \<Rightarrow> string \<Rightarrow> mode_t \<Rightarrow> fs \<Rightarrow> int \<times> fs" where
  "sys_open_creat_excl fault path mode s =
     (case names s path of
        Some i \<Rightarrow> (- 1, s)
      | None \<Rightarrow>
          if fault then (- 1, s)
          else
            let i = next_ino s
            in alloc_fd i (s\<lparr>names := (names s)(path \<mapsto> i),
                              inodes := (inodes s)(i \<mapsto> new_inode mode s),
                              next_ino := Suc i\<rparr>))"

definition sys_unlink :: "string \<Rightarrow> fs \<Rightarrow> (int \<times> errno option) \<times> fs" where
  "sys_unlink path s =
     (case names s path of
        None \<Rightarrow> ((- 1, Some ENOENT), s)
      | Some i \<Rightarrow>
         (case unlink_refused s path of
            Some e \<Rightarrow> ((- 1, Some e), s)
          | None \<Rightarrow> ((0, None), s\<lparr>names := (names s)(path := None)\<rparr>)))"

definition update_inode :: "int \<Rightarrow> (inode \<Rightarrow> inode) \<Rightarrow> bool \<Rightarrow> fs \<Rightarrow> int \<times> fs" where
  "update_inode fd change fault s =
     (case fds s fd of
        None \<Rightarrow> (- 1, s)
      | Some i \<Rightarrow>
         (case inodes s i of
            None \<Rightarrow> (- 1, s)
          | Some n \<Rightarrow>
              if fault then (- 1, s)
              else (0, s\<lparr>inodes := (inodes s)(i \<mapsto> change n)\<rparr>)))"

definition sys_fchmod :: "bool \<Rightarrow> int \<Rightarrow> mode_t \<Rightarrow> fs \<Rightarrow> int \<times> fs" where
  "sys_fchmod fault fd mode s = update_inode fd (\<lambda>n. n\<lparr>st_mode := mode\<rparr>) fault s"

definition sys_fchown :: "bool \<Rightarrow> int \<Rightarrow> uid_t \<Rightarrow> uid_t \<Rightarrow> fs \<Rightarrow> int \<times> fs" where
  "sys_fchown fault fd owner grp s =
     update_inode fd (\<lambda>n. n\<lparr>st_uid := owner, st_gid := grp\<rparr>) fault s"

definition sys_utime :: "string \<Rightarrow> int \<Rightarrow> int \<Rightarrow> fs \<Rightarrow> int \<times> fs" where
  "sys_utime path actime modtime s =
     (case names s path of
        None \<Rightarrow> (- 1, s)
      | Some i \<Rightarrow>
         (case inodes s i of
            None \<Rightarrow> (- 1, s)
          | Some n \<Rightarrow>
              (0, s\<lparr>inodes := (inodes s)(i \<mapsto> n\<lparr>st_atime := actime, st_mtime := modtime\<rparr>)\<rparr>)))"

definition sys_close :: "int \<Rightarrow> fs \<Rightarrow> fs" where
  "sys_close fd s = s\<lparr>fds := (fds s)(fd := None), dir_fds := (dir_fds s)(fd := None)\<rparr>"

text \<open>Directories: \<^verbatim>\<open>lstat\<close>, \<^verbatim>\<open>open\<close> with \<^verbatim>\<open>O_PATH | O_DIRECTORY\<close>, \<^verbatim>\<open>fstatat\<close>, \<^verbatim>\<open>openat\<close>.\<close>

definition sys_lstat_dir :: "bool \<Rightarrow> string \<Rightarrow> fs \<Rightarrow> int \<times> errno option" where
  "sys_lstat_dir fault path s =
     (case dirs s path of
        None \<Rightarrow> (- 1, Some ENOENT)
      | Some ents \<Rightarrow> if fault then (- 1, Some EIO) else (0, None))"

definition sys_open_directory :: "bool \<Rightarrow> string \<Rightarrow> fs \<Rightarrow> int \<times> fs" where
  "sys_open_directory fault path s =
     (case dirs s path of
        None \<Rightarrow> (- 1, s)
      | Some ents \<Rightarrow>
          if fault then (- 1, s)
          else (int (next_fd s),
                s\<lparr>dir_fds := (dir_fds s)(int (next_fd s) \<mapsto> path), next_fd := Suc (next_fd s)\<rparr>))"

definition dir_entries :: "fs \<Rightarrow> int \<Rightarrow> (string \<rightharpoonup> nat) option" where
  "dir_entries s dirfd = (case dir_fds s dirfd of None \<Rightarrow> None | Some path \<Rightarrow> dirs s path)"

definition sys_fstatat :: "bool \<Rightarrow> int \<Rightarrow> string \<Rightarrow> fs \<Rightarrow> int \<times> errno option" where
  "sys_fstatat fault dirfd name s =
     (case dir_entries s dirfd of
        None \<Rightarrow> (- 1, Some EBADF)
      | Some ents \<Rightarrow>
         (case ents name of
            None \<Rightarrow> (- 1, Some ENOENT)
          | Some i \<Rightarrow> if fault then (- 1, Some EIO) else (0, None)))"

definition sys_openat_rdwr :: "bool \<Rightarrow> int \<Rightarrow> string \<Rightarrow> fs \<Rightarrow> int \<times> fs" where
  "sys_openat_rdwr fault dirfd name s =
     (case dir_entries s dirfd of
        None \<Rightarrow> (- 1, s)
      | Some ents \<Rightarrow>
         (case ents name of
            None \<Rightarrow> (- 1, s)
          | Some i \<Rightarrow> if fault then (- 1, s) else alloc_fd i s))"

definition sys_openat_creat :: "bool \<Rightarrow> int \<Rightarrow> string \<Rightarrow> mode_t \<Rightarrow> fs \<Rightarrow> int \<times> fs" where
  "sys_openat_creat fault dirfd name mode s =
     (case dir_fds s dirfd of
        None \<Rightarrow> (- 1, s)
      | Some path \<Rightarrow>
         (case dirs s path of
            None \<Rightarrow> (- 1, s)
          | Some ents \<Rightarrow>
              if fault then (- 1, s)
              else
                (case ents name of
                   Some i \<Rightarrow> alloc_fd i s
                 | None \<Rightarrow>
                     let i = next_ino s
                     in alloc_fd i (s\<lparr>dirs := (dirs s)(path \<mapsto> ents(name \<mapsto> i)),
                                       inodes := (inodes s)(i \<mapsto> new_inode mode s),
                                       next_ino := Suc i\<rparr>))))"

text \<open>The mode bits of \<^verbatim>\<open>sys/stat.h\<close>.\<close>

definition S_IRUSR :: mode_t where "S_IRUSR = 256"
definition S_IWUSR :: mode_t where "S_IWUSR = 128"
definition S_IRGRP :: mode_t where "S_IRGRP = 32"
definition S_IROTH :: mode_t where "S_IROTH = 4"

definition mode_0644 :: mode_t where
  "mode_0644 = 6 * 64 + 4 * 8 + 4"

definition mode_0640 :: mode_t where
  "mode_0640 = 6 * 64 + 4 * 8"

definition mode_0600 :: mode_t where
  "mode_0600 = 6 * 64"

subsection \<open>Removing a cached dex file\<close>

text \<open>\<^verbatim>\<open>rm_dex\<close>; the result carries the lines logged with \<^verbatim>\<open>ALOGE\<close>.\<close>

definition rm_dex :: "'w deps \<Rightarrow> string \<Rightarrow> string \<Rightarrow> fs \<Rightarrow> (int \<times> string list) \<times> fs" where
  "rm_dex d path instruction_set s =
     (if validate_apk_path d path \<noteq> 0 \<and> validate_system_app_path d path \<noteq> 0
      then ((- 1, [''invalid apk path '' @ path @ '' (bad prefix)'']), s)
      else
        (case create_cache_path d path instruction_set of
           None \<Rightarrow> ((- 1, []), s)
         | Some dex_path \<Rightarrow>
             let ((rc, err), s') = sys_unlink dex_path s
             in if rc < 0
                then ((- 1, if err \<noteq> Some ENOENT then [''Could not unlink '' @ dex_path] else []),
                      s')
                else ((0, []), s')))"

subsection \<open>dexopt\<close>

datatype dexopt_flag =
  DEXOPT_PUBLIC | DEXOPT_SAFEMODE | DEXOPT_DEBUGGABLE | DEXOPT_BOOTCOMPLETE | DEXOPT_USEJIT

datatype dexopt_needed_t =
  DEXOPT_DEX2OAT_NEEDED | DEXOPT_PATCHOAT_NEEDED | DEXOPT_SELF_PATCHOAT_NEEDED
  | DEXOPT_NEEDED_OTHER int

text \<open>A call either returns a value or ends the process with \<^verbatim>\<open>exit\<close>.\<close>

datatype outcome = Returns int | Exits int

text \<open>
  What can go wrong outside the tables of the file system, one flag for each call
  whose result the source tests, together with the exit status of the compiler that
  the child executes and the times its writes leave on the output inode.
\<close>

record faults =
  f_lstat_code_cache :: "userid_t \<Rightarrow> bool"
  f_open_code_cache :: "userid_t \<Rightarrow> bool"
  f_fstatat_profile :: "userid_t \<Rightarrow> bool"
  f_open_profile :: "userid_t \<Rightarrow> bool"
  f_open_reference_profile :: "userid_t \<Rightarrow> bool"
  f_fchown_reference_profile :: "userid_t \<Rightarrow> bool"
  f_open_input :: bool
  f_open_output :: bool
  f_fchmod_output :: bool
  f_fchown_output :: bool
  f_open_swap :: bool
  f_fork :: bool
  f_setgid :: bool
  f_setuid :: bool
  f_capset :: bool
  f_set_sched_policy :: bool
  f_setpriority :: bool
  f_flock :: bool
  f_execv :: bool
  compiler_exit :: "string list \<Rightarrow> int"
  compiler_times :: "int \<times> int"

text \<open>
  Modelled from the spec: \<^verbatim>\<open>CODE_CACHE_DIR_POSTFIX\<close> (\<^verbatim>\<open>installd_constants.h\<close>) is
  the \<^verbatim>\<open>code_cache\<close> subtree of a package directory.
\<close>

definition CODE_CACHE_DIR_POSTFIX :: string where
  "CODE_CACHE_DIR_POSTFIX = ''/code_cache''"

definition PROFILE_FILE_EXTENSION :: string where
  "PROFILE_FILE_EXTENSION = ''.prof''"

definition REFERENCE_PROFILE_FILE_EXTENSION :: string where
  "REFERENCE_PROFILE_FILE_EXTENSION = ''.prof.ref''"

definition close_all_fds :: "int list \<Rightarrow> fs \<Rightarrow> fs" where
  "close_all_fds fd_list s = fold sys_close fd_list s"

definition open_code_cache_for_user ::
  "fs deps \<Rightarrow> faults \<Rightarrow> userid_t \<Rightarrow> uuid \<Rightarrow> string \<Rightarrow> fs \<Rightarrow> int \<times> fs" where
  "open_code_cache_for_user d flt user volume_uuid pkgname s =
     (let code_cache_path =
            create_data_user_package_path d volume_uuid user pkgname @ CODE_CACHE_DIR_POSTFIX;
          (rc, err) = sys_lstat_dir (f_lstat_code_cache flt user) code_cache_path s
      in if rc = - 1 \<and> err \<noteq> Some ENOENT then (- 1, s)
         else sys_open_directory (f_open_code_cache flt user) code_cache_path s)"

text \<open>The result is \<^verbatim>\<open>*profile_fd\<close> and \<^verbatim>\<open>*reference_profile_fd\<close>.\<close>

definition open_profile_files_for_user ::
  "faults \<Rightarrow> userid_t \<Rightarrow> uid_t \<Rightarrow> string \<Rightarrow> int \<Rightarrow> fs \<Rightarrow> (int \<times> int) \<times> fs" where
  "open_profile_files_for_user flt user uid pkgname code_cache_fd s =
     (let profile_file = pkgname @ PROFILE_FILE_EXTENSION;
          (rc, err) = sys_fstatat (f_fstatat_profile flt user) code_cache_fd profile_file s
      in if rc = - 1 \<and> err \<noteq> Some ENOENT then ((- 1, - 1), s)
         else
           let (profile_fd, s1) =
                 sys_openat_rdwr (f_open_profile flt user) code_cache_fd profile_file s
           in if profile_fd < 0 then ((profile_fd, - 1), s1)
              else
                let reference_profile = pkgname @ REFERENCE_PROFILE_FILE_EXTENSION;
                    (reference_profile_fd, s2) =
                      sys_openat_creat (f_open_reference_profile flt user) code_cache_fd
                        reference_profile mode_0600 s1
                in if reference_profile_fd < 0
                   then ((profile_fd, reference_profile_fd), sys_close profile_fd s2)
                   else
                     let (rc2, s3) = sys_fchown (f_fchown_reference_profile flt user)
                                       reference_profile_fd uid uid s2
                     in if rc2 < 0 then ((- 1, - 1), sys_close profile_fd s3)
                        else ((profile_fd, reference_profile_fd), s3))"

text \<open>
  The loop of \<^verbatim>\<open>open_profile_files\<close> over the known users, with the two vectors of
  descriptors as accumulators.
\<close>

fun open_profile_files_loop ::
  "fs deps \<Rightarrow> faults \<Rightarrow> uuid \<Rightarrow> uid_t \<Rightarrow> string \<Rightarrow> userid_t list \<Rightarrow>
   int list \<times> int list \<times> fs \<Rightarrow> int list \<times> int list \<times> fs" where
  "open_profile_files_loop d flt volume_uuid uid pkgname [] acc = acc"
| "open_profile_files_loop d flt volume_uuid uid pkgname (user # users) acc =
     (case acc of (profile_fds, reference_profile_fds, s) \<Rightarrow>
        let (code_cache_fd, s1) = open_code_cache_for_user d flt user volume_uuid pkgname s
        in if code_cache_fd < 0
           then open_profile_files_loop d flt volume_uuid uid pkgname users
                  (profile_fds, reference_profile_fds, s1)
           else
             let ((profile_fd, reference_profile_fd), s2) =
                   open_profile_files_for_user flt user uid pkgname code_cache_fd s1;
                 s3 = sys_close code_cache_fd s2
             in if profile_fd \<ge> 0 \<and> reference_profile_fd \<ge> 0
                then open_profile_files_loop d flt volume_uuid uid pkgname users
                       (profile_fds @ [profile_fd],
                        reference_profile_fds @ [reference_profile_fd], s3)
                else open_profile_files_loop d flt volume_uuid uid pkgname users
                       (profile_fds, reference_profile_fds, s3))"

definition open_profile_files ::
  "fs deps \<Rightarrow> faults \<Rightarrow> uuid \<Rightarrow> uid_t \<Rightarrow> string \<Rightarrow> fs \<Rightarrow> int list \<times> int list \<times> fs" where
  "open_profile_files d flt volume_uuid uid pkgname s =
     open_profile_files_loop d flt volume_uuid uid pkgname (get_known_users d volume_uuid s)
       ([], [], s)"

text \<open>
  The child between \<^verbatim>\<open>fork\<close> and its end: the result is its exit status, and whether
  it executed the compiler.
\<close>

definition dexopt_child ::
  "faults \<Rightarrow> property_store \<Rightarrow> uid_t \<Rightarrow> bool \<Rightarrow> dexopt_needed_t \<Rightarrow> int \<Rightarrow> int \<Rightarrow> string \<Rightarrow>
   string \<Rightarrow> int \<Rightarrow> string \<Rightarrow> string \<Rightarrow> bool \<Rightarrow> bool \<Rightarrow> bool \<Rightarrow> int list \<Rightarrow> int list \<Rightarrow>
   int \<times> bool" where
  "dexopt_child flt ps uid boot_complete dexopt_needed input_fd out_fd input_file out_path
       swap_fd pkgname instruction_set vm_safe_mode debuggable use_jit profile_files_fd
       reference_profile_files_fd =
     (if f_setgid flt then (64, False)
      else if f_setuid flt then (65, False)
      else if f_capset flt then (66, False)
      else if boot_complete \<and> f_set_sched_policy flt then (70, False)
      else if boot_complete \<and> f_setpriority flt then (71, False)
      else if f_flock flt then (67, False)
      else if dexopt_needed = DEXOPT_PATCHOAT_NEEDED \<or>
              dexopt_needed = DEXOPT_SELF_PATCHOAT_NEEDED \<or>
              dexopt_needed = DEXOPT_DEX2OAT_NEEDED
      then
        (case (if dexopt_needed = DEXOPT_PATCHOAT_NEEDED \<or>
                  dexopt_needed = DEXOPT_SELF_PATCHOAT_NEEDED
               then run_patchoat input_fd out_fd input_file out_path pkgname instruction_set
               else run_dex2oat ps input_fd out_fd input_file out_path swap_fd
                      instruction_set vm_safe_mode debuggable boot_complete use_jit
                      profile_files_fd reference_profile_files_fd) of
           None \<Rightarrow> (68, False)
         | Some argv \<Rightarrow> if f_execv flt then (68, False) else (compiler_exit flt argv, True))
      else (73, False))"

text \<open>
  Modelled from the spec: \<^verbatim>\<open>wait_child\<close> (\<^verbatim>\<open>utils.h\<close>) translates the wait status
  of the child into success or failure; it is 0 exactly when the child exited with
  status 0.
\<close>

definition wait_child :: "int \<Rightarrow> int" where
  "wait_child exit_status = (if exit_status = 0 then 0 else 256 * exit_status)"

text \<open>
  \<^verbatim>\<open>fork\<close> and the parent's wait.  The compiler writes through the output descriptor,
  which leaves its times on the output inode; the child has dropped to the app uid
  and all capabilities before.  When \<^verbatim>\<open>fork\<close> fails there is no child and
  \<^verbatim>\<open>wait_child\<close> reports a failure.
\<close>

definition dexopt_fork_wait ::
  "faults \<Rightarrow> property_store \<Rightarrow> uid_t \<Rightarrow> bool \<Rightarrow> dexopt_needed_t \<Rightarrow> int \<Rightarrow> int \<Rightarrow> string \<Rightarrow>
   string \<Rightarrow> int \<Rightarrow> string \<Rightarrow> string \<Rightarrow> bool \<Rightarrow> bool \<Rightarrow> bool \<Rightarrow> int list \<Rightarrow> int list \<Rightarrow>
   fs \<Rightarrow> int \<times> fs" where
  "dexopt_fork_wait flt ps uid boot_complete dexopt_needed input_fd out_fd input_file
       out_path swap_fd pkgname instruction_set vm_safe_mode debuggable use_jit
       profile_files_fd reference_profile_files_fd s =
     (if f_fork flt then (1, s)
      else
        let (exit_status, compiled) =
              dexopt_child flt ps uid boot_complete dexopt_needed input_fd out_fd input_file
                out_path swap_fd pkgname instruction_set vm_safe_mode debuggable use_jit
                profile_files_fd reference_profile_files_fd;
            s1 = (if compiled
                  then snd (update_inode out_fd
                         (\<lambda>n. n\<lparr>st_atime := fst (compiler_times flt),
                                 st_mtime := snd (compiler_times flt)\<rparr>) False s)
                  else s)
        in (wait_child exit_status, s1))"

text \<open>The derivation of \<^verbatim>\<open>out_path\<close>; \<open>None\<close> is \<^verbatim>\<open>return -1\<close>.\<close>

definition dexopt_out_path :: "'w deps \<Rightarrow> string \<Rightarrow> string \<Rightarrow> string option \<Rightarrow> string option" where
  "dexopt_out_path d apk_path instruction_set oat_dir =
     (case oat_dir of
        None \<Rightarrow> create_cache_path d apk_path instruction_set
      | Some od \<Rightarrow>
          if take 1 od \<noteq> ''!'' then
            (if validate_apk_path d od \<noteq> 0 then None
             else calculate_oat_file_path d od apk_path instruction_set)
          else create_cache_path d apk_path instruction_set)"

text \<open>The \<^verbatim>\<open>switch\<close> on \<^verbatim>\<open>dexopt_needed\<close>: the input file, or how the call ends.\<close>

definition dexopt_input_file ::
  "'w deps \<Rightarrow> string \<Rightarrow> string \<Rightarrow> dexopt_needed_t \<Rightarrow> string \<Rightarrow> outcome + string" where
  "dexopt_input_file d apk_path instruction_set dexopt_needed out_path =
     (case dexopt_needed of
        DEXOPT_DEX2OAT_NEEDED \<Rightarrow> Inr apk_path
      | DEXOPT_PATCHOAT_NEEDED \<Rightarrow>
         (case calculate_odex_file_path d apk_path instruction_set of
            None \<Rightarrow> Inl (Returns (- 1))
          | Some in_odex_path \<Rightarrow> Inr in_odex_path)
      | DEXOPT_SELF_PATCHOAT_NEEDED \<Rightarrow> Inr out_path
      | DEXOPT_NEEDED_OTHER n \<Rightarrow> Inl (Exits 72))"

text \<open>The label \<^verbatim>\<open>fail\<close>.\<close>

definition dexopt_fail ::
  "int \<Rightarrow> int \<Rightarrow> string \<Rightarrow> bool \<Rightarrow> int list \<Rightarrow> int list \<Rightarrow> fs \<Rightarrow> outcome \<times> fs" where
  "dexopt_fail out_fd input_fd out_path use_profiles profile_files_fd
       reference_profile_files_fd s =
     (let s1 = (if out_fd \<ge> 0 then snd (sys_unlink out_path (sys_close out_fd s)) else s);
          s2 = (if input_fd \<ge> 0 then sys_close input_fd s1 else s1);
          s3 = (if use_profiles
                then close_all_fds reference_profile_files_fd
                       (close_all_fds profile_files_fd s2)
                else s2)
      in (Returns (- 1), s3))"

text \<open>
  The block \<^verbatim>\<open>// Create a swap file if necessary\<close>; the result is \<^verbatim>\<open>swap_fd\<close> and
  the lines the block logs with \<^verbatim>\<open>ALOGE\<close>.
\<close>

definition dexopt_open_swap ::
  "'w deps \<Rightarrow> faults \<Rightarrow> property_store \<Rightarrow> string \<Rightarrow> fs \<Rightarrow> (int \<times> string list) \<times> fs" where
  "dexopt_open_swap d flt ps out_path s =
     (if ShouldUseSwapFileForDexopt ps then
        let out_len = length out_path
        in if out_len + length ''.swap'' + 1 \<le> PKG_PATH_MAX d then
             let swap_file_name = out_path @ ''.swap'';
                 s1 = snd (sys_unlink swap_file_name s);
                 (swap_fd, s2) = sys_open_creat_excl (f_open_swap flt) swap_file_name mode_0600 s1
             in if swap_fd < 0
                then ((swap_fd,
                       [''installd could not create '' @ [CHR 0x27] @ swap_file_name @ [CHR 0x27]
                        @ '' for swap during dexopt'']), s2)
                else ((swap_fd, []), snd (sys_unlink swap_file_name s2))
           else ((- 1, [''installd could not create swap file for path '' @ out_path
                        @ '' during dexopt'']), s)
      else ((- 1, []), s))"


text \<open>From \<^verbatim>\<open>stat(input_file)\<close> to the end of the function.\<close>

definition dexopt_compile ::
  "'w deps \<Rightarrow> faults \<Rightarrow> property_store \<Rightarrow> uid_t \<Rightarrow> string \<Rightarrow> string \<Rightarrow> dexopt_needed_t \<Rightarrow>
   dexopt_flag set \<Rightarrow> bool \<Rightarrow> int list \<Rightarrow> int list \<Rightarrow> string \<Rightarrow> string \<Rightarrow> fs \<Rightarrow>
   outcome \<times> fs" where
  "dexopt_compile d flt ps uid pkgname instruction_set dexopt_needed dexopt_flags
       use_profiles profile_files_fd reference_profile_files_fd out_path input_file s0 =
     (let is_public = (DEXOPT_PUBLIC \<in> dexopt_flags);
          vm_safe_mode = (DEXOPT_SAFEMODE \<in> dexopt_flags);
          debuggable = (DEXOPT_DEBUGGABLE \<in> dexopt_flags);
          boot_complete = (DEXOPT_BOOTCOMPLETE \<in> dexopt_flags);
          use_jit = (DEXOPT_USEJIT \<in> dexopt_flags);
          input_stat = (case sys_stat s0 input_file of None \<Rightarrow> zero_stat | Some st \<Rightarrow> st);
          (input_fd, s1) = sys_open_rdonly (f_open_input flt) input_file s0
      in if input_fd < 0 then (Returns (- 1), s1)
         else
           let s2 = snd (sys_unlink out_path s1);
               (out_fd, s3) = sys_open_creat_excl (f_open_output flt) out_path mode_0644 s2
           in if out_fd < 0
              then dexopt_fail out_fd input_fd out_path use_profiles profile_files_fd
                     reference_profile_files_fd s3
              else
                let (rc4, s4) = sys_fchmod (f_fchmod_output flt) out_fd
                                  (S_IRUSR OR S_IWUSR OR S_IRGRP OR
                                   (if is_public then S_IROTH else 0)) s3
                in if rc4 < 0
                   then dexopt_fail out_fd input_fd out_path use_profiles profile_files_fd
                          reference_profile_files_fd s4
                   else
                     let (rc5, s5) = sys_fchown (f_fchown_output flt) out_fd AID_SYSTEM uid s4
                     in if rc5 < 0
                        then dexopt_fail out_fd input_fd out_path use_profiles profile_files_fd
                               reference_profile_files_fd s5
                        else
                          let ((swap_fd, swap_log), s6) = dexopt_open_swap d flt ps out_path s5;
                              (res, s7) =
                                dexopt_fork_wait flt ps uid boot_complete dexopt_needed input_fd
                                  out_fd input_file out_path swap_fd pkgname instruction_set
                                  vm_safe_mode debuggable use_jit profile_files_fd
                                  reference_profile_files_fd s6
                          in if res \<noteq> 0
                             then dexopt_fail out_fd input_fd out_path use_profiles
                                    profile_files_fd reference_profile_files_fd s7
                             else
                               let s8 = snd (sys_utime out_path (st_atime input_stat)
                                               (st_mtime input_stat) s7);
                                   s9 = sys_close input_fd (sys_close out_fd s8);
                                   s10 = (if swap_fd \<noteq> - 1 then sys_close swap_fd s9 else s9);
                                   s11 = (if use_profiles
                                          then close_all_fds reference_profile_files_fd
                                                 (close_all_fds profile_files_fd s10)
                                          else s10)
                               in (Returns 0, s11))"

text \<open>
  \<^verbatim>\<open>dexopt\<close>.  The flags are a set of the known flags, so the test for unknown
  fields has nothing to reject.
\<close>

definition dexopt ::
  "fs deps \<Rightarrow> faults \<Rightarrow> property_store \<Rightarrow> string \<Rightarrow> uid_t \<Rightarrow> string \<Rightarrow> string \<Rightarrow>
   dexopt_needed_t \<Rightarrow> string option \<Rightarrow> dexopt_flag set \<Rightarrow> uuid \<Rightarrow> bool \<Rightarrow> fs \<Rightarrow> outcome \<times> fs" where
  "dexopt d flt ps apk_path uid pkgname instruction_set dexopt_needed oat_dir dexopt_flags
       volume_uuid use_profiles s0 =
     (let (profile_files_fd, reference_profile_files_fd, s1) =
            (if use_profiles then open_profile_files d flt volume_uuid uid pkgname s0
             else ([], [], s0))
      in if use_profiles \<and> profile_files_fd = [] then (Returns 0, s1)
         else if length apk_path \<ge> PKG_PATH_MAX d - 8 then (Returns (- 1), s1)
         else
           (case dexopt_out_path d apk_path instruction_set oat_dir of
              None \<Rightarrow> (Returns (- 1), s1)
            | Some out_path \<Rightarrow>
               (case dexopt_input_file d apk_path instruction_set dexopt_needed out_path of
                  Inl ended \<Rightarrow> (ended, s1)
                | Inr input_file \<Rightarrow>
                    dexopt_compile d flt ps uid pkgname instruction_set dexopt_needed
                      dexopt_flags use_profiles profile_files_fd reference_profile_files_fd
                      out_path input_file s1)))"

subsection \<open>The compiler filter, in the words of the specification\<close>

text \<open>
  The precedence of the compiler filter as the specification words it, first match
  wins, with the JIT case widened to the property \<^verbatim>\<open>debug.usejit\<close>; to be compared
  with what \<open>run_dex2oat\<close> computes.
\<close>

definition restricted_boot :: "property_store \<Rightarrow> bool" where
  "restricted_boot ps =
     (ps ''vold.decrypt'' = ''trigger_restart_min_framework'' \<or> ps ''vold.decrypt'' = ''1'')"

definition spec_compiler_filter :: "property_store \<Rightarrow> bool \<Rightarrow> bool \<Rightarrow> string list" where
  "spec_compiler_filter ps safemode usejit =
     (if restricted_boot ps then [''--compiler-filter=verify-none'']
      else if safemode then [''--compiler-filter=interpret-only'']
      else if usejit \<or> ps ''debug.usejit'' = ''true''
        then [''--compiler-filter=verify-at-runtime'']
      else if ps ''dalvik.vm.dex2oat-filter'' = [] then []
      else [''--compiler-filter='' @ ps ''dalvik.vm.dex2oat-filter''])"

definition is_compiler_filter_arg :: "string \<Rightarrow> bool" where
  "is_compiler_filter_arg arg = prefix ''--compiler-filter='' arg"

subsection \<open>The roots of the cache sweep, in the words of the specification\<close>

text \<open>
  The entries of a directory that take part in the sweep and those that are warned
  about, as the specification words them and as amended: under the secondary-user
  root every directory but \<^verbatim>\<open>.\<close> and \<^verbatim>\<open>..\<close>, under the media root every directory
  whose name starts with a digit and that contains \<^verbatim>\<open>Android\<close> and, in it,
  \<^verbatim>\<open>data\<close>; in both cases only when the name fits the path buffer.  To be compared
  with what the loops of \<open>free_cache\<close> compute.
\<close>

definition fits_path_buffer :: "nat \<Rightarrow> string \<Rightarrow> bool" where
  "fits_path_buffer dirpos name = (length name + dirpos < PATH_MAX - 1)"

definition starts_with_digit :: "string \<Rightarrow> bool" where
  "starts_with_digit name =
     (case name of
        [] \<Rightarrow> False
      | c # rest \<Rightarrow> (of_char CHR ''0'' :: nat) \<le> of_char c \<and> (of_char c :: nat) \<le> of_char CHR ''9'')"

definition swept_user_names :: "nat \<Rightarrow> (d_type \<times> string) list \<Rightarrow> string list" where
  "swept_user_names dirpos des =
     map snd (filter (\<lambda>de. fst de = DT_DIR \<and> snd de \<noteq> ''.'' \<and> snd de \<noteq> ''..'' \<and>
                           fits_path_buffer dirpos (snd de)) des)"

definition warned_user_names :: "nat \<Rightarrow> (d_type \<times> string) list \<Rightarrow> string list" where
  "warned_user_names dirpos des =
     map snd (filter (\<lambda>de. fst de = DT_DIR \<and> snd de \<noteq> ''.'' \<and> snd de \<noteq> ''..'' \<and>
                           \<not> fits_path_buffer dirpos (snd de)) des)"

definition media_root :: "'w deps \<Rightarrow> 'w \<Rightarrow> string \<Rightarrow> string \<Rightarrow> string option" where
  "media_root d w media_dir name =
     (let found_android = lookup_media_dir d (media_dir @ name) ''Android'' w;
          android_dir = media_dir @ name @ snd found_android;
          found_data = lookup_media_dir d android_dir ''data'' w
      in if fst found_android = 0 \<and> fst found_data = 0
         then Some (android_dir @ snd found_data) else None)"

definition swept_media_roots ::
  "'w deps \<Rightarrow> 'w \<Rightarrow> string \<Rightarrow> (d_type \<times> string) list \<Rightarrow> string list" where
  "swept_media_roots d w media_dir des =
     List.map_filter (\<lambda>de. media_root d w media_dir (snd de))
       (filter (\<lambda>de. fst de = DT_DIR \<and> starts_with_digit (snd de) \<and>
                     fits_path_buffer (length media_dir) (snd de)) des)"

definition warned_media_names :: "nat \<Rightarrow> (d_type \<times> string) list \<Rightarrow> string list" where
  "warned_media_names dirpos des =
     map snd (filter (\<lambda>de. fst de = DT_DIR \<and> starts_with_digit (snd de) \<and>
                           \<not> fits_path_buffer dirpos (snd de)) des)"

definition directory_entries :: "'w deps \<Rightarrow> 'w \<Rightarrow> string \<Rightarrow> (d_type \<times> string) list" where
  "directory_entries d w path = (case readdir_all d path w of None \<Rightarrow> [] | Some des \<Rightarrow> des)"

definition spec_cache_roots :: "'w deps \<Rightarrow> uuid \<Rightarrow> 'w \<Rightarrow> cache_t" where
  "spec_cache_roots d uuid w =
     (let users_dir = create_data_path d uuid @ ''/'' @ SECONDARY_USER_PREFIX;
          media_dir = android_media_dir_path d
      in (if uuid = None then [(create_data_user_path d None 0, ''cache'')] else [])
         @ map (\<lambda>name. (users_dir @ name, ''cache''))
             (swept_user_names (length users_dir) (directory_entries d w users_dir))
         @ map (\<lambda>root. (root, ''cache''))
             (swept_media_roots d w media_dir (directory_entries d w media_dir)))"

definition path_exceeds_warning :: "event \<Rightarrow> string \<Rightarrow> bool" where
  "path_exceeds_warning ev name =
     (case ev of
        Ev_log sev msg \<Rightarrow> sev = WARNING \<and> prefix ''Path exceeds limit: '' msg \<and> suffix name msg
      | _ \<Rightarrow> False)"

subsection \<open>What a journal entry writes\<close>

text \<open>
  The path at or under which a journal entry creates, changes or deletes files: the
  directory prepared, labelled or deleted, and for \<^verbatim>\<open>cp\<close> the directory it copies
  into, its last argument.  A log line writes nothing.
\<close>

definition written_path :: "event \<Rightarrow> string option" where
  "written_path ev =
     (case ev of
        Ev_fs_prepare_dir_strict path mode uid gid \<Rightarrow> Some path
      | Ev_fs_prepare_dir path mode uid gid \<Rightarrow> Some path
      | Ev_setfilecon path pkg seinfo uid \<Rightarrow> Some path
      | Ev_restorecon path flags \<Rightarrow> Some path
      | Ev_restorecon_pkgdir path seinfo uid flags \<Rightarrow> Some path
      | Ev_fork_execvp argv \<Rightarrow> (if argv = [] then None else Some (last argv))
      | Ev_delete_dir_contents path also_delete_dir \<Rightarrow> Some path
      | Ev_log sev msg \<Rightarrow> None)"

definition is_log :: "event \<Rightarrow> bool" where
  "is_log ev = (case ev of Ev_log sev msg \<Rightarrow> True | _ \<Rightarrow> False)"

definition deletes_at_or_above :: "string \<Rightarrow> event \<Rightarrow> bool" where
  "deletes_at_or_above target ev =
     (case ev of Ev_delete_dir_contents path also_delete_dir \<Rightarrow> prefix path target | _ \<Rightarrow> False)"

definition writes_at :: "string \<Rightarrow> event \<Rightarrow> bool" where
  "writes_at target ev = (written_path ev = Some target)"

definition writes_among :: "string list \<Rightarrow> event \<Rightarrow> bool" where
  "writes_among paths ev = (case written_path ev of None \<Rightarrow> True | Some path \<Rightarrow> path \<in> set paths)"

definition no_prefix_among :: "string list \<Rightarrow> string \<Rightarrow> bool" where
  "no_prefix_among paths target = list_all (\<lambda>path. \<not> prefix path target) paths"

text \<open>
  \<open>writes_within P s s'\<close>: the journal of \<open>s'\<close> extends that of \<open>s\<close>, and every entry
  added writes at a path of \<open>P\<close>.
\<close>

definition writes_within :: "string set \<Rightarrow> 'w state \<Rightarrow> 'w state \<Rightarrow> bool" where
  "writes_within P s s' =
     (\<exists>evs. journal s' = journal s @ evs \<and>
            (\<forall>ev \<in> set evs. \<forall>path. written_path ev = Some path \<longrightarrow> path \<in> P))"

text \<open>The paths of a move on the source and on the destination volume.\<close>

definition source_paths :: "'w deps \<Rightarrow> uuid \<Rightarrow> string \<Rightarrow> string \<Rightarrow> userid_t list \<Rightarrow> string list" where
  "source_paths d from_uuid package_name data_app_name users =
     create_data_app_package_path d from_uuid data_app_name
     # map (\<lambda>user. create_data_user_package_path d from_uuid user package_name) users"

definition destination_paths ::
  "'w deps \<Rightarrow> uuid \<Rightarrow> string \<Rightarrow> string \<Rightarrow> userid_t list \<Rightarrow> string list" where
  "destination_paths d to_uuid package_name data_app_name users =
     [create_data_app_path d to_uuid, create_data_app_package_path d to_uuid data_app_name]
     @ concat (map (\<lambda>user. [create_data_user_path d to_uuid user,
                              create_data_user_package_path d to_uuid user package_name,
                              create_data_user_de_package_path d to_uuid user package_name])
                 users)"

definition rollback_events :: "'w deps \<Rightarrow> uuid \<Rightarrow> string \<Rightarrow> string \<Rightarrow> userid_t list \<Rightarrow> event list" where
  "rollback_events d to_uuid package_name data_app_name users =
     Ev_delete_dir_contents (create_data_app_package_path d to_uuid data_app_name) 1
     # map (\<lambda>user. Ev_delete_dir_contents
                       (create_data_user_package_path d to_uuid user package_name) 1) users"

subsection \<open>Well-formed file systems\<close>

text \<open>
  In a file system that the system calls have produced, every name refers to an inode
  that exists, and the inode numbers in use are below the next one to be allotted.
\<close>

definition fs_wf :: "fs \<Rightarrow> bool" where
  "fs_wf s = (\<forall>path i. names s path = Some i \<longrightarrow> i < next_ino s \<and> inodes s i \<noteq> None)"

text \<open>
  What opening the profiles may do to the files that were there before: no name is
  added or removed, \<^verbatim>\<open>unlink\<close> refuses the same names, no inode number in use is
  allotted again, and an inode in use keeps its times (\<^verbatim>\<open>fchown\<close> on a reference
  profile changes owner and group only).
\<close>

definition keeps_files :: "fs \<Rightarrow> fs \<Rightarrow> bool" where
  "keeps_files s s1 =
     (names s1 = names s \<and> unlink_refused s1 = unlink_refused s \<and> next_ino s \<le> next_ino s1 \<and>
      (\<forall>i n. i < next_ino s \<longrightarrow> inodes s i = Some n \<longrightarrow>
         (\<exists>n1. inodes s1 i = Some n1 \<and> st_atime n1 = st_atime n \<and> st_mtime n1 = st_mtime n)))"

subsection \<open>A device to run the commands on\<close>

text \<open>
  Helpers and a file system for running the model on concrete inputs.  The paths
  follow the on-disk layout of the specification; every helper that can fail succeeds,
  and a run with a failing helper overrides the field.
\<close>

definition example_data_path :: "uuid \<Rightarrow> string" where
  "example_data_path uuid = (case uuid of None \<Rightarrow> ''/data'' | Some u \<Rightarrow> ''/mnt/expand/'' @ u)"

definition example_deps :: "'w deps" where
  "example_deps =
     \<lparr>multiuser_get_uid = (\<lambda>userid appid. userid * 100000 + appid mod 100000),
      get_known_users = (\<lambda>uuid w. [0, 10]),
      create_data_path = example_data_path,
      create_data_app_path = (\<lambda>uuid. example_data_path uuid @ ''/app''),
      create_data_app_package_path =
        (\<lambda>uuid name. example_data_path uuid @ ''/app/'' @ name),
      create_data_user_path =
        (\<lambda>uuid userid. example_data_path uuid @ ''/user/'' @ show_nat userid),
      create_data_user_package_path =
        (\<lambda>uuid userid pkg. example_data_path uuid @ ''/user/'' @ show_nat userid @ ''/'' @ pkg),
      create_data_user_de_package_path =
        (\<lambda>uuid userid pkg.
           example_data_path uuid @ ''/user_de/'' @ show_nat userid @ ''/'' @ pkg),
      android_media_dir_path = ''/data/media/'',
      fs_prepare_dir_strict = (\<lambda>path mode uid gid w. (0, w)),
      fs_prepare_dir = (\<lambda>path mode uid gid w. (0, w)),
      selinux_android_setfilecon = (\<lambda>path pkg seinfo uid w. (0, w)),
      selinux_android_restorecon = (\<lambda>path flags w. (0, w)),
      selinux_android_restorecon_pkgdir = (\<lambda>path seinfo uid flags w. (0, w)),
      android_fork_execvp = (\<lambda>argv w. (0, w)),
      delete_dir_contents = (\<lambda>path also_delete_dir w. (0, w)),
      access_F_OK = (\<lambda>path w. 0),
      data_disk_free = (\<lambda>path w. 0),
      readdir_all = (\<lambda>path w. None),
      lookup_media_dir = (\<lambda>basepath name w. (- 1, [])),
      clear_cache_files = (\<lambda>path cache free_size w. w),
      PKG_PATH_MAX = 256,
      validate_apk_path = (\<lambda>path. if prefix ''/data/app/'' path then 0 else - 1),
      validate_system_app_path = (\<lambda>path. if prefix ''/system/'' path then 0 else - 1),
      create_cache_path =
        (\<lambda>src instruction_set.
           Some (''/data/dalvik-cache/'' @ instruction_set @ ''/''
                 @ map slash_to_at (drop 1 src) @ ''@classes.dex'')),
      calculate_oat_file_path =
        (\<lambda>oat_dir apk_path instruction_set.
           Some (oat_dir @ ''/'' @ instruction_set @ ''/base.odex'')),
      calculate_odex_file_path =
        (\<lambda>apk_path instruction_set.
           Some (''/data/app/oat/'' @ instruction_set @ ''/base.odex''))\<rparr>"

text \<open>
  A device with directories to sweep: under \<^verbatim>\<open>/data/user/\<close> the users 10 and 11, a
  directory \<^verbatim>\<open>foo\<close>, a hidden directory and an over-long name; under
  \<^verbatim>\<open>/data/media/\<close> user 0 with \<^verbatim>\<open>Android/data\<close>, user 11 without, and others.
\<close>

definition sweep_deps :: "'w deps" where
  "sweep_deps =
     example_deps
       \<lparr>readdir_all :=
          (\<lambda>path w.
             if path = ''/data/user/'' then
               Some [(DT_DIR, ''.''), (DT_DIR, ''..''), (DT_DIR, ''10''), (DT_REG, ''11''),
                     (DT_DIR, ''foo''), (DT_DIR, ''.x''), (DT_DIR, replicate 4090 CHR ''u'')]
             else if path = ''/data/media/'' then
               Some [(DT_DIR, ''.''), (DT_DIR, ''0''), (DT_DIR, ''SomeOther''), (DT_DIR, ''11''),
                     (DT_DIR, replicate 4090 CHR ''7'')]
             else None),
        lookup_media_dir :=
          (\<lambda>basepath name w.
             if (basepath, name) = (''/data/media/0'', ''Android'') then (0, ''/Android'')
             else if (basepath, name) = (''/data/media/0/Android'', ''data'') then (0, ''/data'')
             else (- 1, ''/''))\<rparr>"

definition empty_state :: "unit state" where
  "empty_state = \<lparr>journal = [], world = ()\<rparr>"

text \<open>Devices on which \<^verbatim>\<open>cp\<close> fails: for the data of user 0 on volume \<^verbatim>\<open>v2\<close>, and always.\<close>

definition user_copy_fails_deps :: "'w deps" where
  "user_copy_fails_deps =
     example_deps
       \<lparr>android_fork_execvp :=
          (\<lambda>argv w. (if last argv = ''/mnt/expand/v2/user/0'' then 1 else 0, w))\<rparr>"

definition copy_fails_deps :: "'w deps" where
  "copy_fails_deps = example_deps \<lparr>android_fork_execvp := (\<lambda>argv w. (1, w))\<rparr>"

definition example_apk :: inode where
  "example_apk = \<lparr>st_mode = mode_0644, st_uid = AID_SYSTEM, st_gid = AID_SYSTEM,
                   st_atime = 1111, st_mtime = 2222\<rparr>"

definition example_fs :: fs where
  "example_fs =
     \<lparr>names = [''/data/app/a.apk'' \<mapsto> 1],
      inodes = [1 \<mapsto> example_apk],
      unlink_refused = Map.empty,
      fds = Map.empty,
      dirs = Map.empty,
      dir_fds = Map.empty,
      next_ino = 2,
      next_fd = 3,
      euid = 0,
      egid = 0,
      clock = 5000\<rparr>"




definition no_faults :: faults where
  "no_faults =
     \<lparr>f_lstat_code_cache = (\<lambda>user. False),
      f_open_code_cache = (\<lambda>user. False),
      f_fstatat_profile = (\<lambda>user. False),
      f_open_profile = (\<lambda>user. False),
      f_open_reference_profile = (\<lambda>user. False),
      f_fchown_reference_profile = (\<lambda>user. False),
      f_open_input = False,
      f_open_output = False,
      f_fchmod_output = False,
      f_fchown_output = False,
      f_open_swap = False,
      f_fork = False,
      f_setgid = False,
      f_setuid = False,
      f_capset = False,
      f_set_sched_policy = False,
      f_setpriority = False,
      f_flock = False,
      f_execv = False,
      compiler_exit = (\<lambda>argv. 0),
      compiler_times = (7777, 8888)\<rparr>"


definition no_properties :: property_store where
  "no_properties = (\<lambda>key. [])"

definition usejit_properties :: property_store where
  "usejit_properties = no_properties (''debug.usejit'' := ''true'', ''dalvik.vm.dex2oat-filter'' := ''speed'')"

definition decrypt_properties :: property_store where
  "decrypt_properties = no_properties (''vold.decrypt'' := ''trigger_restart_min_framework'')"

section \<open>Properties\<close>

subsection \<open>Swap file policy\<close>

lemma get_property_fst_pos: "(fst (get_property ps key dv) > 0) =
    (ps key \<noteq> [] \<or> (\<exists>d. dv = Some d \<and> d \<noteq> []))"
  by (auto simp: get_property_def split: option.splits)









subsection \<open>The compiler filter\<close>

lemma filter_if_none:
  "(\<forall>x \<in> set xs. \<not> P x) \<Longrightarrow> filter P (if c then xs else []) = []"
  by (simp add: filter_empty_conv)

lemma set_pairs_subset:
  "set (concat (map (\<lambda>(p, r). [p, r]) (zip ps rs))) \<subseteq> set ps \<union> set rs"
  by (induction ps arbitrary: rs) (auto simp: zip_Cons1 split: list.splits dest: set_zip_leftD set_zip_rightD)

lemma profile_args_none:
  assumes "\<forall>x \<in> set (map f ps) \<union> set (map g rs). \<not> P x"
  shows "filter P (concat (map (\<lambda>(p, r). [p, r]) (zip (map f ps) (map g rs)))) = []"
  using assms set_pairs_subset [of "map f ps" "map g rs"]
  by (simp only: filter_empty_conv) blast

lemma dex2oat_flags_split:
  "(if (if fst (get_property ps k None) \<le> 0 then 0 else split_count (snd (get_property ps k None))) \<noteq> 0
    then split (snd (get_property ps k None)) else []) = split (ps k)"
  by (auto simp: get_property_def split_count_def split_def)

lemma run_dex2oat_filter_args:
  assumes "\<not> MAX_INSTRUCTION_SET_LEN \<le> length instruction_set"
    and "length profile_files_fd = length reference_profile_files_fd"
  shows "filter is_compiler_filter_arg
           (the (run_dex2oat ps zip_fd oat_fd input_file_name output_file_name swap_fd
              instruction_set vm_safe_mode debuggable post_bootcomplete use_jit profile_files_fd
              reference_profile_files_fd))
         = spec_compiler_filter ps vm_safe_mode use_jit
           @ filter is_compiler_filter_arg (split (ps ''dalvik.vm.dex2oat-flags''))"
proof -
  have pa: "filter is_compiler_filter_arg
     (concat (map (\<lambda>(p, r). [p, r])
        (zip (map (\<lambda>fd. ''--profile-file-fd='' @ show_int fd) profile_files_fd)
             (map (\<lambda>fd. ''--reference-profile-file-fd='' @ show_int fd) reference_profile_files_fd)))) = []"
    by (rule profile_args_none) (auto simp: is_compiler_filter_arg_def)
  show ?thesis
    apply (simp only: run_dex2oat_def assms if_False not_True_eq_False refl simp_thms)
    apply (simp only: Let_def case_prod_beta)
    apply (simp only: dex2oat_flags_split option.sel filter_append pa append_Nil2)
    apply (simp add: filter_if_none is_compiler_filter_arg_def spec_compiler_filter_def restricted_boot_def
      get_property_def check_boolean_property_def)
    done
qed

lemma restricted_boot_iff:
  "(0 < fst (get_property ps ''vold.decrypt'' (Some [])) \<and>
     (snd (get_property ps ''vold.decrypt'' (Some [])) = ''trigger_restart_min_framework'' \<or>
      snd (get_property ps ''vold.decrypt'' (Some [])) = ''1'')) = restricted_boot ps"
  by (auto simp: get_property_def restricted_boot_def)

lemma run_dex2oat_norelocate_args:
  assumes "\<not> MAX_INSTRUCTION_SET_LEN \<le> length instruction_set"
    and "length profile_files_fd = length reference_profile_files_fd"
  shows "filter (\<lambda>arg. arg = ''-Xnorelocate'')
           (the (run_dex2oat ps zip_fd oat_fd input_file_name output_file_name swap_fd
              instruction_set vm_safe_mode debuggable post_bootcomplete use_jit profile_files_fd
              reference_profile_files_fd))
         = filter (\<lambda>arg. arg = ''-Xnorelocate'') (split (ps ''dalvik.vm.dex2oat-flags''))
           @ (if restricted_boot ps then [''-Xnorelocate''] else [])"
proof -
  have pa: "filter (\<lambda>arg. arg = ''-Xnorelocate'')
     (concat (map (\<lambda>(p, r). [p, r])
        (zip (map (\<lambda>fd. ''--profile-file-fd='' @ show_int fd) profile_files_fd)
             (map (\<lambda>fd. ''--reference-profile-file-fd='' @ show_int fd) reference_profile_files_fd)))) = []"
    by (rule profile_args_none) auto
  show ?thesis
    apply (simp only: run_dex2oat_def assms if_False not_True_eq_False refl simp_thms)
    apply (simp only: Let_def case_prod_beta)
    apply (simp only: dex2oat_flags_split option.sel filter_append pa append_Nil2 restricted_boot_iff)
    apply (simp add: filter_if_none)
    done
qed

lemma sublist_append_left: "sublist xs zs \<Longrightarrow> sublist xs (ys @ zs)"
  unfolding sublist_def by (metis append_assoc)

lemma sublist_Cons_left: "sublist xs zs \<Longrightarrow> sublist xs (y # zs)"
  using sublist_append_left [of xs zs "[y]"] by simp

lemma run_dex2oat_norelocate_pair:
  assumes "\<not> MAX_INSTRUCTION_SET_LEN \<le> length instruction_set"
    and "length profile_files_fd = length reference_profile_files_fd"
    and "restricted_boot ps"
  shows "sublist [''--runtime-arg'', ''-Xnorelocate'']
           (the (run_dex2oat ps zip_fd oat_fd input_file_name output_file_name swap_fd
              instruction_set vm_safe_mode debuggable post_bootcomplete use_jit profile_files_fd
              reference_profile_files_fd))"
  apply (simp only: run_dex2oat_def assms if_False not_True_eq_False refl simp_thms)
  apply (simp only: Let_def case_prod_beta)
  apply (simp only: option.sel restricted_boot_iff assms if_True snd_conv fst_conv)
  apply (rule sublist_append_rightI | rule sublist_append_left | rule sublist_Cons_left)+
  done

text \<open>
  C4, as amended.  In the argument vector that \<open>run_dex2oat\<close> passes to \<^verbatim>\<open>execv\<close>, the
  \<^verbatim>\<open>--compiler-filter=\<close> arguments are the one chosen by first match, followed by
  those that the property \<^verbatim>\<open>dalvik.vm.dex2oat-flags\<close> passes through: with
  \<^verbatim>\<open>vold.decrypt\<close> indicating a restricted boot \<^verbatim>\<open>verify-none\<close>, and then
  \<^verbatim>\<open>--runtime-arg -Xnorelocate\<close> is in the vector; else with SAFEMODE
  \<^verbatim>\<open>interpret-only\<close>; else with USEJIT or the property \<^verbatim>\<open>debug.usejit\<close> equal to
  \<^verbatim>\<open>true\<close>, \<^verbatim>\<open>verify-at-runtime\<close>; else the value of \<^verbatim>\<open>dalvik.vm.dex2oat-filter\<close>
  when present; else none.  Without a restricted boot \<^verbatim>\<open>-Xnorelocate\<close> is in the
  vector only when the passed-through flags have it.
\<close>

theorem run_dex2oat_compiler_filter:
  assumes "run_dex2oat ps zip_fd oat_fd input_file_name output_file_name swap_fd
              instruction_set vm_safe_mode debuggable post_bootcomplete use_jit profile_files_fd
              reference_profile_files_fd = Some argv"
  shows "filter is_compiler_filter_arg argv
           = spec_compiler_filter ps vm_safe_mode use_jit
             @ filter is_compiler_filter_arg (split (ps ''dalvik.vm.dex2oat-flags''))
       \<and> (''-Xnorelocate'' \<in> set argv)
           = (restricted_boot ps \<or> ''-Xnorelocate'' \<in> set (split (ps ''dalvik.vm.dex2oat-flags'')))
       \<and> (restricted_boot ps \<longrightarrow> sublist [''--runtime-arg'', ''-Xnorelocate''] argv)"
proof -
  have g1: "\<not> MAX_INSTRUCTION_SET_LEN \<le> length instruction_set"
    using assms by (rule contrapos_pn) (simp add: run_dex2oat_def)
  have g2: "length profile_files_fd = length reference_profile_files_fd"
    using assms g1 by (rule_tac ccontr) (simp add: run_dex2oat_def)
  have argv: "argv = the (run_dex2oat ps zip_fd oat_fd input_file_name output_file_name swap_fd
              instruction_set vm_safe_mode debuggable post_bootcomplete use_jit profile_files_fd
              reference_profile_files_fd)"
    using assms by simp
  have a: "filter is_compiler_filter_arg argv
           = spec_compiler_filter ps vm_safe_mode use_jit
             @ filter is_compiler_filter_arg (split (ps ''dalvik.vm.dex2oat-flags''))"
    unfolding argv by (rule run_dex2oat_filter_args [OF g1 g2])
  have "filter (\<lambda>arg. arg = ''-Xnorelocate'') argv
         = filter (\<lambda>arg. arg = ''-Xnorelocate'') (split (ps ''dalvik.vm.dex2oat-flags''))
           @ (if restricted_boot ps then [''-Xnorelocate''] else [])"
    unfolding argv by (rule run_dex2oat_norelocate_args [OF g1 g2])
  then have "set (filter (\<lambda>arg. arg = ''-Xnorelocate'') argv)
         = set (filter (\<lambda>arg. arg = ''-Xnorelocate'') (split (ps ''dalvik.vm.dex2oat-flags''))
           @ (if restricted_boot ps then [''-Xnorelocate''] else []))"
    by simp
  then have b: "(''-Xnorelocate'' \<in> set argv)
           = (restricted_boot ps \<or> ''-Xnorelocate'' \<in> set (split (ps ''dalvik.vm.dex2oat-flags'')))"
    by (auto split: if_splits)
  have c: "restricted_boot ps \<longrightarrow> sublist [''--runtime-arg'', ''-Xnorelocate''] argv"
    unfolding argv using run_dex2oat_norelocate_pair [OF g1 g2] by blast
  show ?thesis using a b c by blast
qed

lemma show_int_3: "show_int 3 = ''3''"
  by code_simp

lemma show_int_4: "show_int 4 = ''4''"
  by code_simp

text \<open>
  The claim as it is worded fails when the flag USEJIT is not set and the property
  \<^verbatim>\<open>debug.usejit\<close> is \<^verbatim>\<open>true\<close>: the filter is \<^verbatim>\<open>verify-at-runtime\<close>, not the value
  \<^verbatim>\<open>speed\<close> of \<^verbatim>\<open>dalvik.vm.dex2oat-filter\<close>.
\<close>

theorem run_dex2oat_usejit_counterexample:
  "run_dex2oat usejit_properties 3 4 ''/data/app/a.apk'' ''/data/dalvik-cache/arm64/x.dex''
     (- 1) ''arm64'' False False True False [] []
   = Some [''/system/bin/dex2oat'', ''--zip-fd=3'', ''--zip-location=/data/app/a.apk'',
           ''--oat-fd=4'', ''--oat-location=/data/dalvik-cache/arm64/x.dex'',
           ''--instruction-set=arm64'', ''--compiler-filter=verify-at-runtime'']"
  by (simp add: run_dex2oat_def usejit_properties_def no_properties_def get_property_def
      check_boolean_property_def MAX_INSTRUCTION_SET_LEN_def split_count_def split_def
      show_int_3 show_int_4 Let_def)

theorem run_dex2oat_compiler_filter_witness:
  "run_dex2oat decrypt_properties 3 4 ''/data/app/a.apk'' ''/data/dalvik-cache/arm64/x.dex''
     (- 1) ''arm64'' False False True False [] []
   = Some [''/system/bin/dex2oat'', ''--zip-fd=3'', ''--zip-location=/data/app/a.apk'',
           ''--oat-fd=4'', ''--oat-location=/data/dalvik-cache/arm64/x.dex'',
           ''--instruction-set=arm64'', ''--compiler-filter=verify-none'',
           ''--runtime-arg'', ''-Xnorelocate'']
   \<and> restricted_boot decrypt_properties
   \<and> spec_compiler_filter decrypt_properties False False = [''--compiler-filter=verify-none'']
   \<and> sublist [''--runtime-arg'', ''-Xnorelocate'']
        [''/system/bin/dex2oat'', ''--zip-fd=3'', ''--zip-location=/data/app/a.apk'',
           ''--oat-fd=4'', ''--oat-location=/data/dalvik-cache/arm64/x.dex'',
           ''--instruction-set=arm64'', ''--compiler-filter=verify-none'',
           ''--runtime-arg'', ''-Xnorelocate'']"
proof -
  have r: "run_dex2oat decrypt_properties 3 4 ''/data/app/a.apk'' ''/data/dalvik-cache/arm64/x.dex''
     (- 1) ''arm64'' False False True False [] []
   = Some [''/system/bin/dex2oat'', ''--zip-fd=3'', ''--zip-location=/data/app/a.apk'',
           ''--oat-fd=4'', ''--oat-location=/data/dalvik-cache/arm64/x.dex'',
           ''--instruction-set=arm64'', ''--compiler-filter=verify-none'',
           ''--runtime-arg'', ''-Xnorelocate'']"
    by (simp add: run_dex2oat_def decrypt_properties_def no_properties_def get_property_def
      check_boolean_property_def MAX_INSTRUCTION_SET_LEN_def split_count_def split_def
      show_int_3 show_int_4 Let_def)
  have b: "restricted_boot decrypt_properties"
    by (simp add: restricted_boot_def decrypt_properties_def)
  have s: "spec_compiler_filter decrypt_properties False False = [''--compiler-filter=verify-none'']"
    by (simp add: spec_compiler_filter_def b)
  show ?thesis using r b s run_dex2oat_compiler_filter [OF r] by simp
qed

subsection \<open>Flattening an overlay path\<close>

lemma map_slash_to_at_id: "CHR ''/'' \<notin> set xs \<Longrightarrow> map slash_to_at xs = xs"
  by (induction xs) (auto simp: slash_to_at_def)

lemma flatten_fits:
  assumes "2 \<le> length overlay"
    and "length prefix_str + length overlay + length suffix_str \<le> N"
  shows "length (prefix_str @ drop 1 overlay @ suffix_str) \<le> N - 1"
  using assms by simp

lemma flatten_path_sz_ok:
  assumes "2 \<le> length overlay" and "take 1 overlay = ''/''"
    and "length prefix_str + length overlay + length suffix_str \<le> size_max"
    and "length prefix_str + length overlay + length suffix_str \<le> N"
  shows "flatten_path_sz size_max prefix_str suffix_str (Some overlay) (Some buf) N =
     (0, Some (prefix_str @ map slash_to_at (drop 1 overlay) @ map slash_to_at suffix_str))"
proof -
  have tk: "take (N - 1) (prefix_str @ drop 1 overlay @ suffix_str)
                = prefix_str @ drop 1 overlay @ suffix_str"
    using flatten_fits [OF assms(1) assms(4)] by (rule take_all)
  from assms have g1: "\<not> (size_max - length prefix_str < length overlay)" by arith
  from assms have g2: "\<not> (size_max - (length prefix_str + length overlay) < length suffix_str)"
    by arith
  from assms have g3: "\<not> N < length prefix_str + length overlay + length suffix_str"
    by arith
  from assms have g4: "\<not> length overlay < 2" by arith
  show ?thesis
    unfolding flatten_path_sz_def Let_def tk
    using g1 g2 g3 g4 assms(2) by simp
qed

lemma flatten_path_sz_reject:
  assumes "\<not> (2 \<le> length overlay \<and> take 1 overlay = ''/'' \<and>
         length prefix_str + length overlay + length suffix_str \<le> size_max \<and>
         length prefix_str + length overlay + length suffix_str \<le> N)"
  shows "flatten_path_sz size_max prefix_str suffix_str (Some overlay) (Some buf) N = (- 1, Some buf)"
proof -
  have "length overlay < 2 \<or> take 1 overlay \<noteq> ''/'' \<or>
        size_max - length prefix_str < length overlay \<or>
        size_max - (length prefix_str + length overlay) < length suffix_str \<or>
        N < length prefix_str + length overlay + length suffix_str"
    using assms by arith
  then show ?thesis
    unfolding flatten_path_sz_def Let_def by auto
qed

lemma flatten_path_sz_cases:
  "flatten_path_sz size_max prefix_str suffix_str (Some overlay) (Some buf) N =
     (if 2 \<le> length overlay \<and> take 1 overlay = ''/'' \<and>
         length prefix_str + length overlay + length suffix_str \<le> size_max \<and>
         length prefix_str + length overlay + length suffix_str \<le> N
      then (0, Some (prefix_str @ map slash_to_at (drop 1 overlay) @ map slash_to_at suffix_str))
      else (- 1, Some buf))"
proof (cases "2 \<le> length overlay \<and> take 1 overlay = ''/'' \<and>
       length prefix_str + length overlay + length suffix_str \<le> size_max \<and>
       length prefix_str + length overlay + length suffix_str \<le> N")
  case True
  then have "flatten_path_sz size_max prefix_str suffix_str (Some overlay) (Some buf) N =
      (0, Some (prefix_str @ map slash_to_at (drop 1 overlay) @ map slash_to_at suffix_str))"
    by (intro flatten_path_sz_ok) simp_all
  with True show ?thesis by simp
next
  case False
  then have "flatten_path_sz size_max prefix_str suffix_str (Some overlay) (Some buf) N =
      (- 1, Some buf)"
    by (rule flatten_path_sz_reject)
  with False show ?thesis by simp
qed

text \<open>
  C8.  With a suffix that has no \<^verbatim>\<open>/\<close>, as the suffix \<^verbatim>\<open>IDMAP_SUFFIX\<close> of the one
  caller: for an absolute overlay path of length at least 2 whose length sum with the
  prefix and the suffix fits \<^verbatim>\<open>size_t\<close> and the buffer, \<open>flatten_path\<close> returns 0 and
  writes the prefix, then the path without its leading \<^verbatim>\<open>/\<close> with every \<^verbatim>\<open>/\<close>
  replaced by \<^verbatim>\<open>@\<close>, then the suffix.  For every other input it returns -1 and
  leaves the buffer as it was: a path that is not absolute or shorter than 2, a length
  sum beyond \<^verbatim>\<open>SIZE_MAX\<close> or beyond the buffer size, a \<^verbatim>\<open>NULL\<close> path or buffer.  The
  function of the source is the instance at the 64-bit \<^verbatim>\<open>SIZE_MAX\<close>.
\<close>

theorem flatten_path_sz_result:
  assumes "CHR ''/'' \<notin> set suffix_str"
  shows "flatten_path_sz size_max prefix_str suffix_str (Some overlay) (Some buf) N =
     (if 2 \<le> length overlay \<and> take 1 overlay = ''/'' \<and>
         length prefix_str + length overlay + length suffix_str \<le> size_max \<and>
         length prefix_str + length overlay + length suffix_str \<le> N
      then (0, Some (prefix_str @ map slash_to_at (drop 1 overlay) @ suffix_str))
      else (- 1, Some buf))
   \<and> fst (flatten_path_sz size_max prefix_str suffix_str None idmap_path N) = - 1
   \<and> fst (flatten_path_sz size_max prefix_str suffix_str overlay_path None N) = - 1
   \<and> flatten_path prefix_str suffix_str = flatten_path_sz SIZE_MAX prefix_str suffix_str"
proof -
  have a: "fst (flatten_path_sz size_max prefix_str suffix_str None idmap_path N) = - 1"
    by (simp add: flatten_path_sz_def)
  have b: "fst (flatten_path_sz size_max prefix_str suffix_str overlay_path None N) = - 1"
    by (simp add: flatten_path_sz_def split: option.splits)
  have c: "map slash_to_at suffix_str = suffix_str"
    using assms by (rule map_slash_to_at_id)
  show ?thesis
    using a b flatten_path_sz_cases [of size_max prefix_str suffix_str overlay buf N]
    unfolding c by (simp add: flatten_path_def)
qed

theorem flatten_path_sz_result_witness:
  "CHR ''/'' \<notin> set IDMAP_SUFFIX
   \<and> flatten_path IDMAP_PREFIX IDMAP_SUFFIX (Some ''/a/b/c.apk'') (Some []) PATH_MAX
     = (0, Some (IDMAP_PREFIX @ ''a@b@c.apk'' @ IDMAP_SUFFIX))
   \<and> flatten_path IDMAP_PREFIX IDMAP_SUFFIX (Some ''/vendor/overlay/O.apk'') (Some []) PATH_MAX
     = (0, Some ''/data/resource-cache/vendor@overlay@O.apk@idmap'')
   \<and> fst (flatten_path_sz 30 IDMAP_PREFIX IDMAP_SUFFIX (Some ''/a/b/c.apk'') (Some []) 64) = - 1
   \<and> fst (flatten_path IDMAP_PREFIX IDMAP_SUFFIX (Some ''/a/b/c.apk'') (Some []) 30) = - 1
   \<and> fst (flatten_path IDMAP_PREFIX IDMAP_SUFFIX (Some ''a/b/c.apk'') (Some []) PATH_MAX) = - 1
   \<and> fst (flatten_path IDMAP_PREFIX IDMAP_SUFFIX (Some ''/'') (Some []) PATH_MAX) = - 1"
proof -
  have n: "CHR ''/'' \<notin> set IDMAP_SUFFIX"
    by (simp add: IDMAP_SUFFIX_def)
  show ?thesis
    using n
      flatten_path_sz_result [OF n, of SIZE_MAX IDMAP_PREFIX "''/a/b/c.apk''" "[]" PATH_MAX]
      flatten_path_sz_result [OF n, of SIZE_MAX IDMAP_PREFIX "''/vendor/overlay/O.apk''" "[]" PATH_MAX]
      flatten_path_sz_result [OF n, of 30 IDMAP_PREFIX "''/a/b/c.apk''" "[]" 64]
      flatten_path_sz_result [OF n, of SIZE_MAX IDMAP_PREFIX "''/a/b/c.apk''" "[]" 30]
      flatten_path_sz_result [OF n, of SIZE_MAX IDMAP_PREFIX "''a/b/c.apk''" "[]" PATH_MAX]
      flatten_path_sz_result [OF n, of SIZE_MAX IDMAP_PREFIX "''/''" "[]" PATH_MAX]
    by (simp add: slash_to_at_def IDMAP_PREFIX_def IDMAP_SUFFIX_def SIZE_MAX_def PATH_MAX_def)
qed

subsection \<open>Cache reclamation\<close>

lemma skip_dot_dirs_iff: "skip_dot_dirs name = (name = ''.'' \<or> name = ''..'')"
  by (auto simp: skip_dot_dirs_def split: list.splits)

lemma not_a_user_dir_iff: "not_a_user_dir name = (\<not> starts_with_digit name)"
  by (auto simp: not_a_user_dir_def starts_with_digit_def split: list.splits)

lemma path_exceeds_warning_log:
  "path_exceeds_warning (Ev_log WARNING (''Path exceeds limit: '' @ tmpdir @ name)) name"
  unfolding path_exceeds_warning_def
  by (simp add: suffix_def)

lemma user_loop:
  assumes "fold (free_cache_user_entry dirpos) des (tmpdir, cache, s) = (tmpdir', cache', s')"
    and "take dirpos tmpdir = base"
    and "length base = dirpos"
  shows "take dirpos tmpdir' = base
       \<and> cache' = cache @ map (\<lambda>name. (base @ name, ''cache'')) (swept_user_names dirpos des)
       \<and> world s' = world s
       \<and> (\<exists>ws. journal s' = journal s @ ws \<and>
               list_all2 path_exceeds_warning ws (warned_user_names dirpos des))"
  using assms
proof (induction des arbitrary: tmpdir cache s)
  case Nil
  then show ?case by (simp add: swept_user_names_def warned_user_names_def)
next
  case (Cons de des)
  obtain t1 c1 s1 where step: "free_cache_user_entry dirpos de (tmpdir, cache, s) = (t1, c1, s1)"
    by (cases "free_cache_user_entry dirpos de (tmpdir, cache, s)") auto
  from Cons.prems(1) step
  have rest: "fold (free_cache_user_entry dirpos) des (t1, c1, s1) = (tmpdir', cache', s')"
    by simp
  have b1: "take dirpos t1 = base"
    using step Cons.prems(2,3)
    by (auto simp: free_cache_user_entry_def Let_def split: if_splits)
  note ih = Cons.IH [OF rest b1 Cons.prems(3)]
  show ?case
  proof (cases "fst de = DT_DIR \<and> \<not> skip_dot_dirs (snd de)")
    case False
    then have "t1 = tmpdir \<and> c1 = cache \<and> s1 = s"
      using step by (auto simp: free_cache_user_entry_def Let_def split: if_splits)
    moreover from False have "swept_user_names dirpos (de # des) = swept_user_names dirpos des"
      "warned_user_names dirpos (de # des) = warned_user_names dirpos des"
      by (auto simp: swept_user_names_def warned_user_names_def skip_dot_dirs_iff)
    ultimately show ?thesis using ih by simp
  next
    case True
    show ?thesis
    proof (cases "fits_path_buffer dirpos (snd de)")
      case fits: True
      with True have "c1 = cache @ [(base @ snd de, ''cache'')] \<and> s1 = s"
        using step Cons.prems(2,3)
        by (auto simp: free_cache_user_entry_def Let_def fits_path_buffer_def add_cache_files_def)
      moreover from True fits have "swept_user_names dirpos (de # des) = snd de # swept_user_names dirpos des"
        "warned_user_names dirpos (de # des) = warned_user_names dirpos des"
        by (auto simp: swept_user_names_def warned_user_names_def skip_dot_dirs_iff)
      ultimately show ?thesis using ih by simp
    next
      case nofit: False
      with True have s1: "c1 = cache \<and> world s1 = world s \<and>
          journal s1 = journal s @ [Ev_log WARNING (''Path exceeds limit: '' @ tmpdir @ snd de)]"
        using step
        by (auto simp: free_cache_user_entry_def Let_def fits_path_buffer_def log_line_def)
      from True nofit have nm: "swept_user_names dirpos (de # des) = swept_user_names dirpos des"
        "warned_user_names dirpos (de # des) = snd de # warned_user_names dirpos des"
        by (auto simp: swept_user_names_def warned_user_names_def skip_dot_dirs_iff)
      from ih obtain ws where ws: "journal s' = journal s1 @ ws"
        "list_all2 path_exceeds_warning ws (warned_user_names dirpos des)" by blast
      have "journal s' = journal s @ (Ev_log WARNING (''Path exceeds limit: '' @ tmpdir @ snd de) # ws)"
        using ws s1 by simp
      moreover have "list_all2 path_exceeds_warning
          (Ev_log WARNING (''Path exceeds limit: '' @ tmpdir @ snd de) # ws)
          (warned_user_names dirpos (de # des))"
        using ws(2) nm path_exceeds_warning_log by simp
      ultimately have "\<exists>ws. journal s' = journal s @ ws \<and>
               list_all2 path_exceeds_warning ws (warned_user_names dirpos (de # des))"
        by blast
      then show ?thesis using ih s1 nm by simp
    qed
  qed
qed

lemma media_loop:
  assumes "fold (free_cache_media_entry d dirpos) des (tmpdir, cache, s) = (tmpdir', cache', s')"
    and "take dirpos tmpdir = base"
    and "length base = dirpos"
  shows "take dirpos tmpdir' = base
       \<and> cache' = cache @ map (\<lambda>root. (root, ''cache'')) (swept_media_roots d (world s) base des)
       \<and> world s' = world s
       \<and> (\<exists>ws. journal s' = journal s @ ws \<and>
               list_all2 path_exceeds_warning ws (warned_media_names dirpos des))"
  using assms
proof (induction des arbitrary: tmpdir cache s)
  case Nil
  then show ?case by (simp add: swept_media_roots_def warned_media_names_def List.map_filter_simps)
next
  case (Cons de des)
  obtain t1 c1 s1 where step: "free_cache_media_entry d dirpos de (tmpdir, cache, s) = (t1, c1, s1)"
    by (cases "free_cache_media_entry d dirpos de (tmpdir, cache, s)") auto
  from Cons.prems(1) step
  have rest: "fold (free_cache_media_entry d dirpos) des (t1, c1, s1) = (tmpdir', cache', s')"
    by simp
  have b1: "take dirpos t1 = base"
    using step Cons.prems(2,3)
    by (auto simp: free_cache_media_entry_def Let_def split: if_splits prod.splits)
  note ih = Cons.IH [OF rest b1 Cons.prems(3)]
  show ?case
  proof (cases "fst de = DT_DIR \<and> starts_with_digit (snd de)")
    case False
    then have "t1 = tmpdir \<and> c1 = cache \<and> s1 = s"
      using step by (auto simp: free_cache_media_entry_def Let_def not_a_user_dir_iff split: if_splits)
    moreover from False have "swept_media_roots d w base (de # des) = swept_media_roots d w base des"
      "warned_media_names dirpos (de # des) = warned_media_names dirpos des" for w
      by (auto simp: swept_media_roots_def warned_media_names_def)
    ultimately show ?thesis using ih by simp
  next
    case True
    show ?thesis
    proof (cases "fits_path_buffer dirpos (snd de)")
      case fits: True
      with True have "c1 = cache @ map (\<lambda>root. (root, ''cache''))
                          (case media_root d (world s) base (snd de) of None \<Rightarrow> [] | Some r \<Rightarrow> [r])
                      \<and> s1 = s"
        using step Cons.prems(2,3)
        by (auto simp: free_cache_media_entry_def Let_def fits_path_buffer_def add_cache_files_def
            not_a_user_dir_iff media_root_def split: prod.splits if_splits)
      moreover from True fits have
        "swept_media_roots d w base (de # des) =
           (case media_root d w base (snd de) of None \<Rightarrow> [] | Some r \<Rightarrow> [r])
           @ swept_media_roots d w base des"
        "warned_media_names dirpos (de # des) = warned_media_names dirpos des" for w
        using Cons.prems(3)
        by (auto simp: swept_media_roots_def warned_media_names_def List.map_filter_simps
            split: option.splits)
      ultimately show ?thesis using ih by simp
    next
      case nofit: False
      with True have s1: "c1 = cache \<and> world s1 = world s \<and>
          journal s1 = journal s @ [Ev_log WARNING (''Path exceeds limit: '' @ tmpdir @ snd de)]"
        using step
        by (auto simp: free_cache_media_entry_def Let_def fits_path_buffer_def log_line_def
            not_a_user_dir_iff)
      from True nofit have nm: "swept_media_roots d w base (de # des) = swept_media_roots d w base des"
        "warned_media_names dirpos (de # des) = snd de # warned_media_names dirpos des" for w
        using Cons.prems(3)
        by (auto simp: swept_media_roots_def warned_media_names_def)
      from ih obtain ws where ws: "journal s' = journal s1 @ ws"
        "list_all2 path_exceeds_warning ws (warned_media_names dirpos des)" by blast
      have "journal s' = journal s @ (Ev_log WARNING (''Path exceeds limit: '' @ tmpdir @ snd de) # ws)"
        using ws s1 by simp
      moreover have "list_all2 path_exceeds_warning
          (Ev_log WARNING (''Path exceeds limit: '' @ tmpdir @ snd de) # ws)
          (warned_media_names dirpos (de # des))"
        using ws(2) nm path_exceeds_warning_log by simp
      ultimately have "\<exists>ws. journal s' = journal s @ ws \<and>
               list_all2 path_exceeds_warning ws (warned_media_names dirpos (de # des))"
        by blast
      then show ?thesis using ih s1 nm by simp
    qed
  qed
qed

lemma free_cache_collect_result:
  assumes "free_cache_collect d uuid s = Some (cache, s')"
  shows "cache = spec_cache_roots d uuid (world s)
       \<and> world s' = world s
       \<and> (\<exists>ws. journal s' = journal s @ ws \<and>
             list_all2 path_exceeds_warning ws
               (warned_user_names (length (create_data_path d uuid @ ''/'' @ SECONDARY_USER_PREFIX))
                  (directory_entries d (world s)
                     (create_data_path d uuid @ ''/'' @ SECONDARY_USER_PREFIX))
                @ warned_media_names (length (android_media_dir_path d))
                    (directory_entries d (world s) (android_media_dir_path d))))"
proof -
  define users_dir where "users_dir = create_data_path d uuid @ ''/'' @ SECONDARY_USER_PREFIX"
  define media_dir where "media_dir = android_media_dir_path d"
  define cache1 where "cache1 = (if uuid = None
                    then add_cache_files start_cache_collection (create_data_user_path d None 0) ''cache''
                    else start_cache_collection)"
  define des1 where "des1 = directory_entries d (world s) users_dir"
  define des2 where "des2 = directory_entries d (world s) media_dir"
  obtain t1 c1 s1 where l1: "fold (free_cache_user_entry (length users_dir)) des1 (users_dir, cache1, s)
      = (t1, c1, s1)"
    by (cases "fold (free_cache_user_entry (length users_dir)) des1 (users_dir, cache1, s)") auto
  have r1: "c1 = cache1 @ map (\<lambda>name. (users_dir @ name, ''cache''))
                     (swept_user_names (length users_dir) des1)"
    "world s1 = world s"
    "\<exists>ws. journal s1 = journal s @ ws \<and>
           list_all2 path_exceeds_warning ws (warned_user_names (length users_dir) des1)"
    using user_loop [OF l1, of users_dir] by simp_all
  obtain t2 c2 s2 where l2: "fold (free_cache_media_entry d (length media_dir)) des2 (media_dir, c1, s1)
      = (t2, c2, s2)"
    by (cases "fold (free_cache_media_entry d (length media_dir)) des2 (media_dir, c1, s1)") auto
  have r2: "c2 = c1 @ map (\<lambda>root. (root, ''cache'')) (swept_media_roots d (world s1) media_dir des2)"
    "world s2 = world s1"
    "\<exists>ws. journal s2 = journal s1 @ ws \<and>
           list_all2 path_exceeds_warning ws (warned_media_names (length media_dir) des2)"
    using media_loop [OF l2, of media_dir] by simp_all
  have first_loop: "(case readdir_all d users_dir (world s) of
                    None \<Rightarrow> (users_dir, cache1, s)
                  | Some des \<Rightarrow> fold (free_cache_user_entry (length users_dir)) des (users_dir, cache1, s))
               = (t1, c1, s1)"
    using l1 by (auto simp: des1_def directory_entries_def split: option.splits)
  have second_loop: "(case readdir_all d media_dir (world s1) of
                         None \<Rightarrow> (media_dir, c1, s1)
                       | Some des \<Rightarrow>
                           fold (free_cache_media_entry d (length media_dir)) des (media_dir, c1, s1))
               = (t2, c2, s2)"
    using l2 r1(2) by (auto simp: des2_def directory_entries_def split: option.splits)
  have res: "cache = c2 \<and> s' = s2"
    using assms
    unfolding free_cache_collect_def Let_def users_dir_def [symmetric] media_dir_def [symmetric]
         cache1_def [symmetric]
    by (simp add: first_loop second_loop split: if_splits)
  have cache: "c2 = spec_cache_roots d uuid (world s)"
    unfolding spec_cache_roots_def Let_def users_dir_def [symmetric] media_dir_def [symmetric]
        des1_def [symmetric] des2_def [symmetric]
    using r1 r2
    by (simp add: cache1_def start_cache_collection_def add_cache_files_def)
  from r1(3) r2(3) obtain ws1 ws2 where
    "journal s2 = journal s @ (ws1 @ ws2)"
    "list_all2 path_exceeds_warning ws1 (warned_user_names (length users_dir) des1)"
    "list_all2 path_exceeds_warning ws2 (warned_media_names (length media_dir) des2)"
    by auto
  then have "\<exists>ws. journal s2 = journal s @ ws \<and>
      list_all2 path_exceeds_warning ws
        (warned_user_names (length users_dir) des1 @ warned_media_names (length media_dir) des2)"
    using list_all2_appendI by blast
  then show ?thesis
    using res cache r1(2) r2(2)
    by (simp add: users_dir_def media_dir_def des1_def des2_def)
qed

lemma free_cache_collect_returns:
  assumes "length (create_data_path d uuid @ ''/'' @ SECONDARY_USER_PREFIX) < PATH_MAX"
    and "length (android_media_dir_path d) < PATH_MAX"
  shows "\<exists>cache s'. free_cache_collect d uuid s = Some (cache, s')"
  using assms
  by (simp add: free_cache_collect_def Let_def split: prod.splits)

text \<open>
  C6, as amended.  When \<open>free_cache\<close> must evict (the free space is known and below
  the target) and the two directory paths fit the path buffer, it returns, and the
  roots it hands to the evictor are exactly: the data directory of user 0, on
  internal storage only; every directory under the secondary-user root other than
  \<^verbatim>\<open>.\<close> and \<^verbatim>\<open>..\<close>, whether its name is numeric or not; and, for every directory
  under the media root whose name starts with a digit and in which
  \<^verbatim>\<open>lookup_media_dir\<close> finds \<^verbatim>\<open>Android\<close> and then \<^verbatim>\<open>data\<close>, the directory found;
  each only when its name fits the path buffer.  Media directories lacking
  \<^verbatim>\<open>Android\<close> or \<^verbatim>\<open>data\<close> take no part.  The result is 0 exactly when the free
  space after the eviction reaches the target.
\<close>

theorem free_cache_roots:
  assumes "0 \<le> data_disk_free d (create_data_path d uuid) (world s)"
    and "data_disk_free d (create_data_path d uuid) (world s) < free_size"
    and "length (create_data_path d uuid @ ''/'' @ SECONDARY_USER_PREFIX) < PATH_MAX"
    and "length (android_media_dir_path d) < PATH_MAX"
  shows "\<exists>res s'. free_cache d uuid free_size s = Some (res, s')
      \<and> world s' = clear_cache_files d (create_data_path d uuid)
                     (spec_cache_roots d uuid (world s)) free_size (world s)
      \<and> res = (if data_disk_free d (create_data_path d uuid) (world s') \<ge> free_size
               then 0 else - 1)"
proof -
  define s1 where "s1 = log_line INFO (''free_cache('' @ show_int free_size @ '') avail ''
             @ show_int (data_disk_free d (create_data_path d uuid) (world s))) s"
  have w1: "world s1 = world s" by (simp add: s1_def log_line_def)
  obtain cache s2 where c: "free_cache_collect d uuid s1 = Some (cache, s2)"
    using free_cache_collect_returns [OF assms(3,4)] by blast
  have r: "cache = spec_cache_roots d uuid (world s)" "world s2 = world s"
    using free_cache_collect_result [OF c] w1 by simp_all
  define w3 where "w3 = clear_cache_files d (create_data_path d uuid) cache free_size (world s2)"
  have fc: "free_cache d uuid free_size s =
      Some (if data_disk_free d (create_data_path d uuid) w3 \<ge> free_size then 0 else - 1,
            \<lparr>journal = journal s2, world = w3\<rparr>)"
    unfolding free_cache_def Let_def s1_def [symmetric] w3_def
    using assms(1,2) c by simp
  have "world \<lparr>journal = journal s2, world = w3\<rparr>
          = clear_cache_files d (create_data_path d uuid)
              (spec_cache_roots d uuid (world s)) free_size (world s)"
    using r by (simp add: w3_def)
  then show ?thesis
    using fc by (intro exI [of _ "if data_disk_free d (create_data_path d uuid) w3 \<ge> free_size
                                   then 0 else - 1"]
                       exI [of _ "\<lparr>journal = journal s2, world = w3\<rparr>"]) simp
qed

lemma show_nat_0: "show_nat 0 = ''0''"
  by code_simp

lemma sweep_roots:
  "spec_cache_roots (sweep_deps :: unit deps) None () =
     [(''/data/user/0'', ''cache''), (''/data/user/10'', ''cache''), (''/data/user/foo'', ''cache''),
      (''/data/user/.x'', ''cache''), (''/data/media/0/Android/data'', ''cache'')]"
  by (simp add: spec_cache_roots_def sweep_deps_def example_deps_def example_data_path_def
      SECONDARY_USER_PREFIX_def directory_entries_def swept_user_names_def swept_media_roots_def
      fits_path_buffer_def PATH_MAX_def starts_with_digit_def media_root_def show_nat_0
      List.map_filter_simps Let_def)

theorem free_cache_roots_witness:
  "0 \<le> data_disk_free (sweep_deps :: unit deps) (create_data_path (sweep_deps :: unit deps) None)
         (world empty_state)
   \<and> data_disk_free (sweep_deps :: unit deps) (create_data_path (sweep_deps :: unit deps) None)
         (world empty_state) < 100
   \<and> length (create_data_path (sweep_deps :: unit deps) None @ ''/'' @ SECONDARY_USER_PREFIX) < PATH_MAX
   \<and> length (android_media_dir_path (sweep_deps :: unit deps)) < PATH_MAX
   \<and> spec_cache_roots (sweep_deps :: unit deps) None () =
     [(''/data/user/0'', ''cache''), (''/data/user/10'', ''cache''), (''/data/user/foo'', ''cache''),
      (''/data/user/.x'', ''cache''), (''/data/media/0/Android/data'', ''cache'')]
   \<and> (\<exists>s'. free_cache (sweep_deps :: unit deps) None 100 empty_state = Some (- 1, s'))"
proof -
  have a: "0 \<le> data_disk_free (sweep_deps :: unit deps) (create_data_path (sweep_deps :: unit deps) None)
         (world empty_state)"
    "data_disk_free (sweep_deps :: unit deps) (create_data_path (sweep_deps :: unit deps) None)
         (world empty_state) < 100"
    "length (create_data_path (sweep_deps :: unit deps) None @ ''/'' @ SECONDARY_USER_PREFIX) < PATH_MAX"
    "length (android_media_dir_path (sweep_deps :: unit deps)) < PATH_MAX"
    by (simp_all add: sweep_deps_def example_deps_def example_data_path_def
        SECONDARY_USER_PREFIX_def PATH_MAX_def)
  have "\<exists>s'. free_cache (sweep_deps :: unit deps) None 100 empty_state = Some (- 1, s')"
    using free_cache_roots [OF a] by (auto simp: sweep_deps_def example_deps_def split: if_splits)
  then show ?thesis using a sweep_roots by simp
qed

text \<open>
  The claim as it is worded fails for a directory under the secondary-user root whose
  name is not numeric: \<^verbatim>\<open>/data/user/foo\<close> is one of the roots.
\<close>

theorem free_cache_roots_counterexample:
  "(''/data/user/foo'', ''cache'')
     \<in> set (fst (the (free_cache_collect (sweep_deps :: unit deps) None empty_state)))"
proof -
  obtain cache s' where c: "free_cache_collect (sweep_deps :: unit deps) None empty_state = Some (cache, s')"
    using free_cache_collect_returns [of "sweep_deps :: unit deps" None empty_state]
    by (auto simp: sweep_deps_def example_deps_def example_data_path_def
        SECONDARY_USER_PREFIX_def PATH_MAX_def)
  have "cache = spec_cache_roots (sweep_deps :: unit deps) None ()"
    using free_cache_collect_result [OF c] by (simp add: empty_state_def)
  then show ?thesis using c sweep_roots by simp
qed

text \<open>
  C7, as amended.  In the sweep of the secondary-user root the entries \<^verbatim>\<open>.\<close> and
  \<^verbatim>\<open>..\<close> are skipped, and in the sweep of the media root every entry whose name
  starts with \<^verbatim>\<open>.\<close> is skipped (its name does not start with a digit).  In both
  sweeps an entry whose name does not fit the path buffer adds no root, and the
  warnings logged are exactly one for each directory that passes the name test of its
  sweep and does not fit, in order.
\<close>

theorem free_cache_collect_skips:
  assumes "free_cache_collect d uuid s = Some (cache, s')"
  shows "(\<exists>ws. journal s' = journal s @ ws \<and>
             list_all2 path_exceeds_warning ws
               (warned_user_names (length (create_data_path d uuid @ ''/'' @ SECONDARY_USER_PREFIX))
                  (directory_entries d (world s)
                     (create_data_path d uuid @ ''/'' @ SECONDARY_USER_PREFIX))
                @ warned_media_names (length (android_media_dir_path d))
                    (directory_entries d (world s) (android_media_dir_path d))))
       \<and> free_cache_user_entry dirpos (t, ''.'') st = st
       \<and> free_cache_user_entry dirpos (t, ''..'') st = st
       \<and> (take 1 name = ''.'' \<longrightarrow> free_cache_media_entry d dirpos (t, name) st = st)
       \<and> (\<not> fits_path_buffer dirpos name \<longrightarrow>
            fst (snd (free_cache_user_entry dirpos (t, name) (tmpdir, cache0, s0))) = cache0 \<and>
            fst (snd (free_cache_media_entry d dirpos (t, name) (tmpdir, cache0, s0))) = cache0)"
proof -
  have a: "free_cache_user_entry dirpos (t, ''.'') st = st"
    "free_cache_user_entry dirpos (t, ''..'') st = st"
    by (simp_all add: free_cache_user_entry_def skip_dot_dirs_iff split: prod.splits)
  have b: "take 1 name = ''.'' \<longrightarrow> free_cache_media_entry d dirpos (t, name) st = st"
    by (cases name) (auto simp: free_cache_media_entry_def not_a_user_dir_def split: prod.splits)
  have c: "\<not> fits_path_buffer dirpos name \<longrightarrow>
            fst (snd (free_cache_user_entry dirpos (t, name) (tmpdir, cache0, s0))) = cache0 \<and>
            fst (snd (free_cache_media_entry d dirpos (t, name) (tmpdir, cache0, s0))) = cache0"
    by (simp add: free_cache_user_entry_def free_cache_media_entry_def fits_path_buffer_def Let_def)
  show ?thesis
    using free_cache_collect_result [OF assms] a b c by blast
qed

lemma long_name_Cons: "replicate 4090 c = c # replicate 4089 c"
proof -
  have "(4090::nat) = Suc 4089" by simp
  then show ?thesis by (simp only: replicate_Suc)
qed

lemma sweep_collect:
  "free_cache_collect (sweep_deps :: unit deps) None empty_state =
     Some ([(''/data/user/0'', ''cache''), (''/data/user/10'', ''cache''), (''/data/user/foo'', ''cache''),
            (''/data/user/.x'', ''cache''), (''/data/media/0/Android/data'', ''cache'')],
           \<lparr>journal =
              [Ev_log WARNING (''Path exceeds limit: '' @ ''/data/user/.x'' @ replicate 4090 CHR ''u''),
               Ev_log WARNING (''Path exceeds limit: '' @ ''/data/media/11/'' @ replicate 4090 CHR ''7'')],
            world = ()\<rparr>)"
  by (simp add: free_cache_collect_def sweep_deps_def example_deps_def example_data_path_def
      SECONDARY_USER_PREFIX_def PATH_MAX_def free_cache_user_entry_def free_cache_media_entry_def
      skip_dot_dirs_def not_a_user_dir_def add_cache_files_def start_cache_collection_def
      log_line_def empty_state_def show_nat_0 Let_def long_name_Cons)

theorem free_cache_collect_skips_witness:
  "free_cache_collect (sweep_deps :: unit deps) None empty_state =
     Some ([(''/data/user/0'', ''cache''), (''/data/user/10'', ''cache''), (''/data/user/foo'', ''cache''),
            (''/data/user/.x'', ''cache''), (''/data/media/0/Android/data'', ''cache'')],
           \<lparr>journal =
              [Ev_log WARNING (''Path exceeds limit: '' @ ''/data/user/.x'' @ replicate 4090 CHR ''u''),
               Ev_log WARNING (''Path exceeds limit: '' @ ''/data/media/11/'' @ replicate 4090 CHR ''7'')],
            world = ()\<rparr>)
   \<and> list_all2 path_exceeds_warning
       [Ev_log WARNING (''Path exceeds limit: '' @ ''/data/user/.x'' @ replicate 4090 CHR ''u''),
        Ev_log WARNING (''Path exceeds limit: '' @ ''/data/media/11/'' @ replicate 4090 CHR ''7'')]
       [replicate 4090 CHR ''u'', replicate 4090 CHR ''7'']
   \<and> take 1 ''.x'' = ''.''
   \<and> free_cache_media_entry (sweep_deps :: unit deps) 12 (DT_DIR, ''.x'') (''/data/media/'', [], empty_state)
       = (''/data/media/'', [], empty_state)
   \<and> \<not> fits_path_buffer 12 (replicate 4090 CHR ''7'')
   \<and> fst (snd (free_cache_media_entry (sweep_deps :: unit deps) 12 (DT_DIR, replicate 4090 CHR ''7'')
                  (''/data/media/'', [], empty_state))) = []"
proof -
  have w: "warned_user_names (length (create_data_path (sweep_deps :: unit deps) None @ ''/'' @ SECONDARY_USER_PREFIX))
                  (directory_entries (sweep_deps :: unit deps) (world empty_state)
                     (create_data_path (sweep_deps :: unit deps) None @ ''/'' @ SECONDARY_USER_PREFIX))
                @ warned_media_names (length (android_media_dir_path (sweep_deps :: unit deps)))
                    (directory_entries (sweep_deps :: unit deps) (world empty_state)
                       (android_media_dir_path (sweep_deps :: unit deps)))
           = [replicate 4090 CHR ''u'', replicate 4090 CHR ''7'']"
    by (simp add: sweep_deps_def example_deps_def example_data_path_def SECONDARY_USER_PREFIX_def
        directory_entries_def warned_user_names_def warned_media_names_def fits_path_buffer_def
        PATH_MAX_def starts_with_digit_def long_name_Cons)
  have f: "\<not> fits_path_buffer 12 (replicate 4090 CHR ''7'')" "take 1 ''.x'' = ''.''"
    by (simp_all add: fits_path_buffer_def PATH_MAX_def)
  note skips = free_cache_collect_skips [OF sweep_collect, unfolded w]
  have 1: "list_all2 path_exceeds_warning
       [Ev_log WARNING (''Path exceeds limit: '' @ ''/data/user/.x'' @ replicate 4090 CHR ''u''),
        Ev_log WARNING (''Path exceeds limit: '' @ ''/data/media/11/'' @ replicate 4090 CHR ''7'')]
       [replicate 4090 CHR ''u'', replicate 4090 CHR ''7'']"
    using skips [THEN conjunct1] by (simp add: empty_state_def)
  have 2: "free_cache_media_entry (sweep_deps :: unit deps) 12 (DT_DIR, ''.x'')
             (''/data/media/'', [], empty_state) = (''/data/media/'', [], empty_state)"
    using skips [where name = "''.x''" and dirpos = 12 and t = DT_DIR
                   and st = "(''/data/media/'', [], empty_state)"] f(2)
    by blast
  have 3: "fst (snd (free_cache_media_entry (sweep_deps :: unit deps) 12
                  (DT_DIR, replicate 4090 CHR ''7'') (''/data/media/'', [], empty_state))) = []"
    using skips [where name = "replicate 4090 CHR ''7''" and dirpos = 12 and t = DT_DIR
                   and tmpdir = "''/data/media/''" and ?cache0.0 = "[]" and ?s0.0 = empty_state] f(1)
    by blast
  show ?thesis
    using sweep_collect 1 2 3 f by (intro conjI)
qed

text \<open>
  The claim as it is worded fails in the secondary-user sweep for a name that starts
  with \<^verbatim>\<open>.\<close> and is neither \<^verbatim>\<open>.\<close> nor \<^verbatim>\<open>..\<close>: the directory \<^verbatim>\<open>.x\<close> is swept.
\<close>

theorem free_cache_hidden_dir_counterexample:
  "free_cache_user_entry 11 (DT_DIR, ''.x'') (''/data/user/'', [], empty_state)
     = (''/data/user/.x'', [(''/data/user/.x'', ''cache'')], empty_state)"
  by (simp add: free_cache_user_entry_def skip_dot_dirs_def PATH_MAX_def add_cache_files_def Let_def)

subsection \<open>Moving a complete app\<close>

lemma writes_within_refl: "writes_within P s s"
  by (simp add: writes_within_def)

lemma writes_within_trans:
  "writes_within P s s1 \<Longrightarrow> writes_within P s1 s2 \<Longrightarrow> writes_within P s s2"
  unfolding writes_within_def by (elim exE conjE) (rule_tac x = "evs @ evsa" in exI, auto)

lemma writes_within_mono: "writes_within P s s' \<Longrightarrow> P \<subseteq> Q \<Longrightarrow> writes_within Q s s'"
  unfolding writes_within_def by blast

lemma writes_within_call:
  assumes "call ev helper s = (rc, s')"
    and "\<And>path. written_path ev = Some path \<Longrightarrow> path \<in> P"
  shows "writes_within P s s'"
  using assms by (auto simp: call_def writes_within_def split: prod.splits)

lemma writes_within_log: "writes_within P s (log_line sev msg s)"
  by (simp add: writes_within_def log_line_def written_path_def)

lemma writes_within_log_after:
  "writes_within P s s1 \<Longrightarrow> writes_within P s (log_line sev msg s1)"
  using writes_within_trans writes_within_log by blast

lemma create_app_data_writes:
  assumes "create_app_data d uuid pkgname userid flags appid seinfo s = (rc, s')"
  shows "writes_within {create_data_user_package_path d uuid userid pkgname,
                        create_data_user_de_package_path d uuid userid pkgname} s s'"
proof -
  let ?P = "{create_data_user_package_path d uuid userid pkgname,
             create_data_user_de_package_path d uuid userid pkgname}"
  have c: "call ev helper s0 = (r, s1) \<Longrightarrow> written_path ev \<in> Some ` ?P \<Longrightarrow> writes_within ?P s0 s1"
    for ev helper s0 r s1
    by (rule writes_within_call) auto
  show ?thesis
    using assms
    unfolding create_app_data_def Let_def
    by (auto split: prod.splits if_splits option.splits
        intro!: writes_within_log_after writes_within_refl
        intro: writes_within_trans [OF c c] writes_within_trans [OF c writes_within_trans [OF c c]]
               writes_within_trans [OF c writes_within_trans [OF c writes_within_trans [OF c c]]] c
        simp: written_path_def)
qed

lemma restorecon_app_data_writes:
  assumes "restorecon_app_data d uuid (Some pkgname) userid flags appid (Some seinfo) s = (rc, s')"
  shows "writes_within {create_data_user_package_path d uuid userid pkgname,
                        create_data_user_de_package_path d uuid userid pkgname} s s'"
proof -
  let ?P = "{create_data_user_package_path d uuid userid pkgname,
             create_data_user_de_package_path d uuid userid pkgname}"
  have c: "call ev helper s0 = (r, s1) \<Longrightarrow> written_path ev \<in> Some ` ?P \<Longrightarrow> writes_within ?P s0 s1"
    for ev helper s0 r s1
    by (rule writes_within_call) auto
  show ?thesis
    using assms
    unfolding restorecon_app_data_def Let_def
    by (auto split: prod.splits if_splits option.splits
        intro!: writes_within_log_after writes_within_refl
        intro: writes_within_trans [OF c c] c
               writes_within_trans [OF c writes_within_log_after [OF c]]
               writes_within_trans [OF writes_within_log_after [OF c] c]
        simp: written_path_def)
qed

lemma last_cp_argv: "last (cp_argv from_path to_parent) = to_parent" "cp_argv from_path to_parent \<noteq> []"
  by (simp_all add: cp_argv_def)

lemma copy_app_writes:
  assumes "move_complete_app_copy_app d from_uuid to_uuid data_app_name s = (ok, s')"
  shows "writes_within {create_data_app_path d to_uuid,
                        create_data_app_package_path d to_uuid data_app_name} s s'"
proof -
  let ?P = "{create_data_app_path d to_uuid, create_data_app_package_path d to_uuid data_app_name}"
  have c: "call ev helper s0 = (r, s1) \<Longrightarrow> written_path ev \<in> Some ` ?P \<Longrightarrow> writes_within ?P s0 s1"
    for ev helper s0 r s1
    by (rule writes_within_call) auto
  have l: "writes_within ?P s0 (log_line sev msg s0)" for s0 sev msg
    by (rule writes_within_log)
  show ?thesis
    using assms
    unfolding move_complete_app_copy_app_def Let_def
    by (auto split: prod.splits if_splits
        intro!: writes_within_log_after writes_within_refl
        intro: writes_within_trans [OF l c] writes_within_trans [OF l writes_within_trans [OF c c]]
        simp: written_path_def last_cp_argv)
qed

lemma move_user_writes:
  assumes "move_complete_app_user d from_uuid to_uuid package_name appid seinfo user s = (ok, s')"
  shows "writes_within {create_data_user_path d to_uuid user,
                        create_data_user_package_path d to_uuid user package_name,
                        create_data_user_de_package_path d to_uuid user package_name} s s'"
proof -
  let ?P = "{create_data_user_path d to_uuid user,
             create_data_user_package_path d to_uuid user package_name,
             create_data_user_de_package_path d to_uuid user package_name}"
  have c: "call ev helper s0 = (r, s1) \<Longrightarrow> written_path ev \<in> Some ` ?P \<Longrightarrow> writes_within ?P s0 s1"
    for ev helper s0 r s1
    by (rule writes_within_call) auto
  have l: "writes_within ?P s0 (log_line sev msg s0)" for s0 sev msg
    by (rule writes_within_log)
  have ca: "create_app_data d to_uuid package_name user flags appid seinfo s0 = (r, s1)
            \<Longrightarrow> writes_within ?P s0 s1" for flags s0 r s1
    by (rule writes_within_mono [OF create_app_data_writes]) auto
  have ra: "restorecon_app_data d to_uuid (Some package_name) user flags appid (Some seinfo) s0 = (r, s1)
            \<Longrightarrow> writes_within ?P s0 s1" for flags s0 r s1
    by (rule writes_within_mono [OF restorecon_app_data_writes]) auto
  have t: "writes_within ?P a b \<Longrightarrow> writes_within ?P b c \<Longrightarrow> writes_within ?P a c" for a b c
    by (rule writes_within_trans)
  have cd: "call ev helper s0 = (r, s1) \<Longrightarrow> (written_path ev \<in> Some ` ?P \<longrightarrow> writes_within ?P s0 s1)"
    for ev helper s0 r s1
    using c by blast
  show ?thesis
    using assms
    unfolding move_complete_app_user_def Let_def
    apply (clarsimp split: prod.splits if_splits)
    subgoal by (rule l)
    subgoal by (auto dest!: cd ca ra simp: written_path_def last_cp_argv intro!: writes_within_log_after)
    subgoal by (auto dest!: cd ca ra simp: written_path_def last_cp_argv intro!: writes_within_log_after
                 intro: t)
    subgoal by (drule cd ca ra)+ (simp add: written_path_def last_cp_argv, (metis t l))
    subgoal by (drule cd ca ra)+ (simp add: written_path_def last_cp_argv, (metis t l))
    subgoal by (drule cd ca ra)+ (simp add: written_path_def last_cp_argv, (metis t l))
    done
qed


lemma move_users_writes:
  assumes "move_complete_app_users d from_uuid to_uuid package_name appid seinfo users s = (ok, s')"
  shows "writes_within (set (destination_paths d to_uuid package_name data_app_name users)) s s'"
  using assms
proof (induction users arbitrary: s)
  case Nil
  then show ?case by (simp add: writes_within_refl)
next
  case (Cons user users)
  obtain ok1 s1 where u: "move_complete_app_user d from_uuid to_uuid package_name appid seinfo user s
                            = (ok1, s1)"
    by (cases "move_complete_app_user d from_uuid to_uuid package_name appid seinfo user s") auto
  have w1: "writes_within (set (destination_paths d to_uuid package_name data_app_name (user # users))) s s1"
    by (rule writes_within_mono [OF move_user_writes [OF u]]) (auto simp: destination_paths_def)
  show ?case
  proof (cases ok1)
    case False
    with Cons.prems u have "s' = s1" by simp
    with w1 show ?thesis by simp
  next
    case True
    with Cons.prems u have r: "move_complete_app_users d from_uuid to_uuid package_name appid seinfo
                                 users s1 = (ok, s')"
      by simp
    have "writes_within (set (destination_paths d to_uuid package_name data_app_name (user # users))) s1 s'"
      by (rule writes_within_mono [OF Cons.IH [OF r]]) (auto simp: destination_paths_def)
    with w1 show ?thesis by (rule writes_within_trans)
  qed
qed

lemma not_is_log_delete [simp]: "\<not> is_log (Ev_delete_dir_contents path n)"
  by (simp add: is_log_def)

lemma rollback_dir_journal:
  "\<exists>logs. journal (rollback_dir d to_path s) = journal s @ Ev_delete_dir_contents to_path 1 # logs
          \<and> (\<forall>ev \<in> set logs. is_log ev)"
  by (auto simp: rollback_dir_def call_def log_line_def is_log_def Let_def split: prod.splits)

lemma rollback_users_journal:
  "\<exists>evs. journal (rollback_users d to_uuid package_name users s) = journal s @ evs
       \<and> filter (\<lambda>ev. \<not> is_log ev) evs
           = map (\<lambda>user. Ev_delete_dir_contents
                            (create_data_user_package_path d to_uuid user package_name) 1) users"
proof (induction users arbitrary: s)
  case Nil
  then show ?case by simp
next
  case (Cons user users)
  let ?p = "create_data_user_package_path d to_uuid user package_name"
  obtain logs where l: "journal (rollback_dir d ?p s) = journal s @ Ev_delete_dir_contents ?p 1 # logs"
    "\<forall>ev \<in> set logs. is_log ev"
    using rollback_dir_journal by blast
  obtain evs where e: "journal (rollback_users d to_uuid package_name users (rollback_dir d ?p s))
        = journal (rollback_dir d ?p s) @ evs"
    "filter (\<lambda>ev. \<not> is_log ev) evs
           = map (\<lambda>user. Ev_delete_dir_contents
                            (create_data_user_package_path d to_uuid user package_name) 1) users"
    using Cons.IH by blast
  have nl: "filter (\<lambda>ev. \<not> is_log ev) logs = []"
    using l(2) by (simp add: filter_empty_conv)
  show ?case
    by (rule exI [of _ "Ev_delete_dir_contents ?p 1 # logs @ evs"])
       (simp add: l e nl)
qed

lemma move_complete_app_fail_journal:
  assumes "move_complete_app_fail d to_uuid package_name data_app_name users s = (res, s')"
  shows "res = - 1 \<and>
         (\<exists>evs. journal s' = journal s @ evs \<and>
            filter (\<lambda>ev. \<not> is_log ev) evs
              = rollback_events d to_uuid package_name data_app_name users)"
proof -
  let ?p = "create_data_app_package_path d to_uuid data_app_name"
  obtain logs where l: "journal (rollback_dir d ?p s) = journal s @ Ev_delete_dir_contents ?p 1 # logs"
    "\<forall>ev \<in> set logs. is_log ev"
    using rollback_dir_journal by blast
  obtain evs where e: "journal (rollback_users d to_uuid package_name users (rollback_dir d ?p s))
        = journal (rollback_dir d ?p s) @ evs"
    "filter (\<lambda>ev. \<not> is_log ev) evs
           = map (\<lambda>user. Ev_delete_dir_contents
                            (create_data_user_package_path d to_uuid user package_name) 1) users"
    using rollback_users_journal by blast
  have nl: "filter (\<lambda>ev. \<not> is_log ev) logs = []"
    using l(2) by (simp add: filter_empty_conv)
  have "s' = rollback_users d to_uuid package_name users (rollback_dir d ?p s)"
    using assms by (simp add: move_complete_app_fail_def Let_def)
  then have "journal s' = journal s @ (Ev_delete_dir_contents ?p 1 # logs @ evs)"
    by (simp add: l e)
  moreover have "filter (\<lambda>ev. \<not> is_log ev) (Ev_delete_dir_contents ?p 1 # logs @ evs)
      = rollback_events d to_uuid package_name data_app_name users"
    by (simp add: nl e rollback_events_def)
  moreover have "res = - 1"
    using assms by (simp add: move_complete_app_fail_def Let_def)
  ultimately show ?thesis by blast
qed

lemma rollback_events_within:
  "\<forall>ev \<in> set (rollback_events d to_uuid package_name data_app_name users).
     \<forall>path. written_path ev = Some path \<longrightarrow>
        path \<in> set (destination_paths d to_uuid package_name data_app_name users)"
  by (auto simp: rollback_events_def destination_paths_def written_path_def)

lemma move_complete_app_fail_writes:
  assumes "move_complete_app_fail d to_uuid package_name data_app_name users s = (res, s')"
  shows "writes_within (set (destination_paths d to_uuid package_name data_app_name users)) s s'"
proof -
  obtain evs where e: "journal s' = journal s @ evs"
    "filter (\<lambda>ev. \<not> is_log ev) evs = rollback_events d to_uuid package_name data_app_name users"
    using move_complete_app_fail_journal [OF assms] by blast
  have "\<forall>ev \<in> set evs. \<forall>path. written_path ev = Some path \<longrightarrow>
        path \<in> set (destination_paths d to_uuid package_name data_app_name users)"
  proof (intro ballI allI impI)
    fix ev path assume a: "ev \<in> set evs" "written_path ev = Some path"
    then have "\<not> is_log ev" by (auto simp: is_log_def written_path_def split: event.splits)
    with a(1) have "ev \<in> set (filter (\<lambda>ev. \<not> is_log ev) evs)" by simp
    then show "path \<in> set (destination_paths d to_uuid package_name data_app_name users)"
      using rollback_events_within a(2) unfolding e(2) by blast
  qed
  then show ?thesis using e(1) unfolding writes_within_def by blast
qed


lemma move_complete_app_journal:
  assumes "move_complete_app d from_uuid to_uuid package_name data_app_name appid seinfo s = (res, s')"
    and "users = get_known_users d from_uuid (world s)"
  shows "\<exists>evs. journal s' = journal s @ evs
      \<and> (\<forall>ev \<in> set evs. \<forall>path. written_path ev = Some path \<longrightarrow>
            path \<in> set (destination_paths d to_uuid package_name data_app_name users))
      \<and> (res = 0 \<or> res = - 1)
      \<and> (res = - 1 \<longrightarrow>
            suffix (rollback_events d to_uuid package_name data_app_name users)
              (filter (\<lambda>ev. \<not> is_log ev) evs))"
proof -
  let ?D = "set (destination_paths d to_uuid package_name data_app_name users)"
  have failing: "\<exists>evs. journal s' = journal s @ evs
      \<and> (\<forall>ev \<in> set evs. \<forall>path. written_path ev = Some path \<longrightarrow> path \<in> ?D)
      \<and> (res = 0 \<or> res = - 1)
      \<and> (res = - 1 \<longrightarrow>
            suffix (rollback_events d to_uuid package_name data_app_name users)
              (filter (\<lambda>ev. \<not> is_log ev) evs))"
    if w: "writes_within ?D s s2"
      and f: "move_complete_app_fail d to_uuid package_name data_app_name users s2 = (res, s')"
    for s2
  proof -
    obtain evs1 where e1: "journal s2 = journal s @ evs1"
      "\<forall>ev \<in> set evs1. \<forall>path. written_path ev = Some path \<longrightarrow> path \<in> ?D"
      using w unfolding writes_within_def by blast
    obtain evs2 where e2: "journal s' = journal s2 @ evs2"
      "\<forall>ev \<in> set evs2. \<forall>path. written_path ev = Some path \<longrightarrow> path \<in> ?D"
      using move_complete_app_fail_writes [OF f] unfolding writes_within_def by blast
    obtain evs3 where e3: "journal s' = journal s2 @ evs3"
      "filter (\<lambda>ev. \<not> is_log ev) evs3 = rollback_events d to_uuid package_name data_app_name users"
      and r: "res = - 1"
      using move_complete_app_fail_journal [OF f] by blast
    have same: "evs3 = evs2" using e2(1) e3(1) by simp
    have "suffix (rollback_events d to_uuid package_name data_app_name users)
              (filter (\<lambda>ev. \<not> is_log ev) (evs1 @ evs2))"
      using e3(2) same by (simp add: suffix_def)
    then show ?thesis
      using e1 e2 r by (intro exI [of _ "evs1 @ evs2"]) auto
  qed
  obtain ok1 s1 where c: "move_complete_app_copy_app d from_uuid to_uuid data_app_name s = (ok1, s1)"
    by (cases "move_complete_app_copy_app d from_uuid to_uuid data_app_name s") auto
  have w1: "writes_within ?D s s1"
    by (rule writes_within_mono [OF copy_app_writes [OF c]]) (auto simp: destination_paths_def)
  show ?thesis
  proof (cases ok1)
    case False
    with assms c have "move_complete_app_fail d to_uuid package_name data_app_name users s1 = (res, s')"
      by (simp add: move_complete_app_def Let_def)
    with w1 show ?thesis by (rule failing)
  next
    case True
    obtain ok2 s2 where u: "move_complete_app_users d from_uuid to_uuid package_name appid seinfo
                              users s1 = (ok2, s2)"
      by (cases "move_complete_app_users d from_uuid to_uuid package_name appid seinfo users s1") auto
    have w2: "writes_within ?D s s2"
      using w1 move_users_writes [OF u] by (rule writes_within_trans)
    show ?thesis
    proof (cases ok2)
      case False
      with assms c u True
      have "move_complete_app_fail d to_uuid package_name data_app_name users s2 = (res, s')"
        by (simp add: move_complete_app_def Let_def)
      with w2 show ?thesis by (rule failing)
    next
      case ok: True
      with assms c u True have "res = 0" "s' = s2"
        by (simp_all add: move_complete_app_def Let_def)
      then show ?thesis using w2 unfolding writes_within_def by auto
    qed
  qed
qed

text \<open>
  C3, as amended.  Every entry that a call of \<open>move_complete_app\<close> adds to the journal
  writes at a destination path: the destination app directory or its parent, into
  which \<^verbatim>\<open>cp\<close> copies, and for a known user of the source volume the destination user
  directory and the destination CE and DE package directories.  So no operation of the
  call creates, modifies or deletes anything at or above the source app directory or a
  per-user source package directory, provided no destination path is a prefix of one of
  them, as for two different volumes.  The call returns 0 or -1, and whenever it
  returns -1 its last operations are \<^verbatim>\<open>delete_dir_contents\<close> with
  \<^verbatim>\<open>also_delete_dir\<close> on the destination app directory and then on the destination
  CE package directory of every known user, in order; a deletion that fails is logged
  and the rollback goes on.
\<close>

theorem move_complete_app_effects:
  assumes "move_complete_app d from_uuid to_uuid package_name data_app_name appid seinfo s = (res, s')"
    and "users = get_known_users d from_uuid (world s)"
  shows "\<exists>evs. journal s' = journal s @ evs
      \<and> (\<forall>ev \<in> set evs. \<forall>path. written_path ev = Some path \<longrightarrow>
            path \<in> set (destination_paths d to_uuid package_name data_app_name users))
      \<and> ((\<forall>src \<in> set (source_paths d from_uuid package_name data_app_name users).
             \<forall>dst \<in> set (destination_paths d to_uuid package_name data_app_name users).
               \<not> prefix dst src) \<longrightarrow>
          (\<forall>ev \<in> set evs. \<forall>path. written_path ev = Some path \<longrightarrow>
             (\<forall>src \<in> set (source_paths d from_uuid package_name data_app_name users).
                \<not> prefix path src)))
      \<and> (res = 0 \<or> res = - 1)
      \<and> (res = - 1 \<longrightarrow>
            suffix (rollback_events d to_uuid package_name data_app_name users)
              (filter (\<lambda>ev. \<not> is_log ev) evs))"
proof -
  obtain evs where e: "journal s' = journal s @ evs"
    "\<forall>ev \<in> set evs. \<forall>path. written_path ev = Some path \<longrightarrow>
            path \<in> set (destination_paths d to_uuid package_name data_app_name users)"
    "res = 0 \<or> res = - 1"
    "res = - 1 \<longrightarrow>
            suffix (rollback_events d to_uuid package_name data_app_name users)
              (filter (\<lambda>ev. \<not> is_log ev) evs)"
    using move_complete_app_journal [OF assms] by blast
  have "(\<forall>src \<in> set (source_paths d from_uuid package_name data_app_name users).
             \<forall>dst \<in> set (destination_paths d to_uuid package_name data_app_name users).
               \<not> prefix dst src) \<longrightarrow>
          (\<forall>ev \<in> set evs. \<forall>path. written_path ev = Some path \<longrightarrow>
             (\<forall>src \<in> set (source_paths d from_uuid package_name data_app_name users).
                \<not> prefix path src))"
    using e(2) by blast
  then show ?thesis using e by blast
qed


lemma show_nat_10: "show_nat 10 = ''10''"
  by code_simp

lemma show_int_1: "show_int 1 = ''1''"
  by code_simp

lemmas move_eval_defs =
  move_complete_app_def move_complete_app_copy_app_def move_complete_app_user_def
  create_app_data_def restorecon_app_data_def move_complete_app_fail_def rollback_dir_def
  call_def log_line_def example_deps_def example_data_path_def cp_argv_def kCpPath_def
  storage_ce_de_def Let_def empty_state_def show_nat_0 show_nat_10 show_int_1
  mode_0751_def mode_0771_def AID_SYSTEM_def SELINUX_ANDROID_RESTORECON_RECURSE_def

lemma user_copy_fails_run:
  "move_complete_app (user_copy_fails_deps :: unit deps) None (Some ''v2'') ''com.x'' ''com.x-1''
     10123 ''platform'' empty_state =
   (- 1,
    \<lparr>journal =
       [Ev_log DEBUG ''Copying /data/app/com.x-1 to /mnt/expand/v2/app/com.x-1'',
        Ev_fork_execvp [''/system/bin/cp'', ''-F'', ''-p'', ''-R'', ''-P'', ''-d'',
                        ''/data/app/com.x-1'', ''/mnt/expand/v2/app''],
        Ev_restorecon ''/mnt/expand/v2/app/com.x-1'' 4,
        Ev_fs_prepare_dir ''/mnt/expand/v2/user/0'' 505 1000 1000,
        Ev_fs_prepare_dir_strict ''/mnt/expand/v2/user/0/com.x'' 489 10123 10123,
        Ev_setfilecon ''/mnt/expand/v2/user/0/com.x'' ''com.x'' ''platform'' 10123,
        Ev_fs_prepare_dir_strict ''/mnt/expand/v2/user_de/0/com.x'' 489 10123 10123,
        Ev_setfilecon ''/mnt/expand/v2/user_de/0/com.x'' ''com.x'' ''platform'' 10123,
        Ev_log DEBUG ''Copying /data/user/0/com.x to /mnt/expand/v2/user/0/com.x'',
        Ev_fork_execvp [''/system/bin/cp'', ''-F'', ''-p'', ''-R'', ''-P'', ''-d'',
                        ''/data/user/0/com.x'', ''/mnt/expand/v2/user/0''],
        Ev_log ERROR ''Failed copying /data/user/0/com.x to /mnt/expand/v2/user/0/com.x: status 1'',
        Ev_delete_dir_contents ''/mnt/expand/v2/app/com.x-1'' 1,
        Ev_delete_dir_contents ''/mnt/expand/v2/user/0/com.x'' 1,
        Ev_delete_dir_contents ''/mnt/expand/v2/user/10/com.x'' 1],
     world = ()\<rparr>)"
  by (simp add: move_eval_defs user_copy_fails_deps_def)

lemma copy_fails_run:
  "move_complete_app (copy_fails_deps :: unit deps) None None ''com.x'' ''com.x-1''
     10123 ''platform'' empty_state =
   (- 1,
    \<lparr>journal =
       [Ev_log DEBUG ''Copying /data/app/com.x-1 to /data/app/com.x-1'',
        Ev_fork_execvp [''/system/bin/cp'', ''-F'', ''-p'', ''-R'', ''-P'', ''-d'',
                        ''/data/app/com.x-1'', ''/data/app''],
        Ev_log ERROR ''Failed copying /data/app/com.x-1 to /data/app/com.x-1: status 1'',
        Ev_delete_dir_contents ''/data/app/com.x-1'' 1,
        Ev_delete_dir_contents ''/data/user/0/com.x'' 1,
        Ev_delete_dir_contents ''/data/user/10/com.x'' 1],
     world = ()\<rparr>)"
  by (simp add: move_eval_defs copy_fails_deps_def)


theorem move_complete_app_effects_witness:
  "move_complete_app (user_copy_fails_deps :: unit deps) None (Some ''v2'') ''com.x'' ''com.x-1''
     10123 ''platform'' empty_state
   = (- 1, snd (move_complete_app (user_copy_fails_deps :: unit deps) None (Some ''v2'') ''com.x''
                  ''com.x-1'' 10123 ''platform'' empty_state))
   \<and> [0, 10] = get_known_users (user_copy_fails_deps :: unit deps) None (world empty_state)
   \<and> list_all (no_prefix_among
                  (destination_paths (user_copy_fails_deps :: unit deps) (Some ''v2'') ''com.x''
                     ''com.x-1'' [0, 10]))
        (source_paths (user_copy_fails_deps :: unit deps) None ''com.x'' ''com.x-1'' [0, 10])
   \<and> list_all (writes_among
                  (destination_paths (user_copy_fails_deps :: unit deps) (Some ''v2'') ''com.x''
                     ''com.x-1'' [0, 10]))
        (journal (snd (move_complete_app (user_copy_fails_deps :: unit deps) None (Some ''v2'')
                         ''com.x'' ''com.x-1'' 10123 ''platform'' empty_state)))
   \<and> suffix [Ev_delete_dir_contents ''/mnt/expand/v2/app/com.x-1'' 1,
              Ev_delete_dir_contents ''/mnt/expand/v2/user/0/com.x'' 1,
              Ev_delete_dir_contents ''/mnt/expand/v2/user/10/com.x'' 1]
        (filter (\<lambda>ev. \<not> is_log ev)
           (journal (snd (move_complete_app (user_copy_fails_deps :: unit deps) None (Some ''v2'')
                            ''com.x'' ''com.x-1'' 10123 ''platform'' empty_state))))"
proof -
  let ?d = "user_copy_fails_deps :: unit deps"
  let ?run = "move_complete_app ?d None (Some ''v2'') ''com.x'' ''com.x-1'' 10123 ''platform''
                empty_state"
  have run: "?run = (- 1, snd ?run)"
    by (simp add: user_copy_fails_run)
  have users: "[0, 10] = get_known_users ?d None (world empty_state)"
    by (simp add: user_copy_fails_deps_def example_deps_def)
  have apart: "list_all (no_prefix_among (destination_paths ?d (Some ''v2'') ''com.x'' ''com.x-1'' [0, 10]))
                 (source_paths ?d None ''com.x'' ''com.x-1'' [0, 10])"
    by (simp add: no_prefix_among_def destination_paths_def source_paths_def
        user_copy_fails_deps_def example_deps_def example_data_path_def show_nat_0 show_nat_10)
  have rb: "rollback_events ?d (Some ''v2'') ''com.x'' ''com.x-1'' [0, 10] =
             [Ev_delete_dir_contents ''/mnt/expand/v2/app/com.x-1'' 1,
              Ev_delete_dir_contents ''/mnt/expand/v2/user/0/com.x'' 1,
              Ev_delete_dir_contents ''/mnt/expand/v2/user/10/com.x'' 1]"
    by (simp add: rollback_events_def user_copy_fails_deps_def example_deps_def
        example_data_path_def show_nat_0 show_nat_10)
  obtain evs where e: "journal (snd ?run) = journal empty_state @ evs"
    "\<forall>ev \<in> set evs. \<forall>path. written_path ev = Some path \<longrightarrow>
            path \<in> set (destination_paths ?d (Some ''v2'') ''com.x'' ''com.x-1'' [0, 10])"
    "(- 1 :: int) = - 1 \<longrightarrow>
            suffix (rollback_events ?d (Some ''v2'') ''com.x'' ''com.x-1'' [0, 10])
              (filter (\<lambda>ev. \<not> is_log ev) evs)"
    using move_complete_app_effects [OF run users] by blast
  have evs: "evs = journal (snd ?run)"
    using e(1) by (simp add: empty_state_def)
  have within: "list_all (writes_among (destination_paths ?d (Some ''v2'') ''com.x'' ''com.x-1'' [0, 10]))
                  (journal (snd ?run))"
    using e(2) unfolding evs list_all_iff writes_among_def
    by (auto split: option.splits)
  have rolled: "suffix [Ev_delete_dir_contents ''/mnt/expand/v2/app/com.x-1'' 1,
              Ev_delete_dir_contents ''/mnt/expand/v2/user/0/com.x'' 1,
              Ev_delete_dir_contents ''/mnt/expand/v2/user/10/com.x'' 1]
        (filter (\<lambda>ev. \<not> is_log ev) (journal (snd ?run)))"
    using e(3) unfolding evs rb by simp
  show ?thesis
    using run users apart within rolled by (intro conjI)
qed

text \<open>
  The claim as it is worded fails in two ways.  When \<^verbatim>\<open>cp\<close> fails for the data of
  user 0, the call returns -1 after \<open>create_app_data\<close> has prepared and labelled the
  destination DE package directory of user 0, and no deletion of the rollback is at or
  above that directory.  When source and destination are the same volume and \<^verbatim>\<open>cp\<close>
  fails, the rollback deletes the app directory, which is the source.
\<close>

theorem move_complete_app_rollback_counterexample:
  "fst (move_complete_app (user_copy_fails_deps :: unit deps) None (Some ''v2'') ''com.x'' ''com.x-1''
          10123 ''platform'' empty_state) = - 1
   \<and> create_data_user_de_package_path (user_copy_fails_deps :: unit deps) (Some ''v2'') 0 ''com.x''
       = ''/mnt/expand/v2/user_de/0/com.x''
   \<and> filter (writes_at ''/mnt/expand/v2/user_de/0/com.x'')
        (journal (snd (move_complete_app (user_copy_fails_deps :: unit deps) None (Some ''v2'')
                         ''com.x'' ''com.x-1'' 10123 ''platform'' empty_state)))
       = [Ev_fs_prepare_dir_strict ''/mnt/expand/v2/user_de/0/com.x'' 489 10123 10123,
          Ev_setfilecon ''/mnt/expand/v2/user_de/0/com.x'' ''com.x'' ''platform'' 10123]
   \<and> filter (deletes_at_or_above ''/mnt/expand/v2/user_de/0/com.x'')
        (journal (snd (move_complete_app (user_copy_fails_deps :: unit deps) None (Some ''v2'')
                         ''com.x'' ''com.x-1'' 10123 ''platform'' empty_state)))
       = []
   \<and> fst (move_complete_app (copy_fails_deps :: unit deps) None None ''com.x'' ''com.x-1''
            10123 ''platform'' empty_state) = - 1
   \<and> create_data_app_package_path (copy_fails_deps :: unit deps) None ''com.x-1''
       = ''/data/app/com.x-1''
   \<and> filter (deletes_at_or_above ''/data/app/com.x-1'')
        (journal (snd (move_complete_app (copy_fails_deps :: unit deps) None None ''com.x''
                         ''com.x-1'' 10123 ''platform'' empty_state)))
       = [Ev_delete_dir_contents ''/data/app/com.x-1'' 1]"
proof -
  have p1: "create_data_user_de_package_path (user_copy_fails_deps :: unit deps) (Some ''v2'') 0 ''com.x''
       = ''/mnt/expand/v2/user_de/0/com.x''"
    by (simp add: user_copy_fails_deps_def example_deps_def example_data_path_def show_nat_0)
  have p2: "create_data_app_package_path (copy_fails_deps :: unit deps) None ''com.x-1''
       = ''/data/app/com.x-1''"
    by (simp add: copy_fails_deps_def example_deps_def example_data_path_def)
  show ?thesis
    unfolding p1 p2 user_copy_fails_run copy_fails_run
    by (simp add: writes_at_def written_path_def deletes_at_or_above_def)
qed

subsection \<open>restorecon of app data\<close>

text \<open>
  C9.  With both storage classes enabled, \<open>restorecon_app_data\<close> returns -1 exactly
  when re-labelling the CE directory fails, and 0 otherwise: a failure on the DE
  directory adds a line to the log and nothing else.
\<close>

theorem restorecon_app_data_result:
  "restorecon_app_data d uuid (Some pkg) userid {FLAG_CE_STORAGE, FLAG_DE_STORAGE} appid (Some sei) s =
     (let uid = multiuser_get_uid d userid appid;
          ce_path = create_data_user_package_path d uuid userid pkg;
          de_path = create_data_user_de_package_path d uuid userid pkg;
          (ce_rc, w1) = selinux_android_restorecon_pkgdir d ce_path sei uid
                          SELINUX_ANDROID_RESTORECON_RECURSE (world s);
          (de_rc, w2) = selinux_android_restorecon_pkgdir d de_path sei uid
                          SELINUX_ANDROID_RESTORECON_RECURSE w1
      in (if ce_rc < 0 then - 1 else 0,
          \<lparr>journal = journal s
              @ [Ev_restorecon_pkgdir ce_path sei uid SELINUX_ANDROID_RESTORECON_RECURSE]
              @ (if ce_rc < 0 then [Ev_log ERROR (''restorecon failed for '' @ ce_path)] else [])
              @ [Ev_restorecon_pkgdir de_path sei uid SELINUX_ANDROID_RESTORECON_RECURSE]
              @ (if de_rc < 0 then [Ev_log ERROR (''restorecon failed for '' @ de_path)] else []),
            world = w2\<rparr>))"
  by (simp add: restorecon_app_data_def Let_def call_def log_line_def split: prod.splits)

subsection \<open>Removing a cached dex file\<close>

text \<open>
  C10.  For a valid apk path whose cache path is computed and names no file,
  \<open>rm_dex\<close> returns -1, logs nothing and changes nothing: the \<^verbatim>\<open>ENOENT\<close> of
  \<^verbatim>\<open>unlink\<close> is a failure of the command.
\<close>

theorem rm_dex_missing:
  "\<not> (validate_apk_path d path \<noteq> 0 \<and> validate_system_app_path d path \<noteq> 0) \<Longrightarrow>
   create_cache_path d path instruction_set = Some dex_path \<Longrightarrow>
   names s dex_path = None \<Longrightarrow>
   rm_dex d path instruction_set s = ((- 1, []), s)"
  by (auto simp: rm_dex_def sys_unlink_def)

theorem rm_dex_missing_witness:
  "\<not> (validate_apk_path (example_deps :: unit deps) ''/data/app/b.apk'' \<noteq> 0 \<and>
      validate_system_app_path (example_deps :: unit deps) ''/data/app/b.apk'' \<noteq> 0) \<and>
   create_cache_path (example_deps :: unit deps) ''/data/app/b.apk'' ''arm64''
     = Some ''/data/dalvik-cache/arm64/data@app@b.apk@classes.dex'' \<and>
   names example_fs ''/data/dalvik-cache/arm64/data@app@b.apk@classes.dex'' = None \<and>
   rm_dex (example_deps :: unit deps) ''/data/app/b.apk'' ''arm64'' example_fs
     = ((- 1, []), example_fs)"
proof -
  have v: "\<not> (validate_apk_path (example_deps :: unit deps) ''/data/app/b.apk'' \<noteq> 0 \<and>
      validate_system_app_path (example_deps :: unit deps) ''/data/app/b.apk'' \<noteq> 0)"
    by (simp add: example_deps_def)
  have c: "create_cache_path (example_deps :: unit deps) ''/data/app/b.apk'' ''arm64''
     = Some ''/data/dalvik-cache/arm64/data@app@b.apk@classes.dex''"
    by (simp add: example_deps_def slash_to_at_def)
  have n: "names example_fs ''/data/dalvik-cache/arm64/data@app@b.apk@classes.dex'' = None"
    by (simp add: example_fs_def)
  show ?thesis using v c n rm_dex_missing [OF v c n] by simp
qed

subsection \<open>dexopt\<close>

text \<open>A run of the example, and what each system call leaves unchanged.\<close>


lemmas fs_eval_defs =
  sys_stat_def alloc_fd_def sys_open_rdonly_def sys_open_creat_excl_def sys_unlink_def
  update_inode_def sys_fchmod_def sys_fchown_def sys_utime_def sys_close_def new_inode_def
  zero_stat_def

lemma out_a: "dexopt_out_path (example_deps :: fs deps) ''/data/app/a.apk'' ''arm64'' None
   = Some ''/data/dalvik-cache/arm64/data@app@a.apk@classes.dex''"
  by (simp add: dexopt_out_path_def example_deps_def slash_to_at_def)

lemma swap_yes: "ShouldUseSwapFileForDexopt no_properties"
  by (simp add: ShouldUseSwapFileForDexopt_def ShouldUseSwapFileForDexopt_policy_def
      kAlwaysProvideSwapFile_def kDefaultProvideSwapFile_def get_property_def no_properties_def)

lemma run_ok: "run_dex2oat no_properties 3 4 ''/data/app/a.apk''
    ''/data/dalvik-cache/arm64/data@app@a.apk@classes.dex'' 5 ''arm64'' False False False False [] []
   \<noteq> None"
  by (simp add: run_dex2oat_def MAX_INSTRUCTION_SET_LEN_def Let_def case_prod_beta)

lemma dexopt_example_run:
  "dexopt (example_deps :: fs deps) no_faults no_properties ''/data/app/a.apk'' 10042 ''com.x''
     ''arm64'' DEXOPT_DEX2OAT_NEEDED None {DEXOPT_PUBLIC} None False example_fs
   = (Returns 0,
      example_fs
        \<lparr>names := (names example_fs)
           (''/data/dalvik-cache/arm64/data@app@a.apk@classes.dex'' \<mapsto> 2),
         inodes := (inodes example_fs)
           (2 \<mapsto> \<lparr>st_mode = 420, st_uid = 1000, st_gid = 10042, st_atime = 1111, st_mtime = 2222\<rparr>,
            3 \<mapsto> \<lparr>st_mode = 384, st_uid = 0, st_gid = 0, st_atime = 5000, st_mtime = 5000\<rparr>),
         next_ino := 4, next_fd := 6\<rparr>)"
  using run_ok
  apply (simp add: dexopt_def out_a dexopt_input_file_def)
  apply (simp add: dexopt_compile_def dexopt_open_swap_def swap_yes dexopt_fork_wait_def dexopt_child_def
     wait_child_def close_all_fds_def Let_def fs_eval_defs example_fs_def example_apk_def no_faults_def
     mode_0644_def mode_0600_def S_IRUSR_def S_IWUSR_def S_IRGRP_def S_IROTH_def AID_SYSTEM_def
     example_deps_def)
  apply (auto simp: fs_eval_defs S_IROTH_def fun_upd_twist)
  done

lemma public_mode:
  "(S_IRUSR OR S_IWUSR OR S_IRGRP OR (if is_public then S_IROTH else 0))
     = (if is_public then mode_0644 else mode_0640)"
  by (simp add: S_IRUSR_def S_IWUSR_def S_IRGRP_def S_IROTH_def mode_0644_def mode_0640_def)

lemma sys_close_frame [simp]:
  "names (sys_close fd s) = names s" "inodes (sys_close fd s) = inodes s"
  "next_ino (sys_close fd s) = next_ino s" "unlink_refused (sys_close fd s) = unlink_refused s"
  by (simp_all add: sys_close_def)

lemma close_all_fds_frame [simp]:
  "names (close_all_fds fd_list s) = names s" "inodes (close_all_fds fd_list s) = inodes s"
  "next_ino (close_all_fds fd_list s) = next_ino s"
  "unlink_refused (close_all_fds fd_list s) = unlink_refused s"
  unfolding close_all_fds_def by (induction fd_list arbitrary: s) simp_all

lemma sys_unlink_frame [simp]:
  "inodes (snd (sys_unlink path s)) = inodes s"
  "fds (snd (sys_unlink path s)) = fds s"
  "next_ino (snd (sys_unlink path s)) = next_ino s"
  "next_fd (snd (sys_unlink path s)) = next_fd s"
  "unlink_refused (snd (sys_unlink path s)) = unlink_refused s"
  by (auto simp: sys_unlink_def split: option.splits)

lemma sys_unlink_names:
  "other \<noteq> path \<Longrightarrow> names (snd (sys_unlink path s)) other = names s other"
  "unlink_refused s path = None \<Longrightarrow> names (snd (sys_unlink path s)) path = None"
  "names (snd (sys_unlink path s)) other \<noteq> None \<Longrightarrow> names s other \<noteq> None"
  "(names (snd (sys_unlink path s)))(path \<mapsto> i) = (names s)(path \<mapsto> i)"
  by (auto simp: sys_unlink_def split: option.splits if_splits)

lemma sys_open_rdonly_ok:
  assumes "sys_open_rdonly fault path s = (fd, s')" and "\<not> fd < 0"
  shows "names s' = names s" "inodes s' = inodes s" "next_ino s' = next_ino s"
    "names s path \<noteq> None" "\<not> fault" "unlink_refused s' = unlink_refused s"
  using assms by (auto simp: sys_open_rdonly_def alloc_fd_def split: option.splits if_splits)

lemma sys_open_rdonly_failed:
  assumes "sys_open_rdonly fault path s = (fd, s')" and "fd < 0"
  shows "s' = s" "names s path = None \<or> fault"
  using assms by (auto simp: sys_open_rdonly_def alloc_fd_def split: option.splits if_splits)

lemma sys_open_creat_excl_ok:
  assumes "sys_open_creat_excl fault path mode s = (fd, s')" and "\<not> fd < 0"
  shows "names s' = (names s)(path \<mapsto> next_ino s)"
    "inodes s' = (inodes s)(next_ino s \<mapsto> new_inode mode s)"
    "fds s' = (fds s)(int (next_fd s) \<mapsto> next_ino s)"
    "next_ino s' = Suc (next_ino s)" "next_fd s' = Suc (next_fd s)" "fd = int (next_fd s)"
    "unlink_refused s' = unlink_refused s"
  using assms
  by (auto simp: sys_open_creat_excl_def alloc_fd_def Let_def split: option.splits if_splits)

lemma sys_open_creat_excl_failed:
  assumes "sys_open_creat_excl fault path mode s = (fd, s')" and "fd < 0"
  shows "s' = s"
  using assms
  by (auto simp: sys_open_creat_excl_def alloc_fd_def Let_def split: option.splits if_splits)

lemma update_inode_ok:
  assumes "update_inode fd change fault s = (rc, s')" and "\<not> rc < 0"
  shows "\<exists>i n. fds s fd = Some i \<and> inodes s i = Some n \<and>
               s' = s\<lparr>inodes := (inodes s)(i \<mapsto> change n)\<rparr>"
  using assms by (auto simp: update_inode_def split: option.splits if_splits)

lemma update_inode_failed:
  assumes "update_inode fd change fault s = (rc, s')" and "rc < 0"
  shows "s' = s"
  using assms by (auto simp: update_inode_def split: option.splits if_splits)

lemma update_inode_names [simp]: "names (snd (update_inode fd change fault s)) = names s"
  by (auto simp: update_inode_def split: option.splits)

lemma dexopt_open_swap_frame:
  assumes "dexopt_open_swap d flt ps out_path s = ((swap_fd, swap_log), s')"
  shows "\<forall>path. path \<noteq> out_path @ ''.swap'' \<longrightarrow> names s' path = names s path"
    and "unlink_refused s (out_path @ ''.swap'') = None \<longrightarrow>
         names s' (out_path @ ''.swap'') \<noteq> None \<longrightarrow> names s (out_path @ ''.swap'') \<noteq> None"
    and "\<forall>i. i < next_ino s \<longrightarrow> inodes s' i = inodes s i"
    and "\<forall>fd. fd < int (next_fd s) \<longrightarrow> fds s' fd = fds s fd"
    and "unlink_refused s' = unlink_refused s"
  using assms
  by (auto simp: dexopt_open_swap_def Let_def sys_open_creat_excl_def alloc_fd_def sys_unlink_def
      split: if_splits prod.splits option.splits)

lemma dexopt_fork_wait_frame:
  assumes "dexopt_fork_wait flt ps uid boot_complete dexopt_needed input_fd out_fd input_file
       out_path swap_fd pkgname instruction_set vm_safe_mode debuggable use_jit
       profile_files_fd reference_profile_files_fd s = (res, s')"
  shows "names s' = names s"
    and "inodes s i = Some n \<Longrightarrow>
         \<exists>n'. inodes s' i = Some n' \<and> st_mode n' = st_mode n \<and> st_uid n' = st_uid n \<and>
              st_gid n' = st_gid n"
    and "unlink_refused s' = unlink_refused s"
  using assms
  by (auto simp: dexopt_fork_wait_def Let_def update_inode_def
      split: if_splits prod.splits option.splits)

lemma dexopt_fail_frame:
  "fst (dexopt_fail out_fd input_fd out_path use_profiles pf rpf s) = Returns (- 1)"
  "out_fd < 0 \<Longrightarrow> names (snd (dexopt_fail out_fd input_fd out_path use_profiles pf rpf s)) = names s"
  "other \<noteq> out_path \<Longrightarrow>
   names (snd (dexopt_fail out_fd input_fd out_path use_profiles pf rpf s)) other = names s other"
  "\<not> out_fd < 0 \<Longrightarrow> unlink_refused s out_path = None \<Longrightarrow>
   names (snd (dexopt_fail out_fd input_fd out_path use_profiles pf rpf s)) out_path = None"
  by (simp_all add: dexopt_fail_def Let_def sys_unlink_names)

lemma dexopt_compile_cases:
  assumes run: "dexopt_compile d flt ps uid pkgname instruction_set dexopt_needed dexopt_flags
             use_profiles profile_files_fd reference_profile_files_fd out_path input_file s1
           = (ended, s')"
  defines "input_stat \<equiv> (case sys_stat s1 input_file of None \<Rightarrow> zero_stat | Some st \<Rightarrow> st)"
  shows "(ended = Returns (- 1) \<and> (names s1 input_file = None \<or> f_open_input flt) \<and> s' = s1)
       \<or> (ended = Returns (- 1) \<and> names s1 input_file \<noteq> None \<and> \<not> f_open_input flt \<and>
           (unlink_refused s1 out_path = None \<longrightarrow> names s' out_path = None) \<and>
           (\<forall>path. path \<noteq> out_path \<longrightarrow> unlink_refused s1 path = None \<longrightarrow>
                   names s' path \<noteq> None \<longrightarrow> names s1 path \<noteq> None))
       \<or> (ended = Returns 0 \<and> names s1 input_file \<noteq> None \<and> \<not> f_open_input flt \<and>
           sys_stat s' out_path =
             Some \<lparr>st_mode = (if DEXOPT_PUBLIC \<in> dexopt_flags then mode_0644 else mode_0640),
                   st_uid = AID_SYSTEM, st_gid = uid,
                   st_atime = st_atime input_stat, st_mtime = st_mtime input_stat\<rparr> \<and>
           (\<forall>path. path \<noteq> out_path \<longrightarrow> unlink_refused s1 path = None \<longrightarrow>
                   names s' path \<noteq> None \<longrightarrow> names s1 path \<noteq> None))"
proof -
  let ?boot = "DEXOPT_BOOTCOMPLETE \<in> dexopt_flags"
  let ?mode = "S_IRUSR OR S_IWUSR OR S_IRGRP OR (if DEXOPT_PUBLIC \<in> dexopt_flags then S_IROTH else 0)"
  obtain input_fd sa where o1: "sys_open_rdonly (f_open_input flt) input_file s1 = (input_fd, sa)"
    by (cases "sys_open_rdonly (f_open_input flt) input_file s1") auto
  show ?thesis
  proof (cases "input_fd < 0")
    case True
    then have "dexopt_compile d flt ps uid pkgname instruction_set dexopt_needed dexopt_flags
             use_profiles profile_files_fd reference_profile_files_fd out_path input_file s1
           = (Returns (- 1), sa)"
      by (simp add: dexopt_compile_def Let_def o1)
    then show ?thesis
      using run sys_open_rdonly_failed [OF o1 True] by auto
  next
    case in_ok: False
    note a = sys_open_rdonly_ok [OF o1 in_ok]
    let ?sb = "snd (sys_unlink out_path sa)"
    have b_other: "\<And>path. path \<noteq> out_path \<Longrightarrow> names ?sb path = names s1 path"
      and b_out: "unlink_refused s1 out_path = None \<Longrightarrow> names ?sb out_path = None"
      and b_ref: "unlink_refused ?sb = unlink_refused s1"
      using a(1,6) by (simp_all add: sys_unlink_names)
    obtain out_fd sc where o3: "sys_open_creat_excl (f_open_output flt) out_path mode_0644
                                  (snd (sys_unlink out_path sa)) = (out_fd, sc)"
      by (cases "sys_open_creat_excl (f_open_output flt) out_path mode_0644
                   (snd (sys_unlink out_path sa))") auto
    show ?thesis
    proof (cases "out_fd < 0")
      case True
      then have "dexopt_compile d flt ps uid pkgname instruction_set dexopt_needed dexopt_flags
             use_profiles profile_files_fd reference_profile_files_fd out_path input_file s1
           = dexopt_fail out_fd input_fd out_path use_profiles profile_files_fd
                     reference_profile_files_fd sc"
        using in_ok by (simp add: dexopt_compile_def Let_def o1 o3 split del: if_split)
      with run have r: "ended = Returns (- 1)" "names s' = names sc"
        using dexopt_fail_frame(1,2) [of out_fd input_fd out_path use_profiles profile_files_fd
                reference_profile_files_fd sc] True
        by (simp_all add: prod_eq_iff)
      have "sc = ?sb"
        using sys_open_creat_excl_failed [OF o3 True] .
      then show ?thesis using r a(4,5) b_other b_out by auto
    next
      case out_ok: False
      note c = sys_open_creat_excl_ok [OF o3 out_ok]
      define i_out where "i_out = next_ino sa"
      have c_names: "names sc = (names s1)(out_path \<mapsto> i_out)"
        using c(1) a(1) by (simp add: i_out_def sys_unlink_names)
      have c_ino: "inodes sc i_out = Some (new_inode mode_0644 (snd (sys_unlink out_path sa)))"
        using c(2) by (simp add: i_out_def)
      have c_fd: "fds sc out_fd = Some i_out"
        using c(3,6) by (simp add: i_out_def)
      have c_next: "next_ino sc = Suc i_out" "int (next_fd sc) = out_fd + 1"
        using c(4,5,6) by (simp_all add: i_out_def)
      have c_ref: "unlink_refused sc = unlink_refused s1"
        using c(7) b_ref by simp
      obtain rc4 sd where o4: "sys_fchmod (f_fchmod_output flt) out_fd ?mode sc = (rc4, sd)"
        by (cases "sys_fchmod (f_fchmod_output flt) out_fd ?mode sc") auto
      have failing: ?thesis
        if f: "dexopt_compile d flt ps uid pkgname instruction_set dexopt_needed dexopt_flags
             use_profiles profile_files_fd reference_profile_files_fd out_path input_file s1
           = dexopt_fail out_fd input_fd out_path use_profiles profile_files_fd
                     reference_profile_files_fd sx"
          and n: "\<forall>path. path \<noteq> out_path \<longrightarrow> unlink_refused s1 path = None \<longrightarrow>
                         names sx path \<noteq> None \<longrightarrow> names s1 path \<noteq> None"
          and u: "unlink_refused sx = unlink_refused s1"
        for sx
      proof -
        from run f have r: "ended = Returns (- 1)"
          "s' = snd (dexopt_fail out_fd input_fd out_path use_profiles profile_files_fd
                       reference_profile_files_fd sx)"
          using dexopt_fail_frame(1) [of out_fd input_fd out_path use_profiles profile_files_fd
                  reference_profile_files_fd sx]
          by (simp_all add: prod_eq_iff)
        have "unlink_refused s1 out_path = None \<longrightarrow> names s' out_path = None"
          unfolding r(2) using dexopt_fail_frame(4) [OF out_ok] u by simp
        moreover have "\<forall>path. path \<noteq> out_path \<longrightarrow> unlink_refused s1 path = None \<longrightarrow>
                         names s' path \<noteq> None \<longrightarrow> names s1 path \<noteq> None"
          unfolding r(2) using n by (simp add: dexopt_fail_frame(3))
        ultimately show ?thesis using r(1) a(4,5) by simp
      qed
      show ?thesis
      proof (cases "rc4 < 0")
        case True
        have "dexopt_compile d flt ps uid pkgname instruction_set dexopt_needed dexopt_flags
             use_profiles profile_files_fd reference_profile_files_fd out_path input_file s1
           = dexopt_fail out_fd input_fd out_path use_profiles profile_files_fd
                     reference_profile_files_fd sd"
          using in_ok out_ok True
          by (simp add: dexopt_compile_def Let_def o1 o3 o4 split del: if_split)
        moreover have "sd = sc"
          using o4 True unfolding sys_fchmod_def by (rule update_inode_failed)
        ultimately show ?thesis
          using c_names c_ref by (intro failing [of sd]) auto
      next
        case chmod_ok: False
        obtain n4 where d: "sd = sc\<lparr>inodes := (inodes sc)(i_out \<mapsto> n4)\<rparr>"
          "st_mode n4 = ?mode"
          using update_inode_ok [OF o4 [unfolded sys_fchmod_def] chmod_ok] c_fd c_ino by auto
        obtain rc5 se where o5: "sys_fchown (f_fchown_output flt) out_fd AID_SYSTEM uid sd = (rc5, se)"
          by (cases "sys_fchown (f_fchown_output flt) out_fd AID_SYSTEM uid sd") auto
        show ?thesis
        proof (cases "rc5 < 0")
          case True
          have "dexopt_compile d flt ps uid pkgname instruction_set dexopt_needed dexopt_flags
             use_profiles profile_files_fd reference_profile_files_fd out_path input_file s1
           = dexopt_fail out_fd input_fd out_path use_profiles profile_files_fd
                     reference_profile_files_fd se"
            using in_ok out_ok chmod_ok True
            by (simp add: dexopt_compile_def Let_def o1 o3 o4 o5 split del: if_split)
          moreover have "se = sd"
            using o5 True unfolding sys_fchown_def by (rule update_inode_failed)
          ultimately show ?thesis
            using c_names c_ref d(1) by (intro failing [of se]) auto
        next
          case chown_ok: False
          obtain n5 where e: "se = sd\<lparr>inodes := (inodes sd)(i_out \<mapsto> n5)\<rparr>"
            "st_mode n5 = ?mode" "st_uid n5 = AID_SYSTEM" "st_gid n5 = uid"
            using update_inode_ok [OF o5 [unfolded sys_fchown_def] chown_ok] c_fd d by auto
          have e_names: "names se = (names s1)(out_path \<mapsto> i_out)"
            and e_ino: "inodes se i_out = Some n5"
            and e_fd: "fds se out_fd = Some i_out"
            and e_next: "next_ino se = Suc i_out" "int (next_fd se) = out_fd + 1"
            and e_ref: "unlink_refused se = unlink_refused s1"
            using e(1) d(1) c_names c_fd c_next c_ref by simp_all
          obtain swap_fd swap_log sf where
            o6: "dexopt_open_swap d flt ps out_path se = ((swap_fd, swap_log), sf)"
            by (cases "dexopt_open_swap d flt ps out_path se") auto
          note f = dexopt_open_swap_frame [OF o6]
          have f_out: "names sf out_path = Some i_out"
            using f(1) e_names by simp
          have f_other: "\<forall>path. path \<noteq> out_path \<longrightarrow> unlink_refused s1 path = None \<longrightarrow>
                           names sf path \<noteq> None \<longrightarrow> names s1 path \<noteq> None"
            using f(1,2) e_names e_ref by (metis fun_upd_other)
          have f_ino: "inodes sf i_out = Some n5"
            using f(3) e_ino e_next by simp
          have f_fd: "fds sf out_fd = Some i_out"
            using f(4) e_fd e_next by simp
          have f_ref: "unlink_refused sf = unlink_refused s1"
            using f(5) e_ref by simp
          obtain res sg where o7: "dexopt_fork_wait flt ps uid ?boot dexopt_needed input_fd
                                  out_fd input_file out_path swap_fd pkgname instruction_set
                                  (DEXOPT_SAFEMODE \<in> dexopt_flags) (DEXOPT_DEBUGGABLE \<in> dexopt_flags)
                                  (DEXOPT_USEJIT \<in> dexopt_flags) profile_files_fd
                                  reference_profile_files_fd sf = (res, sg)"
            by (cases "dexopt_fork_wait flt ps uid ?boot dexopt_needed input_fd
                                  out_fd input_file out_path swap_fd pkgname instruction_set
                                  (DEXOPT_SAFEMODE \<in> dexopt_flags) (DEXOPT_DEBUGGABLE \<in> dexopt_flags)
                                  (DEXOPT_USEJIT \<in> dexopt_flags) profile_files_fd
                                  reference_profile_files_fd sf") auto
          note g = dexopt_fork_wait_frame [OF o7]
          obtain n7 where g_ino: "inodes sg i_out = Some n7" "st_mode n7 = ?mode"
            "st_uid n7 = AID_SYSTEM" "st_gid n7 = uid"
            using g(2) [OF f_ino] e(2,3,4) by auto
          show ?thesis
          proof (cases "res \<noteq> 0")
            case True
            have "dexopt_compile d flt ps uid pkgname instruction_set dexopt_needed dexopt_flags
               use_profiles profile_files_fd reference_profile_files_fd out_path input_file s1
             = dexopt_fail out_fd input_fd out_path use_profiles profile_files_fd
                       reference_profile_files_fd sg"
              using in_ok out_ok chmod_ok chown_ok True
              by (simp add: dexopt_compile_def Let_def o1 o3 o4 o5 o6 o7 split del: if_split)
            then show ?thesis
              using f_other f_ref g(1,3) by (intro failing [of sg]) auto
          next
            case False
            define sh where "sh = snd (sys_utime out_path (st_atime input_stat) (st_mtime input_stat) sg)"
            have h: "names sh = names sg"
              "inodes sh i_out = Some (n7\<lparr>st_atime := st_atime input_stat,
                                         st_mtime := st_mtime input_stat\<rparr>)"
              using g(1) f_out g_ino(1)
              by (simp_all add: sh_def sys_utime_def)
            have "\<exists>sz. dexopt_compile d flt ps uid pkgname instruction_set dexopt_needed dexopt_flags
               use_profiles profile_files_fd reference_profile_files_fd out_path input_file s1
               = (Returns 0, sz) \<and> names sz = names sh \<and> inodes sz = inodes sh"
              using in_ok out_ok chmod_ok chown_ok False
              apply (simp add: dexopt_compile_def Let_def o1 o3 o4 o5 o6 o7 sh_def input_stat_def
                  split del: if_split)
              apply simp
              done
            with run have r: "ended = Returns 0" "names s' = names sh" "inodes s' = inodes sh"
              by auto
            have "sys_stat s' out_path =
                    Some (n7\<lparr>st_atime := st_atime input_stat, st_mtime := st_mtime input_stat\<rparr>)"
              using r h g(1) f_out by (simp add: sys_stat_def)
            moreover have "n7\<lparr>st_atime := st_atime input_stat, st_mtime := st_mtime input_stat\<rparr>
                 = \<lparr>st_mode = (if DEXOPT_PUBLIC \<in> dexopt_flags then mode_0644 else mode_0640),
                   st_uid = AID_SYSTEM, st_gid = uid,
                   st_atime = st_atime input_stat, st_mtime = st_mtime input_stat\<rparr>"
              using g_ino(2,3,4) by (simp add: public_mode)
            moreover have "\<forall>path. path \<noteq> out_path \<longrightarrow> unlink_refused s1 path = None \<longrightarrow>
                             names s' path \<noteq> None \<longrightarrow> names s1 path \<noteq> None"
              using r(2) h(1) g(1) f_other by simp
            ultimately show ?thesis
              using r(1) a(4,5) by simp
          qed
        qed
      qed
    qed
  qed
qed

lemma keeps_files_refl: "keeps_files s s"
  by (simp add: keeps_files_def)

lemma keeps_files_close [simp]: "keeps_files a (sys_close fd s) = keeps_files a s"
  by (simp add: keeps_files_def sys_close_def)

lemma keeps_files_alloc_fd:
  "alloc_fd i s = (r, s1) \<Longrightarrow> keeps_files a s \<Longrightarrow> keeps_files a s1"
  by (auto simp: keeps_files_def alloc_fd_def)

lemma keeps_files_open_directory:
  "sys_open_directory fault path s = (r, s1) \<Longrightarrow> keeps_files a s \<Longrightarrow> keeps_files a s1"
  by (auto simp: keeps_files_def sys_open_directory_def split: option.splits if_splits)

lemma keeps_files_openat_rdwr:
  "sys_openat_rdwr fault dirfd name s = (r, s1) \<Longrightarrow> keeps_files a s \<Longrightarrow> keeps_files a s1"
  by (auto simp: sys_openat_rdwr_def split: option.splits if_splits dest: keeps_files_alloc_fd)

lemma keeps_files_new_inode:
  "keeps_files a s \<Longrightarrow>
   keeps_files a (s\<lparr>dirs := ds, inodes := (inodes s)(next_ino s \<mapsto> n), next_ino := Suc (next_ino s)\<rparr>)"
  by (auto simp: keeps_files_def)

lemma keeps_files_openat_creat:
  "sys_openat_creat fault dirfd name mode s = (r, s1) \<Longrightarrow> keeps_files a s \<Longrightarrow> keeps_files a s1"
  by (auto simp: sys_openat_creat_def Let_def split: option.splits if_splits
           dest: keeps_files_alloc_fd keeps_files_new_inode)

lemma keeps_files_fchown:
  "sys_fchown fault fd owner grp s = (r, s1) \<Longrightarrow> keeps_files a s \<Longrightarrow> keeps_files a s1"
  by (fastforce simp: sys_fchown_def update_inode_def keeps_files_def
           split: option.splits if_splits)

lemma keeps_files_open_code_cache:
  "open_code_cache_for_user d flt user volume_uuid pkgname s = (r, s1) \<Longrightarrow>
   keeps_files a s \<Longrightarrow> keeps_files a s1"
  by (auto simp: open_code_cache_for_user_def Let_def split: prod.splits if_splits
           dest: keeps_files_open_directory)

lemma keeps_files_open_profile_files_for_user:
  "open_profile_files_for_user flt user uid pkgname code_cache_fd s = (r, s1) \<Longrightarrow>
   keeps_files a s \<Longrightarrow> keeps_files a s1"
  by (auto simp: open_profile_files_for_user_def Let_def split: prod.splits if_splits)
     (blast dest: keeps_files_openat_rdwr keeps_files_openat_creat keeps_files_fchown)+

lemma keeps_files_loop:
  "open_profile_files_loop d flt volume_uuid uid pkgname users (pf, rf, s) = (pf1, rf1, s1) \<Longrightarrow>
   keeps_files a s \<Longrightarrow> keeps_files a s1"
proof (induction users arbitrary: pf rf s)
  case Nil
  then show ?case by simp
next
  case (Cons user users)
  obtain cfd sa where c: "open_code_cache_for_user d flt user volume_uuid pkgname s = (cfd, sa)"
    by (cases "open_code_cache_for_user d flt user volume_uuid pkgname s") auto
  have ka: "keeps_files a sa"
    using keeps_files_open_code_cache [OF c Cons.prems(2)] .
  show ?case
  proof (cases "cfd < 0")
    case True
    with Cons.prems(1) c
    have "open_profile_files_loop d flt volume_uuid uid pkgname users (pf, rf, sa) = (pf1, rf1, s1)"
      by simp
    then show ?thesis using ka by (rule Cons.IH)
  next
    case False
    obtain pfd rfd sb where o: "open_profile_files_for_user flt user uid pkgname cfd sa
                                  = ((pfd, rfd), sb)"
      by (cases "open_profile_files_for_user flt user uid pkgname cfd sa") auto
    have kb: "keeps_files a (sys_close cfd sb)"
      using keeps_files_open_profile_files_for_user [OF o ka] by simp
    from Cons.prems(1) c o False
    have "\<exists>pf2 rf2. open_profile_files_loop d flt volume_uuid uid pkgname users
                      (pf2, rf2, sys_close cfd sb) = (pf1, rf1, s1)"
      by (auto simp: Let_def split: if_splits)
    then show ?thesis using kb Cons.IH by blast
  qed
qed

lemma keeps_files_open_profile_files:
  "open_profile_files d flt volume_uuid uid pkgname s = (pf, rf, s1) \<Longrightarrow> keeps_files s s1"
  unfolding open_profile_files_def
  by (erule keeps_files_loop) (rule keeps_files_refl)

lemma keeps_files_stat:
  assumes k: "keeps_files s s1" and wf: "fs_wf s" and n: "names s path \<noteq> None"
  shows "\<exists>st st1. sys_stat s path = Some st \<and> sys_stat s1 path = Some st1 \<and>
                 st_atime st1 = st_atime st \<and> st_mtime st1 = st_mtime st"
proof -
  from n obtain i where i: "names s path = Some i" by auto
  with wf obtain st where st: "i < next_ino s" "inodes s i = Some st"
    by (auto simp: fs_wf_def)
  with k obtain st1 where "inodes s1 i = Some st1" "st_atime st1 = st_atime st"
      "st_mtime st1 = st_mtime st"
    unfolding keeps_files_def by blast
  moreover have "names s1 path = Some i" using k i by (simp add: keeps_files_def)
  ultimately show ?thesis using i st by (simp add: sys_stat_def)
qed

lemma dexopt_profile_phase:
  assumes p: "(if use_profiles then open_profile_files d flt volume_uuid uid pkgname s
               else ([], [], s)) = (pf, rf, s1)"
  shows "keeps_files s s1"
proof (cases use_profiles)
  case True
  with p show ?thesis by (simp add: keeps_files_open_profile_files)
next
  case False
  with p show ?thesis by (simp add: keeps_files_refl)
qed

lemma dexopt_reaches_compile:
  assumes run: "dexopt d flt ps apk_path uid pkgname instruction_set dexopt_needed oat_dir
                  dexopt_flags volume_uuid use_profiles s = (ended, s')"
    and p: "(if use_profiles then open_profile_files d flt volume_uuid uid pkgname s
               else ([], [], s)) = (pf, rf, s1)"
    and forked: "\<not> (use_profiles \<and> pf = [])"
    and fits: "\<not> length apk_path \<ge> PKG_PATH_MAX d - 8"
    and out: "dexopt_out_path d apk_path instruction_set oat_dir = Some out_path"
    and inp: "dexopt_input_file d apk_path instruction_set dexopt_needed out_path = Inr input_file"
  shows "dexopt_compile d flt ps uid pkgname instruction_set dexopt_needed dexopt_flags
           use_profiles pf rf out_path input_file s1 = (ended, s')"
  using run forked fits unfolding dexopt_def p by (simp add: out inp)


lemma dexopt_input_file_ended:
  "dexopt_input_file d apk_path instruction_set dexopt_needed out_path = Inl ended \<Longrightarrow>
   ended = Returns (- 1) \<or> ended = Exits 72"
  by (auto simp: dexopt_input_file_def split: dexopt_needed_t.splits option.splits)

text \<open>
  C1.  A call of \<open>dexopt\<close> on a well-formed file system that is not ended by the
  profile skip and returns 0 has derived an output path and selected an input file
  that existed before the call; on return the output path names a file of mode 0644
  when \<^verbatim>\<open>DEXOPT_PUBLIC\<close> is set and 0640 otherwise, of owner \<^verbatim>\<open>AID_SYSTEM\<close> and group
  the app uid, whose atime and mtime are those the input file had.
\<close>

theorem dexopt_success:
  assumes run: "dexopt d flt ps apk_path uid pkgname instruction_set dexopt_needed oat_dir
                  dexopt_flags volume_uuid use_profiles s = (Returns 0, s')"
    and forked: "\<not> (use_profiles \<and> fst (open_profile_files d flt volume_uuid uid pkgname s) = [])"
    and wf: "fs_wf s"
  shows "\<exists>out_path input_file input_stat.
           dexopt_out_path d apk_path instruction_set oat_dir = Some out_path \<and>
           dexopt_input_file d apk_path instruction_set dexopt_needed out_path = Inr input_file \<and>
           sys_stat s input_file = Some input_stat \<and>
           sys_stat s' out_path =
             Some \<lparr>st_mode = (if DEXOPT_PUBLIC \<in> dexopt_flags then mode_0644 else mode_0640),
                   st_uid = AID_SYSTEM, st_gid = uid,
                   st_atime = st_atime input_stat, st_mtime = st_mtime input_stat\<rparr>"
proof -
  obtain pf rf s1 where
    p: "(if use_profiles then open_profile_files d flt volume_uuid uid pkgname s
         else ([], [], s)) = (pf, rf, s1)"
    using prod_cases3 by blast
  have k: "keeps_files s s1" using p by (rule dexopt_profile_phase)
  have f: "\<not> (use_profiles \<and> pf = [])"
    using forked p by (cases use_profiles) auto
  from run p f obtain out_path input_file where
    fits: "\<not> length apk_path \<ge> PKG_PATH_MAX d - 8" and
    out: "dexopt_out_path d apk_path instruction_set oat_dir = Some out_path" and
    inp: "dexopt_input_file d apk_path instruction_set dexopt_needed out_path = Inr input_file"
    unfolding dexopt_def p
    by (auto split: if_splits option.splits sum.splits dest: dexopt_input_file_ended)
  note c = dexopt_compile_cases [OF dexopt_reaches_compile [OF run p f fits out inp]]
  from c have n1: "names s1 input_file \<noteq> None" and
    st: "sys_stat s' out_path =
           Some \<lparr>st_mode = (if DEXOPT_PUBLIC \<in> dexopt_flags then mode_0644 else mode_0640),
                 st_uid = AID_SYSTEM, st_gid = uid,
                 st_atime = st_atime (case sys_stat s1 input_file of None \<Rightarrow> zero_stat
                                       | Some st \<Rightarrow> st),
                 st_mtime = st_mtime (case sys_stat s1 input_file of None \<Rightarrow> zero_stat
                                       | Some st \<Rightarrow> st)\<rparr>"
    by simp_all
  have "names s input_file \<noteq> None" using n1 k by (simp add: keeps_files_def)
  from keeps_files_stat [OF k wf this] obtain st0 st1 where
    "sys_stat s input_file = Some st0" "sys_stat s1 input_file = Some st1"
    "st_atime st1 = st_atime st0" "st_mtime st1 = st_mtime st0"
    by blast
  with st out inp show ?thesis by simp
qed






lemma example_fs_wf: "fs_wf example_fs"
  by (simp add: fs_wf_def example_fs_def)

theorem dexopt_success_witness:
  "fs_wf example_fs \<and>
   fst (dexopt (example_deps :: fs deps) no_faults no_properties ''/data/app/a.apk'' 10042 ''com.x''
          ''arm64'' DEXOPT_DEX2OAT_NEEDED None {DEXOPT_PUBLIC} None False example_fs) = Returns 0 \<and>
   dexopt_out_path (example_deps :: fs deps) ''/data/app/a.apk'' ''arm64'' None
     = Some ''/data/dalvik-cache/arm64/data@app@a.apk@classes.dex'' \<and>
   dexopt_input_file (example_deps :: fs deps) ''/data/app/a.apk'' ''arm64'' DEXOPT_DEX2OAT_NEEDED
       ''/data/dalvik-cache/arm64/data@app@a.apk@classes.dex'' = Inr ''/data/app/a.apk'' \<and>
   sys_stat example_fs ''/data/app/a.apk'' = Some example_apk \<and>
   sys_stat (snd (dexopt (example_deps :: fs deps) no_faults no_properties ''/data/app/a.apk'' 10042
                    ''com.x'' ''arm64'' DEXOPT_DEX2OAT_NEEDED None {DEXOPT_PUBLIC} None False
                    example_fs))
       ''/data/dalvik-cache/arm64/data@app@a.apk@classes.dex''
     = Some \<lparr>st_mode = mode_0644, st_uid = AID_SYSTEM, st_gid = 10042,
             st_atime = st_atime example_apk, st_mtime = st_mtime example_apk\<rparr>"
proof -
  let ?run = "dexopt (example_deps :: fs deps) no_faults no_properties ''/data/app/a.apk'' 10042
                ''com.x'' ''arm64'' DEXOPT_DEX2OAT_NEEDED None {DEXOPT_PUBLIC} None False example_fs"
  have r: "?run = (Returns 0, snd ?run)" and r0: "fst ?run = Returns 0"
    by (simp_all add: dexopt_example_run)
  have i: "dexopt_input_file (example_deps :: fs deps) ''/data/app/a.apk'' ''arm64''
             DEXOPT_DEX2OAT_NEEDED ''/data/dalvik-cache/arm64/data@app@a.apk@classes.dex''
           = Inr ''/data/app/a.apk''"
    by (simp add: dexopt_input_file_def)
  have st: "sys_stat example_fs ''/data/app/a.apk'' = Some example_apk"
    by (simp add: sys_stat_def example_fs_def)
  from dexopt_success [OF r _ example_fs_wf]
  have "sys_stat (snd ?run) ''/data/dalvik-cache/arm64/data@app@a.apk@classes.dex''
     = Some \<lparr>st_mode = mode_0644, st_uid = AID_SYSTEM, st_gid = 10042,
             st_atime = st_atime example_apk, st_mtime = st_mtime example_apk\<rparr>"
    using out_a i st by auto
  with example_fs_wf r0 out_a i st show ?thesis by simp
qed



end
